theory Spec2Isabelle
  imports Complex_Main
begin

section \<open>Data model of the table game (pong-game.js, ar-scene.js)\<close>

text \<open>
  JavaScript numbers are modelled as exact reals (counters and the level as integers), so
  every statement below is one of exact arithmetic. \<open>Math.random()\<close> is an oracle
  \<open>R :: nat \<Rightarrow> real\<close>: the \<open>n\<close>-th call of a session returns \<open>R n\<close>, and the field
  \<open>drawn\<close> counts the calls made so far. Sounds (\<open>playSound\<close>), material flashes
  (\<open>flashPaddle\<close>), the score display, debug logging and scene-graph membership
  (\<open>addObject\<close>, \<open>removeObject\<close>) only touch the audio, page and rendering back ends
  and are not part of the state.
\<close>

record Vector3 =
  vec_x :: real
  vec_y :: real
  vec_z :: real

record Vector2 =
  v2_x :: real
  v2_y :: real

record Color =
  col_r :: real
  col_g :: real
  col_b :: real

text \<open>
  A colour built from a hexadecimal literal, one byte per channel, without conversion
  between colour spaces. No game logic reads a colour.
\<close>

definition hexColor :: "nat \<Rightarrow> Color" where
  "hexColor h = \<lparr>col_r = real ((h div 65536) mod 256) / 255,
                 col_g = real ((h div 256) mod 256) / 255,
                 col_b = real (h mod 256) / 255\<rparr>"

text \<open>
  A pooled particle system: the buffers \<open>positions\<close>, \<open>colors\<close>, \<open>sizes\<close> and
  \<open>velocities\<close> are the typed arrays of the source (a write beyond the end of a typed
  array is ignored, as is \<open>xs[i := v]\<close> beyond the end of a list); \<open>active\<close>,
  \<open>lifetime\<close> and \<open>maxLifetime\<close> are its \<open>userData\<close>.
\<close>

record ParticleSystem =
  ps_position :: Vector3
  ps_visible :: bool
  positions :: "real list"
  colors :: "real list"
  sizes :: "real list"
  velocities :: "real list"
  active :: bool
  lifetime :: real
  maxLifetime :: real

text \<open>A floating \<open>+1\<close> sprite with its animation data.\<close>

record ScoreIndicator =
  ind_position :: Vector3
  ind_scale :: Vector3
  ind_opacity :: real
  ind_isPlayer :: bool
  ind_lifetime :: real
  ind_maxLifetime :: real
  ind_initialY :: real

text \<open>
  The callbacks handed to \<open>setTimeout\<close>: the delayed first serve, one celebratory burst,
  and the start of the next game. An entry of \<open>timeouts\<close> is the delay in milliseconds
  and the callback, in the order of scheduling.
\<close>

datatype timeout = LaunchBall | Celebrate | ResetGame

text \<open>
  The part of the scene the game talks to: the list of per-frame callbacks, which holds
  references to function objects. \<open>allocated\<close> is the number of function objects created
  so far: \<open>Function.prototype.bind\<close> returns a new object, with a reference of its own, at
  every call.
\<close>

record ARScene =
  onUpdateCallbacks :: "nat list"
  allocated :: nat

record PongGame =
  arScene :: ARScene
  ball_position :: Vector3
  ball_rotation :: Vector3
  trail :: "real list"
  playerPaddle_position :: Vector3
  aiPaddle_position :: Vector3
  particles :: "nat list"
  scoreIndicators :: "ScoreIndicator list"
  isPlaying :: bool
  playerScore :: int
  aiScore :: int
  ballVelocity :: Vector3
  ballSpeed :: real
  lastPosition :: Vector3
  gameLevel :: int
  pointerDown :: bool
  lastPointerPosition :: Vector2
  pointerDelta :: Vector2
  particlePool :: "ParticleSystem list"
  trailUpdateCounter :: nat
  timeouts :: "(nat \<times> timeout) list"
  drawn :: nat

text \<open>
  \<open>particles\<close> holds references into the pool: the index of each active system.
\<close>

subsection \<open>Constants of the constructor\<close>

definition winningScore :: int where "winningScore = 5"
definition tableWidth :: real where "tableWidth = 0.8"
definition tableDepth :: real where "tableDepth = 1.2"
definition tableHeight :: real where "tableHeight = 0.01"
definition playAreaHeight :: real where "playAreaHeight = 0.6"
definition paddleWidth :: real where "paddleWidth = 0.15"
definition paddleHeight :: real where "paddleHeight = 0.15"
definition paddleDepth :: real where "paddleDepth = 0.01"
definition ballRadius :: real where "ballRadius = 0.02"
definition gravity :: real where "gravity = - 0.3"
definition groundDamping :: real where "groundDamping = 0.8"
definition paddleVerticalRange :: real where
  "paddleVerticalRange = playAreaHeight - paddleHeight"
definition paddleDepthRange :: real where
  "paddleDepthRange = tableDepth * 0.4"
definition aiPaddleMovementSpeed :: real where "aiPaddleMovementSpeed = 0.5"
definition verticalSensitivity :: real where "verticalSensitivity = 1.0"
definition depthSensitivity :: real where "depthSensitivity = 0.5"

definition magnitude :: "Vector3 \<Rightarrow> real" where
  "magnitude v = sqrt (vec_x v * vec_x v + vec_y v * vec_y v + vec_z v * vec_z v)"

section \<open>Effects: the particle pool\<close>

text \<open>\<open>createParticleSystem(count)\<close>: four random draws for each particle.\<close>

definition initParticle :: "(nat \<Rightarrow> real) \<Rightarrow> nat \<Rightarrow> real list \<times> real list \<times> real list
    \<Rightarrow> nat \<Rightarrow> real list \<times> real list \<times> real list" where
  "initParticle R d bufs i =
     (case bufs of (pos, col, siz) \<Rightarrow>
        (pos[i * 3 := 0, i * 3 + 1 := 0, i * 3 + 2 := 0],
         col[i * 3 := R (d + 4 * i), i * 3 + 1 := R (d + 4 * i + 1),
             i * 3 + 2 := R (d + 4 * i + 2)],
         siz[i := 0.01 + R (d + 4 * i + 3) * 0.02]))"

definition createParticleSystem :: "(nat \<Rightarrow> real) \<Rightarrow> nat \<Rightarrow> nat \<Rightarrow> ParticleSystem" where
  "createParticleSystem R d count =
     (case foldl (initParticle R d)
             (replicate (count * 3) 0, replicate (count * 3) 0, replicate count 0) [0..<count]
      of (pos, col, siz) \<Rightarrow>
        \<lparr>ps_position = \<lparr>vec_x = 0, vec_y = 0, vec_z = 0\<rparr>, ps_visible = True,
         positions = pos, colors = col, sizes = siz,
         velocities = replicate (count * 3) 0,
         active = False, lifetime = 0, maxLifetime = 1.0\<rparr>)"

text \<open>\<open>createParticlePool\<close>: ten systems of the default thirty particles, pushed hidden.\<close>

definition addPooledSystem :: "(nat \<Rightarrow> real) \<Rightarrow> PongGame \<Rightarrow> PongGame" where
  "addPooledSystem R s =
     (let particleSystem = createParticleSystem R (drawn s) 30
      in s\<lparr>particlePool := particlePool s @ [particleSystem\<lparr>ps_visible := False\<rparr>],
           drawn := drawn s + 4 * 30\<rparr>)"

definition createParticlePool :: "(nat \<Rightarrow> real) \<Rightarrow> PongGame \<Rightarrow> PongGame" where
  "createParticlePool R s = foldl (\<lambda>s i. addPooledSystem R s) s [0..<10]"

text \<open>A pooled system that is not in use, as \<open>createParticleSystem\<close> makes them.\<close>

definition idle :: "ParticleSystem \<Rightarrow> bool" where
  "idle ps = (\<not> active ps \<and> lifetime ps = 0 \<and> maxLifetime ps = 1)"

text \<open>The scan of \<open>emitParticles\<close>: the first pool slot that is not active.\<close>

fun findInactive :: "ParticleSystem list \<Rightarrow> nat option" where
  "findInactive [] = None"
| "findInactive (ps # rest) =
     (if \<not> active ps then Some 0 else map_option Suc (findInactive rest))"

text \<open>One round of the set-up loop of \<open>emitParticles\<close>: three random draws.\<close>

definition emitParticle :: "(nat \<Rightarrow> real) \<Rightarrow> nat \<Rightarrow> Color \<Rightarrow> real
    \<Rightarrow> real list \<times> real list \<times> real list \<Rightarrow> nat \<Rightarrow> real list \<times> real list \<times> real list" where
  "emitParticle R d color speed bufs i =
     (case bufs of (pos, col, vel) \<Rightarrow>
        (let theta = R (d + 3 * i) * pi * 2;
             phi = R (d + 3 * i + 1) * pi;
             r = R (d + 3 * i + 2) * speed
         in (pos[i * 3 := 0, i * 3 + 1 := 0, i * 3 + 2 := 0],
             col[i * 3 := col_r color, i * 3 + 1 := col_g color, i * 3 + 2 := col_b color],
             vel[i * 3 := r * sin phi * cos theta,
                 i * 3 + 1 := r * sin phi * sin theta,
                 i * 3 + 2 := r * cos phi])))"

definition scatter :: "(nat \<Rightarrow> real) \<Rightarrow> nat \<Rightarrow> Color \<Rightarrow> nat \<Rightarrow> real
    \<Rightarrow> ParticleSystem \<Rightarrow> ParticleSystem" where
  "scatter R d color count speed ps =
     (case foldl (emitParticle R d color speed)
             (positions ps, colors ps, velocities ps) [0..<count]
      of (pos, col, vel) \<Rightarrow> ps\<lparr>positions := pos, colors := col, velocities := vel\<rparr>)"

definition emitParticles :: "(nat \<Rightarrow> real) \<Rightarrow> Vector3 \<Rightarrow> Color \<Rightarrow> nat \<Rightarrow> real
    \<Rightarrow> PongGame \<Rightarrow> PongGame" where
  "emitParticles R position color count speed s =
     (case findInactive (particlePool s) of
        None \<Rightarrow> s
      | Some k \<Rightarrow>
          (let particleSystem = (particlePool s ! k)\<lparr>ps_position := position, ps_visible := True\<rparr>;
               particleSystem = scatter R (drawn s) color count speed particleSystem;
               particleSystem = particleSystem\<lparr>active := True, lifetime := 0\<rparr>
           in s\<lparr>particlePool := (particlePool s)[k := particleSystem],
                particles := particles s @ [k],
                drawn := drawn s + 3 * count\<rparr>))"


text \<open>
  One round of the inner loop of \<open>updateParticles\<close>: the particle moves by its velocity,
  then its vertical velocity drops and its colour fades. The three buffers of a pooled
  system have the same length, three entries for each particle.
\<close>

definition advanceParticle :: "real \<Rightarrow> real \<Rightarrow> real list \<times> real list \<times> real list
    \<Rightarrow> nat \<Rightarrow> real list \<times> real list \<times> real list" where
  "advanceParticle deltaTime alpha bufs j =
     (case bufs of (pos, vel, col) \<Rightarrow>
        (pos[j * 3 := pos ! (j * 3) + vel ! (j * 3) * deltaTime,
             j * 3 + 1 := pos ! (j * 3 + 1) + vel ! (j * 3 + 1) * deltaTime,
             j * 3 + 2 := pos ! (j * 3 + 2) + vel ! (j * 3 + 2) * deltaTime],
         vel[j * 3 + 1 := vel ! (j * 3 + 1) - 0.01 * deltaTime],
         col[j * 3 := col ! (j * 3) * alpha,
             j * 3 + 1 := col ! (j * 3 + 1) * alpha,
             j * 3 + 2 := col ! (j * 3 + 2) * alpha]))"

definition advanceParticles :: "real \<Rightarrow> ParticleSystem \<Rightarrow> ParticleSystem" where
  "advanceParticles deltaTime ps =
     (let lifePercent = lifetime ps / maxLifetime ps;
          alpha = 1 - lifePercent
      in case foldl (advanceParticle deltaTime alpha)
              (positions ps, velocities ps, colors ps)
              [0..<(length (positions ps) + 2) div 3]
         of (pos, vel, col) \<Rightarrow> ps\<lparr>positions := pos, velocities := vel, colors := col\<rparr>)"

text \<open>
  One round of the outer loop of \<open>updateParticles\<close> on the active system \<open>k\<close>: an
  expired system is deactivated and spliced out of \<open>particles\<close>, a live one is kept.
\<close>

definition updateParticleSystem :: "real \<Rightarrow> ParticleSystem list \<times> nat list \<Rightarrow> nat
    \<Rightarrow> ParticleSystem list \<times> nat list" where
  "updateParticleSystem deltaTime acc k =
     (case acc of (pool, kept) \<Rightarrow>
        (let ps = pool ! k;
             ps = ps\<lparr>lifetime := lifetime ps + deltaTime\<rparr>
         in if lifetime ps \<ge> maxLifetime ps
            then (pool[k := ps\<lparr>active := False, ps_visible := False\<rparr>], kept)
            else (pool[k := advanceParticles deltaTime ps], kept @ [k])))"

definition updateParticles :: "real \<Rightarrow> PongGame \<Rightarrow> PongGame" where
  "updateParticles deltaTime s =
     (case foldl (updateParticleSystem deltaTime) (particlePool s, []) (particles s)
      of (pool, kept) \<Rightarrow> s\<lparr>particlePool := pool, particles := kept\<rparr>)"

text \<open>\<open>updateTrail\<close>: every second call shifts the trail by one particle, last one first.\<close>

definition shiftTrail :: "real list \<Rightarrow> real list" where
  "shiftTrail ps =
     (foldl (\<lambda>p i. p[i * 3 := p ! ((i - 1) * 3),
                      i * 3 + 1 := p ! ((i - 1) * 3 + 1),
                      i * 3 + 2 := p ! ((i - 1) * 3 + 2)])
        ps (rev [1..<length ps div 3]))
     [0 := 0, 1 := 0, 2 := 0]"

definition updateTrail :: "PongGame \<Rightarrow> PongGame" where
  "updateTrail s =
     (let s = s\<lparr>trailUpdateCounter := trailUpdateCounter s + 1\<rparr>
      in if trailUpdateCounter s mod 2 \<noteq> 0 then s else s\<lparr>trail := shiftTrail (trail s)\<rparr>)"

section \<open>Score indicators\<close>

definition createScoreIndicator :: "Vector3 \<Rightarrow> bool \<Rightarrow> PongGame \<Rightarrow> PongGame" where
  "createScoreIndicator position isPlayer s =
     s\<lparr>scoreIndicators := scoreIndicators s @
        [\<lparr>ind_position = position\<lparr>vec_y := vec_y position + 0.2\<rparr>,
          ind_scale = \<lparr>vec_x = 0.2, vec_y = 0.1, vec_z = 1\<rparr>,
          ind_opacity = 1.0,
          ind_isPlayer = isPlayer,
          ind_lifetime = 0,
          ind_maxLifetime = 1.5,
          ind_initialY = vec_y position + 0.2\<rparr>]\<rparr>"

text \<open>One round of \<open>updateScoreIndicators\<close>: \<open>None\<close> when the sprite has expired.\<close>

definition updateScoreIndicator :: "real \<Rightarrow> ScoreIndicator \<Rightarrow> ScoreIndicator option" where
  "updateScoreIndicator deltaTime indicator =
     (let indicator = indicator\<lparr>ind_lifetime := ind_lifetime indicator + deltaTime\<rparr>
      in if ind_lifetime indicator \<ge> ind_maxLifetime indicator then None
         else
           (let progress = ind_lifetime indicator / ind_maxLifetime indicator;
                scale = 1 - progress * 0.3
            in Some (indicator\<lparr>
                 ind_position := (ind_position indicator)
                    \<lparr>vec_y := ind_initialY indicator + progress * 0.3\<rparr>,
                 ind_opacity := 1 - progress ^ 2,
                 ind_scale := \<lparr>vec_x = 0.2 * scale, vec_y = 0.1 * scale, vec_z = 1\<rparr>\<rparr>)))"

definition updateScoreIndicators :: "real \<Rightarrow> PongGame \<Rightarrow> PongGame" where
  "updateScoreIndicators deltaTime s =
     s\<lparr>scoreIndicators := List.map_filter (updateScoreIndicator deltaTime) (scoreIndicators s)\<rparr>"

section \<open>Serving\<close>

definition launchBall :: "(nat \<Rightarrow> real) \<Rightarrow> PongGame \<Rightarrow> PongGame" where
  "launchBall R s =
     (let horizontalAngle = R (drawn s) * pi * 2;
          verticalAngle = (R (drawn s + 1) - 0.5) * pi * 0.3;
          x = cos horizontalAngle * cos verticalAngle * ballSpeed s;
          y = sin verticalAngle * ballSpeed s;
          z = sin horizontalAngle * cos verticalAngle * ballSpeed s;
          z = (if \<bar>z\<bar> < 0.3 then (if z > 0 then 0.3 else - 0.3) else z);
          s = s\<lparr>ballVelocity := \<lparr>vec_x = x, vec_y = y, vec_z = z\<rparr>,
                lastPosition := ball_position s,
                drawn := drawn s + 2\<rparr>
      in emitParticles R (ball_position s) (hexColor 0x00ffff) 30 0.15 s)"

definition resetBall :: "(nat \<Rightarrow> real) \<Rightarrow> bool \<Rightarrow> PongGame \<Rightarrow> PongGame" where
  "resetBall R initialStart s =
     (let s = s\<lparr>ball_position := \<lparr>vec_x = 0, vec_y = tableHeight + ballRadius, vec_z = 0\<rparr>\<rparr>
      in if initialStart then s\<lparr>timeouts := timeouts s @ [(1000, LaunchBall)]\<rparr>
         else launchBall R s)"

section \<open>Scoring and the end of a game\<close>

definition checkGameEnd :: "PongGame \<Rightarrow> PongGame" where
  "checkGameEnd s =
     (if playerScore s \<ge> winningScore \<or> aiScore s \<ge> winningScore
      then s\<lparr>timeouts := timeouts s @ map (\<lambda>i. (i * 300, Celebrate)) [0..<5]
                                      @ [(3000, ResetGame)]\<rparr>
      else s)"

text \<open>The bodies of the three delayed callbacks.\<close>

definition celebrate :: "(nat \<Rightarrow> real) \<Rightarrow> PongGame \<Rightarrow> PongGame" where
  "celebrate R s =
     (let x = (R (drawn s) - 0.5) * tableWidth;
          z = (R (drawn s + 1) - 0.5) * tableDepth;
          position = \<lparr>vec_x = x, vec_y = tableHeight + 0.1, vec_z = z\<rparr>;
          color = (if playerScore s > aiScore s then hexColor 0x00ff88 else hexColor 0xff3366)
      in emitParticles R position color 40 0.3 (s\<lparr>drawn := drawn s + 2\<rparr>))"

definition resetGame :: "(nat \<Rightarrow> real) \<Rightarrow> PongGame \<Rightarrow> PongGame" where
  "resetGame R s =
     (let s = s\<lparr>playerScore := 0, aiScore := 0\<rparr>;
          s = resetBall R True s;
          s = s\<lparr>gameLevel := gameLevel s + 1\<rparr>
      in s\<lparr>ballSpeed := min (0.5 + real_of_int (gameLevel s) * 0.05) 0.8\<rparr>)"

fun runTimeout :: "(nat \<Rightarrow> real) \<Rightarrow> timeout \<Rightarrow> PongGame \<Rightarrow> PongGame" where
  "runTimeout R LaunchBall s = launchBall R s"
| "runTimeout R Celebrate s = celebrate R s"
| "runTimeout R ResetGame s = resetGame R s"

text \<open>
  The browser runs the pending callback \<open>k\<close> once its delay has passed; which one is due
  is the browser's business, so \<open>k\<close> is a parameter.
\<close>

definition fireTimeout :: "(nat \<Rightarrow> real) \<Rightarrow> nat \<Rightarrow> PongGame \<Rightarrow> PongGame" where
  "fireTimeout R k s =
     (if k < length (timeouts s)
      then runTimeout R (snd (timeouts s ! k))
             (s\<lparr>timeouts := take k (timeouts s) @ drop (Suc k) (timeouts s)\<rparr>)
      else s)"

definition checkScoring :: "(nat \<Rightarrow> real) \<Rightarrow> PongGame \<Rightarrow> PongGame" where
  "checkScoring R s =
     (let s = (if vec_z (ball_position s) > tableDepth / 2 + ballRadius
               then (let s = s\<lparr>aiScore := aiScore s + 1\<rparr>;
                         s = createScoreIndicator (ball_position s) False s;
                         s = emitParticles R (ball_position s) (hexColor 0xff3366) 40 0.25 s;
                         s = resetBall R False s
                     in checkGameEnd s)
               else s)
      in if vec_z (ball_position s) < - tableDepth / 2 - ballRadius
         then (let s = s\<lparr>playerScore := playerScore s + 1\<rparr>;
                   s = createScoreIndicator (ball_position s) True s;
                   s = emitParticles R (ball_position s) (hexColor 0x00ff88) 40 0.25 s;
                   s = resetBall R False s
               in checkGameEnd s)
         else s)"

section \<open>Paddle collisions\<close>

definition multiplyScalar :: "Vector3 \<Rightarrow> real \<Rightarrow> Vector3" where
  "multiplyScalar v k = \<lparr>vec_x = vec_x v * k, vec_y = vec_y v * k, vec_z = vec_z v * k\<rparr>"

definition add :: "Vector3 \<Rightarrow> Vector3 \<Rightarrow> Vector3" where
  "add v w = \<lparr>vec_x = vec_x v + vec_x w, vec_y = vec_y v + vec_y w, vec_z = vec_z v + vec_z w\<rparr>"

text \<open>The first block of \<open>checkPaddleCollisions\<close>: the player paddle, at the +Z end.\<close>

definition playerPaddleCollision :: "(nat \<Rightarrow> real) \<Rightarrow> PongGame \<Rightarrow> PongGame" where
  "playerPaddleCollision R s =
     (if vec_z (ballVelocity s) > 0 \<and>
         vec_z (ball_position s) + ballRadius > vec_z (playerPaddle_position s) - paddleDepth / 2 \<and>
         vec_z (lastPosition s) + ballRadius \<le> vec_z (playerPaddle_position s) - paddleDepth / 2
      then
        (let paddleMinX = vec_x (playerPaddle_position s) - paddleWidth / 2;
             paddleMaxX = vec_x (playerPaddle_position s) + paddleWidth / 2;
             paddleMinY = vec_y (playerPaddle_position s) - paddleHeight / 2;
             paddleMaxY = vec_y (playerPaddle_position s) + paddleHeight / 2
         in if vec_x (ball_position s) \<ge> paddleMinX \<and>
               vec_x (ball_position s) \<le> paddleMaxX \<and>
               vec_y (ball_position s) \<ge> paddleMinY \<and>
               vec_y (ball_position s) \<le> paddleMaxY
            then
              (let v = (ballVelocity s)\<lparr>vec_z := vec_z (ballVelocity s) * (- 1.05)\<rparr>;
                   hitX = (vec_x (ball_position s) - vec_x (playerPaddle_position s))
                            / (paddleWidth / 2);
                   hitY = (vec_y (ball_position s) - vec_y (playerPaddle_position s))
                            / (paddleHeight / 2);
                   v = v\<lparr>vec_x := vec_x v + hitX * 0.5\<rparr>;
                   v = v\<lparr>vec_y := vec_y v + hitY * 0.5\<rparr>;
                   speed = sqrt (vec_x v * vec_x v + vec_y v * vec_y v + vec_z v * vec_z v);
                   v = multiplyScalar v (ballSpeed s / speed);
                   s = s\<lparr>ballVelocity := v\<rparr>;
                   s = s\<lparr>ball_position := (ball_position s)
                          \<lparr>vec_z := vec_z (playerPaddle_position s) - paddleDepth / 2 - ballRadius\<rparr>\<rparr>
               in emitParticles R (ball_position s) (hexColor 0x00ff88) 30 0.2 s)
            else s)
      else s)"

text \<open>The second block: the AI paddle, at the -Z end.\<close>

definition aiPaddleCollision :: "(nat \<Rightarrow> real) \<Rightarrow> PongGame \<Rightarrow> PongGame" where
  "aiPaddleCollision R s =
     (if vec_z (ballVelocity s) < 0 \<and>
         vec_z (ball_position s) - ballRadius < vec_z (aiPaddle_position s) + paddleDepth / 2 \<and>
         vec_z (lastPosition s) - ballRadius \<ge> vec_z (aiPaddle_position s) + paddleDepth / 2
      then
        (let paddleMinX = vec_x (aiPaddle_position s) - paddleWidth / 2;
             paddleMaxX = vec_x (aiPaddle_position s) + paddleWidth / 2;
             paddleMinY = vec_y (aiPaddle_position s) - paddleHeight / 2;
             paddleMaxY = vec_y (aiPaddle_position s) + paddleHeight / 2
         in if vec_x (ball_position s) \<ge> paddleMinX \<and>
               vec_x (ball_position s) \<le> paddleMaxX \<and>
               vec_y (ball_position s) \<ge> paddleMinY \<and>
               vec_y (ball_position s) \<le> paddleMaxY
            then
              (let v = (ballVelocity s)\<lparr>vec_z := vec_z (ballVelocity s) * (- 1.05)\<rparr>;
                   hitX = (vec_x (ball_position s) - vec_x (aiPaddle_position s))
                            / (paddleWidth / 2);
                   hitY = (vec_y (ball_position s) - vec_y (aiPaddle_position s))
                            / (paddleHeight / 2);
                   v = v\<lparr>vec_x := vec_x v + hitX * 0.5\<rparr>;
                   v = v\<lparr>vec_y := vec_y v + hitY * 0.5\<rparr>;
                   speed = sqrt (vec_x v * vec_x v + vec_y v * vec_y v + vec_z v * vec_z v);
                   v = multiplyScalar v (ballSpeed s / speed);
                   s = s\<lparr>ballVelocity := v\<rparr>;
                   s = s\<lparr>ball_position := (ball_position s)
                          \<lparr>vec_z := vec_z (aiPaddle_position s) + paddleDepth / 2 + ballRadius\<rparr>\<rparr>
               in emitParticles R (ball_position s) (hexColor 0xff3366) 30 0.2 s)
            else s)
      else s)"

definition checkPaddleCollisions :: "(nat \<Rightarrow> real) \<Rightarrow> PongGame \<Rightarrow> PongGame" where
  "checkPaddleCollisions R s = aiPaddleCollision R (playerPaddleCollision R s)"

section \<open>The AI paddle\<close>

text \<open>
  The first block of \<open>updateAI\<close>: while the ball comes towards the AI, the paddle moves a
  fraction \<open>aiSpeed\<close> of the way to the predicted ball position and to its base depth,
  with an occasional random nudge.
\<close>

definition trackBall :: "(nat \<Rightarrow> real) \<Rightarrow> real \<Rightarrow> PongGame \<Rightarrow> PongGame" where
  "trackBall R deltaTime s =
     (let difficulty = min (0.4 + real_of_int (gameLevel s) * 0.05) 0.9;
          aiSpeed = aiPaddleMovementSpeed * difficulty;
          predictedPosition =
            add (ball_position s) (multiplyScalar (ballVelocity s) (deltaTime * 60))
      in if vec_z (ballVelocity s) < 0
         then
           (let targetX = vec_x predictedPosition;
                targetY = vec_y predictedPosition;
                targetZ = - tableDepth / 2 + 0.05;
                p = aiPaddle_position s;
                p = \<lparr>vec_x = vec_x p + (targetX - vec_x p) * aiSpeed,
                     vec_y = vec_y p + (targetY - vec_y p) * aiSpeed,
                     vec_z = vec_z p + (targetZ - vec_z p) * aiSpeed\<rparr>;
                d = drawn s
            in if R d < 0.05
               then s\<lparr>aiPaddle_position :=
                        \<lparr>vec_x = vec_x p + (R (d + 1) - 0.5) * 0.05,
                         vec_y = vec_y p + (R (d + 2) - 0.5) * 0.05,
                         vec_z = vec_z p + (R (d + 3) - 0.5) * 0.02\<rparr>,
                      drawn := d + 4\<rparr>
               else s\<lparr>aiPaddle_position := p, drawn := d + 1\<rparr>)
         else s)"

text \<open>The second block of \<open>updateAI\<close>: the clamp of the paddle position.\<close>

definition clampAiPaddle :: "PongGame \<Rightarrow> PongGame" where
  "clampAiPaddle s =
     (let maxX = tableWidth / 2 - paddleWidth / 2;
          p = aiPaddle_position s
      in s\<lparr>aiPaddle_position :=
            \<lparr>vec_x = max (- maxX) (min maxX (vec_x p)),
             vec_y = max (tableHeight + paddleHeight / 2)
                         (min (tableHeight + paddleVerticalRange) (vec_y p)),
             vec_z = max (- tableDepth / 2 - paddleDepthRange)
                         (min (- tableDepth / 2 + 0.05) (vec_z p))\<rparr>\<rparr>)"

definition updateAI :: "(nat \<Rightarrow> real) \<Rightarrow> real \<Rightarrow> PongGame \<Rightarrow> PongGame" where
  "updateAI R deltaTime s = clampAiPaddle (trackBall R deltaTime s)"

section \<open>The player paddle\<close>

text \<open>
  \<open>updatePointerPosition\<close>: \<open>hit\<close> is the point where the pointer ray meets the touch
  plane in the anchor's frame, \<open>None\<close> when there is no anchor or no intersection.
\<close>

definition updatePointerPosition :: "real \<Rightarrow> real \<Rightarrow> real \<Rightarrow> real \<Rightarrow> bool \<Rightarrow> Vector3 option
    \<Rightarrow> PongGame \<Rightarrow> PongGame" where
  "updatePointerPosition clientX clientY innerWidth innerHeight debugMode hit s =
     (let newX = (clientX / innerWidth) * 2 - 1;
          newY = - ((clientY / innerHeight) * 2 - 1);
          s = (if pointerDown s
               then s\<lparr>pointerDelta := \<lparr>v2_x = newX - v2_x (lastPointerPosition s),
                                        v2_y = newY - v2_y (lastPointerPosition s)\<rparr>\<rparr>
               else s);
          s = s\<lparr>lastPointerPosition := \<lparr>v2_x = newX, v2_y = newY\<rparr>\<rparr>
      in if debugMode
         then
           (if pointerDown s
            then
              (let paddleX = vec_x (playerPaddle_position s) + v2_x (pointerDelta s);
                   maxX = tableWidth / 2 - paddleWidth / 2;
                   paddleY = vec_y (playerPaddle_position s)
                               + v2_y (pointerDelta s) * verticalSensitivity;
                   paddleZ = vec_z (playerPaddle_position s)
                               + v2_y (pointerDelta s) * depthSensitivity;
                   maxDepth = tableDepth / 2;
                   minDepth = maxDepth - paddleDepthRange
               in s\<lparr>playerPaddle_position :=
                     \<lparr>vec_x = max (- maxX) (min maxX paddleX),
                      vec_y = max (tableHeight + paddleHeight / 2)
                                  (min (tableHeight + paddleVerticalRange) paddleY),
                      vec_z = max minDepth (min maxDepth paddleZ)\<rparr>\<rparr>)
            else s)
         else
           (case hit of
              None \<Rightarrow> s
            | Some intersectionPoint \<Rightarrow>
                (let maxX = tableWidth / 2 - paddleWidth / 2;
                     verticalPos = max (tableHeight + paddleHeight / 2)
                                       (min (tableHeight + paddleVerticalRange)
                                            (vec_y intersectionPoint));
                     depthPos = max (tableDepth / 2 - paddleDepthRange)
                                    (min (tableDepth / 2) (vec_z intersectionPoint))
                 in s\<lparr>playerPaddle_position :=
                       \<lparr>vec_x = max (- maxX) (min maxX (vec_x intersectionPoint)),
                        vec_y = verticalPos,
                        vec_z = depthPos\<rparr>\<rparr>)))"

section \<open>The per-frame update\<close>

definition update :: "(nat \<Rightarrow> real) \<Rightarrow> real \<Rightarrow> PongGame \<Rightarrow> PongGame" where
  "update R deltaTime s =
     (if \<not> isPlaying s then s
      else
        (let s = s\<lparr>lastPosition := ball_position s\<rparr>;
             s = s\<lparr>ballVelocity := (ballVelocity s)
                    \<lparr>vec_y := vec_y (ballVelocity s) + gravity * deltaTime\<rparr>\<rparr>;
             s = s\<lparr>ball_position :=
                    \<lparr>vec_x = vec_x (ball_position s) + vec_x (ballVelocity s) * deltaTime,
                     vec_y = vec_y (ball_position s) + vec_y (ballVelocity s) * deltaTime,
                     vec_z = vec_z (ball_position s) + vec_z (ballVelocity s) * deltaTime\<rparr>\<rparr>;
             s = (if vec_y (ball_position s) < tableHeight + ballRadius
                  then
                    (let s = s\<lparr>ball_position := (ball_position s)
                                  \<lparr>vec_y := tableHeight + ballRadius\<rparr>,
                                ballVelocity := (ballVelocity s)
                                  \<lparr>vec_y := - vec_y (ballVelocity s) * groundDamping\<rparr>\<rparr>
                     in emitParticles R (ball_position s) (hexColor 0x3388ff) 20 0.1 s)
                  else if vec_y (ball_position s) > tableHeight + playAreaHeight - ballRadius
                  then
                    (let s = s\<lparr>ball_position := (ball_position s)
                                  \<lparr>vec_y := tableHeight + playAreaHeight - ballRadius\<rparr>,
                                ballVelocity := (ballVelocity s)
                                  \<lparr>vec_y := - vec_y (ballVelocity s) * groundDamping\<rparr>\<rparr>
                     in emitParticles R (ball_position s) (hexColor 0x3388ff) 20 0.1 s)
                  else s);
             s = updateTrail s;
             s = updateParticles deltaTime s;
             s = (if \<bar>vec_x (ball_position s)\<bar> > tableWidth / 2 - ballRadius
                  then
                    (let s = s\<lparr>ballVelocity := (ballVelocity s)
                                  \<lparr>vec_x := vec_x (ballVelocity s) * (- 1)\<rparr>,
                                ball_position := (ball_position s)
                                  \<lparr>vec_x := sgn (vec_x (ball_position s))
                                              * (tableWidth / 2 - ballRadius)\<rparr>\<rparr>
                     in emitParticles R (ball_position s) (hexColor 0x3388ff) 20 0.1 s)
                  else s);
             s = checkPaddleCollisions R s;
             s = checkScoring R s;
             s = updateAI R deltaTime s;
             s = s\<lparr>ball_rotation := (ball_rotation s)
                    \<lparr>vec_x := vec_x (ball_rotation s) + vec_z (ballVelocity s) * 2,
                     vec_z := vec_z (ball_rotation s) - vec_x (ballVelocity s) * 2\<rparr>\<rparr>
         in updateScoreIndicators deltaTime s))"

text \<open>
  The inline stretches of \<open>update\<close>, named one by one so that the order of the whole call
  can be stated: the integration step, the floor and ceiling test, the side-wall test and
  the spin of the ball.
\<close>

definition integrateBall :: "real \<Rightarrow> PongGame \<Rightarrow> PongGame" where
  "integrateBall deltaTime s =
     (let s = s\<lparr>lastPosition := ball_position s\<rparr>;
          s = s\<lparr>ballVelocity := (ballVelocity s)
                 \<lparr>vec_y := vec_y (ballVelocity s) + gravity * deltaTime\<rparr>\<rparr>
      in s\<lparr>ball_position :=
            \<lparr>vec_x = vec_x (ball_position s) + vec_x (ballVelocity s) * deltaTime,
             vec_y = vec_y (ball_position s) + vec_y (ballVelocity s) * deltaTime,
             vec_z = vec_z (ball_position s) + vec_z (ballVelocity s) * deltaTime\<rparr>\<rparr>)"

definition bounceY :: "(nat \<Rightarrow> real) \<Rightarrow> real \<Rightarrow> PongGame \<Rightarrow> PongGame" where
  "bounceY R bound s =
     (let s = s\<lparr>ball_position := (ball_position s)\<lparr>vec_y := bound\<rparr>,
                 ballVelocity := (ballVelocity s)
                   \<lparr>vec_y := - vec_y (ballVelocity s) * groundDamping\<rparr>\<rparr>
      in emitParticles R (ball_position s) (hexColor 0x3388ff) 20 0.1 s)"

definition floorCeilingCollision :: "(nat \<Rightarrow> real) \<Rightarrow> PongGame \<Rightarrow> PongGame" where
  "floorCeilingCollision R s =
     (if vec_y (ball_position s) < tableHeight + ballRadius
      then bounceY R (tableHeight + ballRadius) s
      else if vec_y (ball_position s) > tableHeight + playAreaHeight - ballRadius
      then bounceY R (tableHeight + playAreaHeight - ballRadius) s
      else s)"

definition sideWallCollision :: "(nat \<Rightarrow> real) \<Rightarrow> PongGame \<Rightarrow> PongGame" where
  "sideWallCollision R s =
     (if \<bar>vec_x (ball_position s)\<bar> > tableWidth / 2 - ballRadius
      then
        (let s = s\<lparr>ballVelocity := (ballVelocity s)
                      \<lparr>vec_x := vec_x (ballVelocity s) * (- 1)\<rparr>,
                    ball_position := (ball_position s)
                      \<lparr>vec_x := sgn (vec_x (ball_position s))
                                  * (tableWidth / 2 - ballRadius)\<rparr>\<rparr>
         in emitParticles R (ball_position s) (hexColor 0x3388ff) 20 0.1 s)
      else s)"

definition spinBall :: "PongGame \<Rightarrow> PongGame" where
  "spinBall s =
     s\<lparr>ball_rotation := (ball_rotation s)
        \<lparr>vec_x := vec_x (ball_rotation s) + vec_z (ballVelocity s) * 2,
         vec_z := vec_z (ball_rotation s) - vec_x (ballVelocity s) * 2\<rparr>\<rparr>"

text \<open>The game as \<open>update\<close> hands it to \<open>checkScoring\<close>.\<close>

definition beforeScoring :: "(nat \<Rightarrow> real) \<Rightarrow> real \<Rightarrow> PongGame \<Rightarrow> PongGame" where
  "beforeScoring R deltaTime s =
     checkPaddleCollisions R (sideWallCollision R (updateParticles deltaTime
       (updateTrail (floorCeilingCollision R (integrateBall deltaTime s)))))"

text \<open>
  The order of one call as the specification words it: physics, collisions, scoring, the
  AI, and only then the effects (particles, trail, score indicators).
\<close>

definition update_spec_order :: "(nat \<Rightarrow> real) \<Rightarrow> real \<Rightarrow> PongGame \<Rightarrow> PongGame" where
  "update_spec_order R deltaTime s =
     (if \<not> isPlaying s then s
      else
        (let s = integrateBall deltaTime s;
             s = floorCeilingCollision R s;
             s = sideWallCollision R s;
             s = checkPaddleCollisions R s;
             s = checkScoring R s;
             s = updateAI R deltaTime s;
             s = spinBall s;
             s = updateParticles deltaTime s;
             s = updateTrail s
         in updateScoreIndicators deltaTime s))"

section \<open>Session lifecycle\<close>

text \<open>\<open>this.update.bind(this)\<close>: a new function object, hence a reference not used before.\<close>

definition bindUpdate :: "ARScene \<Rightarrow> nat \<times> ARScene" where
  "bindUpdate sc = (allocated sc, sc\<lparr>allocated := allocated sc + 1\<rparr>)"

definition addUpdateCallback :: "nat \<Rightarrow> ARScene \<Rightarrow> ARScene" where
  "addUpdateCallback callback sc =
     sc\<lparr>onUpdateCallbacks := onUpdateCallbacks sc @ [callback]\<rparr>"

text \<open>\<open>Array.prototype.indexOf\<close>: the first index holding the same reference, if any.\<close>

fun indexOf :: "nat list \<Rightarrow> nat \<Rightarrow> nat option" where
  "indexOf [] callback = None"
| "indexOf (c # cs) callback =
     (if c = callback then Some 0 else map_option Suc (indexOf cs callback))"

definition removeUpdateCallback :: "nat \<Rightarrow> ARScene \<Rightarrow> ARScene" where
  "removeUpdateCallback callback sc =
     (case indexOf (onUpdateCallbacks sc) callback of
        None \<Rightarrow> sc
      | Some index \<Rightarrow>
          sc\<lparr>onUpdateCallbacks := take index (onUpdateCallbacks sc)
                                   @ drop (Suc index) (onUpdateCallbacks sc)\<rparr>)"

text \<open>
  The constructor. The meshes of the ball and the paddles are built by \<open>initialize\<close>; until
  then their positions are set to the origin.
\<close>

definition constructor :: "ARScene \<Rightarrow> PongGame" where
  "constructor sc =
     \<lparr>arScene = sc,
      ball_position = \<lparr>vec_x = 0, vec_y = 0, vec_z = 0\<rparr>,
      ball_rotation = \<lparr>vec_x = 0, vec_y = 0, vec_z = 0\<rparr>,
      trail = [],
      playerPaddle_position = \<lparr>vec_x = 0, vec_y = 0, vec_z = 0\<rparr>,
      aiPaddle_position = \<lparr>vec_x = 0, vec_y = 0, vec_z = 0\<rparr>,
      particles = [],
      scoreIndicators = [],
      isPlaying = False,
      playerScore = 0,
      aiScore = 0,
      ballVelocity = \<lparr>vec_x = 0, vec_y = 0, vec_z = 0\<rparr>,
      ballSpeed = 0.5,
      lastPosition = \<lparr>vec_x = 0, vec_y = 0, vec_z = 0\<rparr>,
      gameLevel = 1,
      pointerDown = False,
      lastPointerPosition = \<lparr>v2_x = 0, v2_y = 0\<rparr>,
      pointerDelta = \<lparr>v2_x = 0, v2_y = 0\<rparr>,
      particlePool = [],
      trailUpdateCounter = 0,
      timeouts = [],
      drawn = 0\<rparr>"

text \<open>\<open>createTrailEffect\<close>: fifty particles lined up behind the ball.\<close>

definition createTrailEffect :: "real list" where
  "createTrailEffect = concat (map (\<lambda>i. [0, 0, - real i * 0.01]) [0..<50])"

definition createBall :: "PongGame \<Rightarrow> PongGame" where
  "createBall s =
     s\<lparr>ball_position := \<lparr>vec_x = 0, vec_y = tableHeight + ballRadius, vec_z = 0\<rparr>,
       trail := createTrailEffect\<rparr>"

definition createPaddles :: "PongGame \<Rightarrow> PongGame" where
  "createPaddles s =
     s\<lparr>playerPaddle_position :=
         \<lparr>vec_x = 0, vec_y = tableHeight + paddleHeight / 2, vec_z = tableDepth / 2 - 0.05\<rparr>,
       aiPaddle_position :=
         \<lparr>vec_x = 0, vec_y = tableHeight + paddleHeight / 2, vec_z = - tableDepth / 2 + 0.05\<rparr>\<rparr>"

definition initialize :: "(nat \<Rightarrow> real) \<Rightarrow> PongGame \<Rightarrow> PongGame" where
  "initialize R s =
     (let s = createBall s;
          s = createPaddles s;
          s = createParticlePool R s;
          s = (case bindUpdate (arScene s) of
                 (callback, sc) \<Rightarrow> s\<lparr>arScene := addUpdateCallback callback sc\<rparr>);
          s = resetBall R True s;
          s = s\<lparr>isPlaying := True\<rparr>
      in s\<lparr>playerScore := 0, aiScore := 0\<rparr>)"

definition dispose :: "PongGame \<Rightarrow> PongGame" where
  "dispose s =
     (let s = (case bindUpdate (arScene s) of
                 (callback, sc) \<Rightarrow> s\<lparr>arScene := removeUpdateCallback callback sc\<rparr>)
      in s\<lparr>isPlaying := False\<rparr>)"

text \<open>
  The pointer listeners of \<open>setupEventListeners\<close>: \<open>pointerdown\<close>, \<open>pointermove\<close>, and
  \<open>pointerup\<close> or \<open>pointercancel\<close>.
\<close>

definition onPointerDown :: "real \<Rightarrow> real \<Rightarrow> real \<Rightarrow> real \<Rightarrow> bool \<Rightarrow> Vector3 option
    \<Rightarrow> PongGame \<Rightarrow> PongGame" where
  "onPointerDown clientX clientY innerWidth innerHeight debugMode hit s =
     updatePointerPosition clientX clientY innerWidth innerHeight debugMode hit
       (s\<lparr>pointerDown := True\<rparr>)"

definition onPointerMove :: "real \<Rightarrow> real \<Rightarrow> real \<Rightarrow> real \<Rightarrow> bool \<Rightarrow> Vector3 option
    \<Rightarrow> PongGame \<Rightarrow> PongGame" where
  "onPointerMove clientX clientY innerWidth innerHeight debugMode hit s =
     (if pointerDown s
      then updatePointerPosition clientX clientY innerWidth innerHeight debugMode hit s
      else s)"

definition onPointerUp :: "PongGame \<Rightarrow> PongGame" where
  "onPointerUp s = s\<lparr>pointerDown := False\<rparr>"

text \<open>
  The states of a session with the random source \<open>R\<close>: a new game is initialized, and
  from then on the host calls \<open>update\<close> once a frame, the browser runs pending timeouts
  and delivers pointer events, and the application may dispose of the game.
\<close>

inductive session :: "(nat \<Rightarrow> real) \<Rightarrow> PongGame \<Rightarrow> bool" for R :: "nat \<Rightarrow> real" where
  started: "session R (initialize R (constructor sc))"
| frame: "session R s \<Longrightarrow> session R (update R deltaTime s)"
| timeout: "session R s \<Longrightarrow> session R (fireTimeout R k s)"
| pointerdown: "session R s \<Longrightarrow>
    session R (onPointerDown clientX clientY innerWidth innerHeight debugMode hit s)"
| pointermove: "session R s \<Longrightarrow>
    session R (onPointerMove clientX clientY innerWidth innerHeight debugMode hit s)"
| pointerup: "session R s \<Longrightarrow> session R (onPointerUp s)"
| disposed: "session R s \<Longrightarrow> session R (dispose s)"

section \<open>Concrete states\<close>

text \<open>A random source whose every draw is one half.\<close>

definition steady :: "nat \<Rightarrow> real" where
  "steady n = 1 / 2"

text \<open>
  Two more random sources: for a serve along the x-axis (horizontal angle 0, vertical
  angle 0) and for a serve along the z-axis (horizontal angle a quarter turn).
\<close>

definition alongX :: "nat \<Rightarrow> real" where
  "alongX n = (if even n then 0 else 1 / 2)"

definition alongZ :: "nat \<Rightarrow> real" where
  "alongZ n = (if even n then 1 / 4 else 1 / 2)"

text \<open>A fresh game on an empty scene, before \<open>initialize\<close>.\<close>

definition scene0 :: ARScene where
  "scene0 = \<lparr>onUpdateCallbacks = [], allocated = 0\<rparr>"

text \<open>A game whose ten pool slots are all in use.\<close>

definition exhausted :: PongGame where
  "exhausted = (constructor scene0)
     \<lparr>particlePool := replicate 10
        \<lparr>ps_position = \<lparr>vec_x = 0, vec_y = 0, vec_z = 0\<rparr>, ps_visible = True,
         positions = replicate 90 0, colors = replicate 90 0, sizes = replicate 30 0,
         velocities = replicate 90 0, active = True, lifetime = 0, maxLifetime = 1.0\<rparr>,
      particles := [0, 1, 2, 3, 4, 5, 6, 7, 8, 9]\<rparr>"

text \<open>A game right after \<open>initialize\<close>, with every random draw equal to one half.\<close>

definition kickoff :: PongGame where
  "kickoff = initialize steady (constructor scene0)"

text \<open>
  The ball about to meet the player paddle: it moves straight towards +Z and its leading
  edge passes the paddle face during this tick. And the mirror image at the AI paddle.
\<close>

definition atPlayerPaddle :: PongGame where
  "atPlayerPaddle = kickoff
     \<lparr>ball_position := \<lparr>vec_x = 0, vec_y = 0.085, vec_z = 0.53\<rparr>,
      lastPosition := \<lparr>vec_x = 0, vec_y = 0.085, vec_z = 0.52\<rparr>,
      ballVelocity := \<lparr>vec_x = 0, vec_y = 0, vec_z = 0.5\<rparr>\<rparr>"

definition atAiPaddle :: PongGame where
  "atAiPaddle = kickoff
     \<lparr>ball_position := \<lparr>vec_x = 0.03, vec_y = 0.1, vec_z = - 0.53\<rparr>,
      lastPosition := \<lparr>vec_x = 0.03, vec_y = 0.1, vec_z = - 0.52\<rparr>,
      ballVelocity := \<lparr>vec_x = 0, vec_y = 0, vec_z = - 0.5\<rparr>\<rparr>"

text \<open>
  The ball beyond the player's end of the table, and beyond the AI's end; and a ball in
  flight that passes the player's end, wide of the paddle, within a tenth of a second.
\<close>

definition pastPlayerEnd :: PongGame where
  "pastPlayerEnd = kickoff
     \<lparr>ball_position := \<lparr>vec_x = 0.2, vec_y = 0.3, vec_z = 0.65\<rparr>,
      lastPosition := \<lparr>vec_x = 0.2, vec_y = 0.3, vec_z = 0.6\<rparr>,
      ballVelocity := \<lparr>vec_x = 0, vec_y = 0, vec_z = 0.5\<rparr>\<rparr>"

definition pastAiEnd :: PongGame where
  "pastAiEnd = kickoff
     \<lparr>ball_position := \<lparr>vec_x = 0.2, vec_y = 0.3, vec_z = - 0.65\<rparr>,
      lastPosition := \<lparr>vec_x = 0.2, vec_y = 0.3, vec_z = - 0.6\<rparr>,
      ballVelocity := \<lparr>vec_x = 0, vec_y = 0, vec_z = - 0.5\<rparr>\<rparr>"

definition leavingTable :: PongGame where
  "leavingTable = kickoff
     \<lparr>ball_position := \<lparr>vec_x = 0.2, vec_y = 0.3, vec_z = 0.6\<rparr>,
      lastPosition := \<lparr>vec_x = 0.2, vec_y = 0.3, vec_z = 0.595\<rparr>,
      ballVelocity := \<lparr>vec_x = 0, vec_y = 0, vec_z = 0.5\<rparr>\<rparr>"

definition leavingTableAi :: PongGame where
  "leavingTableAi = kickoff
     \<lparr>ball_position := \<lparr>vec_x = 0.2, vec_y = 0.3, vec_z = - 0.6\<rparr>,
      lastPosition := \<lparr>vec_x = 0.2, vec_y = 0.3, vec_z = - 0.595\<rparr>,
      ballVelocity := \<lparr>vec_x = 0, vec_y = 0, vec_z = - 0.5\<rparr>\<rparr>"

text \<open>Four points to one side, and the ball beyond the loser's end of the table.\<close>

definition matchPointAi :: PongGame where
  "matchPointAi = pastPlayerEnd\<lparr>aiScore := 4, playerScore := 2\<rparr>"

definition matchPointPlayer :: PongGame where
  "matchPointPlayer = pastAiEnd\<lparr>playerScore := 4, aiScore := 3\<rparr>"

text \<open>The ball about to reach the right-hand side wall, far from both paddles.\<close>

definition towardsWall :: PongGame where
  "towardsWall = kickoff
     \<lparr>ball_position := \<lparr>vec_x = 0.37, vec_y = 0.3, vec_z = 0\<rparr>,
      lastPosition := \<lparr>vec_x = 0.365, vec_y = 0.3, vec_z = - 0.003\<rparr>,
      ballVelocity := \<lparr>vec_x = 0.5, vec_y = 0, vec_z = 0.3\<rparr>\<rparr>"





text \<open>
  Four points each, no timeout pending, the player paddle to the right, and the ball
  about to leave the table at the AI's end.
\<close>

definition deuce :: PongGame where
  "deuce = kickoff
     \<lparr>timeouts := [],
      playerScore := 4,
      aiScore := 4,
      playerPaddle_position := \<lparr>vec_x = 0.3, vec_y = 0.085, vec_z = 0.55\<rparr>,
      ball_position := \<lparr>vec_x = 0.2, vec_y = 0.3, vec_z = - 0.6\<rparr>,
      lastPosition := \<lparr>vec_x = 0.2, vec_y = 0.3, vec_z = - 0.595\<rparr>,
      ballVelocity := \<lparr>vec_x = 0, vec_y = 0, vec_z = - 0.5\<rparr>\<rparr>"

text \<open>
  A run from \<open>deuce\<close>, through the callbacks in the order of their due times. The frame at
  0.1 s takes the ball past the AI's end (five to four), and the serve that follows goes
  straight at the player's end. The five bursts of that game end run (0.1 s to 1.3 s), the
  next frame comes 1.3 s after the first and takes the ball past the player's end (five
  all), and the bursts of that second game end run (1.4 s to 2.6 s). Then the reset of the
  first game end runs (3.1 s), the serve it schedules (4.1 s), and the reset of the second
  game end (4.4 s).
\<close>

definition firstPoint :: PongGame where
  "firstPoint = update alongZ (1 / 10) deuce"

definition firstBursts :: PongGame where
  "firstBursts = fireTimeout alongZ 0 (fireTimeout alongZ 0 (fireTimeout alongZ 0
                   (fireTimeout alongZ 0 (fireTimeout alongZ 0 firstPoint))))"

definition secondPoint :: PongGame where
  "secondPoint = update alongZ (13 / 10) firstBursts"

definition secondBursts :: PongGame where
  "secondBursts = fireTimeout alongZ 1 (fireTimeout alongZ 1 (fireTimeout alongZ 1
                    (fireTimeout alongZ 1 (fireTimeout alongZ 1 secondPoint))))"

definition firstReset :: PongGame where
  "firstReset = fireTimeout alongZ 0 secondBursts"

definition served :: PongGame where
  "served = fireTimeout alongZ 1 firstReset"

definition secondReset :: PongGame where
  "secondReset = fireTimeout alongZ 0 served"

section \<open>Constants and frame lemmas\<close>

lemmas dims =
  winningScore_def tableWidth_def tableDepth_def tableHeight_def playAreaHeight_def
  paddleWidth_def paddleHeight_def paddleDepth_def ballRadius_def gravity_def
  groundDamping_def paddleVerticalRange_def paddleDepthRange_def
  aiPaddleMovementSpeed_def verticalSensitivity_def depthSensitivity_def

lemma findInactive_None: "findInactive pool = None \<longleftrightarrow> (\<forall>ps \<in> set pool. active ps)"
  by (induction pool) auto

lemma findInactive_Some: "findInactive pool = Some k \<Longrightarrow> k < length pool \<and> \<not> active (pool ! k)"
  by (induction pool arbitrary: k) (auto split: if_splits)

lemma emitParticles_other [simp]:
  "arScene (emitParticles R p c n v s) = arScene s"
  "ball_position (emitParticles R p c n v s) = ball_position s"
  "ball_rotation (emitParticles R p c n v s) = ball_rotation s"
  "trail (emitParticles R p c n v s) = trail s"
  "playerPaddle_position (emitParticles R p c n v s) = playerPaddle_position s"
  "aiPaddle_position (emitParticles R p c n v s) = aiPaddle_position s"
  "scoreIndicators (emitParticles R p c n v s) = scoreIndicators s"
  "isPlaying (emitParticles R p c n v s) = isPlaying s"
  "playerScore (emitParticles R p c n v s) = playerScore s"
  "aiScore (emitParticles R p c n v s) = aiScore s"
  "ballVelocity (emitParticles R p c n v s) = ballVelocity s"
  "ballSpeed (emitParticles R p c n v s) = ballSpeed s"
  "lastPosition (emitParticles R p c n v s) = lastPosition s"
  "gameLevel (emitParticles R p c n v s) = gameLevel s"
  "pointerDown (emitParticles R p c n v s) = pointerDown s"
  "lastPointerPosition (emitParticles R p c n v s) = lastPointerPosition s"
  "pointerDelta (emitParticles R p c n v s) = pointerDelta s"
  "trailUpdateCounter (emitParticles R p c n v s) = trailUpdateCounter s"
  "timeouts (emitParticles R p c n v s) = timeouts s"
  by (simp_all add: emitParticles_def Let_def split: option.splits)

lemma emitParticles_length [simp]:
  "length (particlePool (emitParticles R p c n v s)) = length (particlePool s)"
  by (simp add: emitParticles_def Let_def split: option.splits)

lemma addPooledSystem_length:
  "length (particlePool (addPooledSystem R s)) = Suc (length (particlePool s))"
  by (simp add: addPooledSystem_def Let_def)

lemma foldl_addPooledSystem_length:
  "length (particlePool (foldl (\<lambda>s i. addPooledSystem R s) s xs))
     = length (particlePool s) + length xs"
  by (induction xs arbitrary: s) (simp_all add: addPooledSystem_length)

lemma createParticlePool_length:
  "length (particlePool (createParticlePool R s)) = length (particlePool s) + 10"
  by (simp add: createParticlePool_def foldl_addPooledSystem_length)

lemma launchBall_velocity:
  "ballVelocity (launchBall R s) =
     (let z = sin (R (drawn s) * pi * 2) * cos ((R (drawn s + 1) - 0.5) * pi * 0.3) * ballSpeed s
      in \<lparr>vec_x = cos (R (drawn s) * pi * 2) * cos ((R (drawn s + 1) - 0.5) * pi * 0.3) * ballSpeed s,
          vec_y = sin ((R (drawn s + 1) - 0.5) * pi * 0.3) * ballSpeed s,
          vec_z = (if \<bar>z\<bar> < 0.3 then (if z > 0 then 0.3 else - 0.3) else z)\<rparr>)"
  by (simp add: launchBall_def Let_def)

lemma launchBall_other [simp]:
  "arScene (launchBall R s) = arScene s"
  "ball_position (launchBall R s) = ball_position s"
  "ball_rotation (launchBall R s) = ball_rotation s"
  "trail (launchBall R s) = trail s"
  "playerPaddle_position (launchBall R s) = playerPaddle_position s"
  "aiPaddle_position (launchBall R s) = aiPaddle_position s"
  "scoreIndicators (launchBall R s) = scoreIndicators s"
  "isPlaying (launchBall R s) = isPlaying s"
  "playerScore (launchBall R s) = playerScore s"
  "aiScore (launchBall R s) = aiScore s"
  "ballSpeed (launchBall R s) = ballSpeed s"
  "lastPosition (launchBall R s) = ball_position s"
  "gameLevel (launchBall R s) = gameLevel s"
  "pointerDown (launchBall R s) = pointerDown s"
  "lastPointerPosition (launchBall R s) = lastPointerPosition s"
  "pointerDelta (launchBall R s) = pointerDelta s"
  "trailUpdateCounter (launchBall R s) = trailUpdateCounter s"
  "timeouts (launchBall R s) = timeouts s"
  "length (particlePool (launchBall R s)) = length (particlePool s)"
  by (simp_all add: launchBall_def Let_def)

lemma launch_norm_sq:
  fixes h v b :: real
  shows "(cos h * cos v * b) * (cos h * cos v * b) + (sin v * b) * (sin v * b)
           = b * b - (sin h * cos v * b) * (sin h * cos v * b)"
proof -
  have 1: "(cos h)\<^sup>2 = 1 - (sin h)\<^sup>2" by (simp add: cos_squared_eq)
  have 2: "(sin v)\<^sup>2 = 1 - (cos v)\<^sup>2" by (simp add: sin_squared_eq)
  have "(cos h * cos v * b) * (cos h * cos v * b) + (sin v * b) * (sin v * b)
          = (cos h)\<^sup>2 * (cos v)\<^sup>2 * b\<^sup>2 + (sin v)\<^sup>2 * b\<^sup>2"
    by (simp add: power2_eq_square algebra_simps)
  also have "\<dots> = b\<^sup>2 - (sin h)\<^sup>2 * (cos v)\<^sup>2 * b\<^sup>2"
    unfolding 1 2 by (simp add: algebra_simps)
  also have "\<dots> = b * b - (sin h * cos v * b) * (sin h * cos v * b)"
    by (simp add: power2_eq_square algebra_simps)
  finally show ?thesis .
qed

lemma addPooledSystem_other [simp]:
  "arScene (addPooledSystem R s) = arScene s"
  "ball_position (addPooledSystem R s) = ball_position s"
  "ball_rotation (addPooledSystem R s) = ball_rotation s"
  "trail (addPooledSystem R s) = trail s"
  "playerPaddle_position (addPooledSystem R s) = playerPaddle_position s"
  "aiPaddle_position (addPooledSystem R s) = aiPaddle_position s"
  "particles (addPooledSystem R s) = particles s"
  "scoreIndicators (addPooledSystem R s) = scoreIndicators s"
  "isPlaying (addPooledSystem R s) = isPlaying s"
  "playerScore (addPooledSystem R s) = playerScore s"
  "aiScore (addPooledSystem R s) = aiScore s"
  "ballVelocity (addPooledSystem R s) = ballVelocity s"
  "ballSpeed (addPooledSystem R s) = ballSpeed s"
  "lastPosition (addPooledSystem R s) = lastPosition s"
  "gameLevel (addPooledSystem R s) = gameLevel s"
  "pointerDown (addPooledSystem R s) = pointerDown s"
  "lastPointerPosition (addPooledSystem R s) = lastPointerPosition s"
  "pointerDelta (addPooledSystem R s) = pointerDelta s"
  "trailUpdateCounter (addPooledSystem R s) = trailUpdateCounter s"
  "timeouts (addPooledSystem R s) = timeouts s"
  "drawn (addPooledSystem R s) = drawn s + 120"
  by (simp_all add: addPooledSystem_def Let_def)

lemma foldl_addPooledSystem_other:
  "arScene (foldl (\<lambda>s i. addPooledSystem R s) s xs) = arScene s \<and>
   ball_position (foldl (\<lambda>s i. addPooledSystem R s) s xs) = ball_position s \<and>
   ball_rotation (foldl (\<lambda>s i. addPooledSystem R s) s xs) = ball_rotation s \<and>
   trail (foldl (\<lambda>s i. addPooledSystem R s) s xs) = trail s \<and>
   playerPaddle_position (foldl (\<lambda>s i. addPooledSystem R s) s xs) = playerPaddle_position s \<and>
   aiPaddle_position (foldl (\<lambda>s i. addPooledSystem R s) s xs) = aiPaddle_position s \<and>
   particles (foldl (\<lambda>s i. addPooledSystem R s) s xs) = particles s \<and>
   scoreIndicators (foldl (\<lambda>s i. addPooledSystem R s) s xs) = scoreIndicators s \<and>
   isPlaying (foldl (\<lambda>s i. addPooledSystem R s) s xs) = isPlaying s \<and>
   playerScore (foldl (\<lambda>s i. addPooledSystem R s) s xs) = playerScore s \<and>
   aiScore (foldl (\<lambda>s i. addPooledSystem R s) s xs) = aiScore s \<and>
   ballVelocity (foldl (\<lambda>s i. addPooledSystem R s) s xs) = ballVelocity s \<and>
   ballSpeed (foldl (\<lambda>s i. addPooledSystem R s) s xs) = ballSpeed s \<and>
   lastPosition (foldl (\<lambda>s i. addPooledSystem R s) s xs) = lastPosition s \<and>
   gameLevel (foldl (\<lambda>s i. addPooledSystem R s) s xs) = gameLevel s \<and>
   pointerDown (foldl (\<lambda>s i. addPooledSystem R s) s xs) = pointerDown s \<and>
   lastPointerPosition (foldl (\<lambda>s i. addPooledSystem R s) s xs) = lastPointerPosition s \<and>
   pointerDelta (foldl (\<lambda>s i. addPooledSystem R s) s xs) = pointerDelta s \<and>
   trailUpdateCounter (foldl (\<lambda>s i. addPooledSystem R s) s xs) = trailUpdateCounter s \<and>
   timeouts (foldl (\<lambda>s i. addPooledSystem R s) s xs) = timeouts s \<and>
   drawn (foldl (\<lambda>s i. addPooledSystem R s) s xs) = drawn s + 120 * length xs"
  by (induction xs arbitrary: s) simp_all

lemma createParticlePool_other [simp]:
  "arScene (createParticlePool R s) = arScene s"
  "ball_position (createParticlePool R s) = ball_position s"
  "ball_rotation (createParticlePool R s) = ball_rotation s"
  "trail (createParticlePool R s) = trail s"
  "playerPaddle_position (createParticlePool R s) = playerPaddle_position s"
  "aiPaddle_position (createParticlePool R s) = aiPaddle_position s"
  "particles (createParticlePool R s) = particles s"
  "scoreIndicators (createParticlePool R s) = scoreIndicators s"
  "isPlaying (createParticlePool R s) = isPlaying s"
  "playerScore (createParticlePool R s) = playerScore s"
  "aiScore (createParticlePool R s) = aiScore s"
  "ballVelocity (createParticlePool R s) = ballVelocity s"
  "ballSpeed (createParticlePool R s) = ballSpeed s"
  "lastPosition (createParticlePool R s) = lastPosition s"
  "gameLevel (createParticlePool R s) = gameLevel s"
  "pointerDown (createParticlePool R s) = pointerDown s"
  "lastPointerPosition (createParticlePool R s) = lastPointerPosition s"
  "pointerDelta (createParticlePool R s) = pointerDelta s"
  "trailUpdateCounter (createParticlePool R s) = trailUpdateCounter s"
  "timeouts (createParticlePool R s) = timeouts s"
  "drawn (createParticlePool R s) = drawn s + 1200"
  by (simp_all add: createParticlePool_def foldl_addPooledSystem_other)

lemma kickoff_simps:
  "ballSpeed kickoff = 0.5"
  "gameLevel kickoff = 1"
  "isPlaying kickoff"
  "playerScore kickoff = 0"
  "aiScore kickoff = 0"
  "drawn kickoff = 1200"
  "ball_position kickoff = \<lparr>vec_x = 0, vec_y = 0.03, vec_z = 0\<rparr>"
  "ballVelocity kickoff = \<lparr>vec_x = 0, vec_y = 0, vec_z = 0\<rparr>"
  "playerPaddle_position kickoff = \<lparr>vec_x = 0, vec_y = 0.085, vec_z = 0.55\<rparr>"
  "aiPaddle_position kickoff = \<lparr>vec_x = 0, vec_y = 0.085, vec_z = - 0.55\<rparr>"
  "timeouts kickoff = [(1000, LaunchBall)]"
  "arScene kickoff = \<lparr>onUpdateCallbacks = [0], allocated = 1\<rparr>"
  "length (particlePool kickoff) = 10"
  "particles kickoff = []"
  by (simp_all add: kickoff_def initialize_def Let_def resetBall_def createBall_def
        createPaddles_def constructor_def scene0_def bindUpdate_def addUpdateCallback_def
        createParticlePool_length dims)

lemma Vector3_eqI:
  fixes v w :: Vector3
  shows "vec_x v = vec_x w \<Longrightarrow> vec_y v = vec_y w \<Longrightarrow> vec_z v = vec_z w \<Longrightarrow> v = w"
  by simp

lemma magnitude_multiplyScalar:
  "magnitude (multiplyScalar v k) = \<bar>k\<bar> * magnitude v"
proof -
  have "vec_x v * k * (vec_x v * k) + vec_y v * k * (vec_y v * k) + vec_z v * k * (vec_z v * k)
          = k\<^sup>2 * (vec_x v * vec_x v + vec_y v * vec_y v + vec_z v * vec_z v)"
    by (simp add: power2_eq_square algebra_simps)
  then show ?thesis
    by (simp add: magnitude_def multiplyScalar_def real_sqrt_mult)
qed

lemma magnitude_pos: "vec_z v \<noteq> 0 \<Longrightarrow> 0 < magnitude v"
proof -
  assume "vec_z v \<noteq> 0"
  then have "0 < vec_z v * vec_z v" by (auto simp: zero_less_mult_iff)
  moreover have "0 \<le> vec_x v * vec_x v" "0 \<le> vec_y v * vec_y v" by simp_all
  ultimately have "0 < vec_x v * vec_x v + vec_y v * vec_y v + vec_z v * vec_z v"
    by linarith
  then show ?thesis by (simp add: magnitude_def)
qed

lemma renormalized:
  assumes "vec_z v \<noteq> 0" "0 \<le> b"
  shows "magnitude (multiplyScalar v (b / magnitude v)) = b"
  using assms magnitude_pos[of v] by (simp add: magnitude_multiplyScalar)

lemma playerPaddleCollision_hit:
  assumes "vec_z (ballVelocity s) > 0"
    and "vec_z (ball_position s) + ballRadius > vec_z (playerPaddle_position s) - paddleDepth / 2"
    and "vec_z (lastPosition s) + ballRadius \<le> vec_z (playerPaddle_position s) - paddleDepth / 2"
    and "vec_x (ball_position s) \<ge> vec_x (playerPaddle_position s) - paddleWidth / 2"
    and "vec_x (ball_position s) \<le> vec_x (playerPaddle_position s) + paddleWidth / 2"
    and "vec_y (ball_position s) \<ge> vec_y (playerPaddle_position s) - paddleHeight / 2"
    and "vec_y (ball_position s) \<le> vec_y (playerPaddle_position s) + paddleHeight / 2"
  shows "ballVelocity (playerPaddleCollision R s) =
           (let v = \<lparr>vec_x = vec_x (ballVelocity s)
                      + (vec_x (ball_position s) - vec_x (playerPaddle_position s))
                          / (paddleWidth / 2) * 0.5,
                    vec_y = vec_y (ballVelocity s)
                      + (vec_y (ball_position s) - vec_y (playerPaddle_position s))
                          / (paddleHeight / 2) * 0.5,
                    vec_z = vec_z (ballVelocity s) * (- 1.05)\<rparr>
            in multiplyScalar v (ballSpeed s / magnitude v))"
    and "ball_position (playerPaddleCollision R s) =
           (ball_position s)\<lparr>vec_z := vec_z (playerPaddle_position s) - paddleDepth / 2 - ballRadius\<rparr>"
  using assms
  by (auto simp add: playerPaddleCollision_def Let_def magnitude_def multiplyScalar_def
        intro!: Vector3_eqI)

lemma aiPaddleCollision_hit:
  assumes "vec_z (ballVelocity s) < 0"
    and "vec_z (ball_position s) - ballRadius < vec_z (aiPaddle_position s) + paddleDepth / 2"
    and "vec_z (lastPosition s) - ballRadius \<ge> vec_z (aiPaddle_position s) + paddleDepth / 2"
    and "vec_x (ball_position s) \<ge> vec_x (aiPaddle_position s) - paddleWidth / 2"
    and "vec_x (ball_position s) \<le> vec_x (aiPaddle_position s) + paddleWidth / 2"
    and "vec_y (ball_position s) \<ge> vec_y (aiPaddle_position s) - paddleHeight / 2"
    and "vec_y (ball_position s) \<le> vec_y (aiPaddle_position s) + paddleHeight / 2"
  shows "ballVelocity (aiPaddleCollision R s) =
           (let v = \<lparr>vec_x = vec_x (ballVelocity s)
                      + (vec_x (ball_position s) - vec_x (aiPaddle_position s))
                          / (paddleWidth / 2) * 0.5,
                    vec_y = vec_y (ballVelocity s)
                      + (vec_y (ball_position s) - vec_y (aiPaddle_position s))
                          / (paddleHeight / 2) * 0.5,
                    vec_z = vec_z (ballVelocity s) * (- 1.05)\<rparr>
            in multiplyScalar v (ballSpeed s / magnitude v))"
    and "ball_position (aiPaddleCollision R s) =
           (ball_position s)\<lparr>vec_z := vec_z (aiPaddle_position s) + paddleDepth / 2 + ballRadius\<rparr>"
  using assms
  by (auto simp add: aiPaddleCollision_def Let_def magnitude_def multiplyScalar_def
        intro!: Vector3_eqI)

text \<open>Frame lemmas: the fields each operation leaves alone.\<close>

lemma checkGameEnd_other [simp]:
  "arScene (checkGameEnd s) = arScene s"
  "ball_position (checkGameEnd s) = ball_position s"
  "ball_rotation (checkGameEnd s) = ball_rotation s"
  "trail (checkGameEnd s) = trail s"
  "playerPaddle_position (checkGameEnd s) = playerPaddle_position s"
  "aiPaddle_position (checkGameEnd s) = aiPaddle_position s"
  "particles (checkGameEnd s) = particles s"
  "scoreIndicators (checkGameEnd s) = scoreIndicators s"
  "isPlaying (checkGameEnd s) = isPlaying s"
  "playerScore (checkGameEnd s) = playerScore s"
  "aiScore (checkGameEnd s) = aiScore s"
  "ballVelocity (checkGameEnd s) = ballVelocity s"
  "ballSpeed (checkGameEnd s) = ballSpeed s"
  "lastPosition (checkGameEnd s) = lastPosition s"
  "gameLevel (checkGameEnd s) = gameLevel s"
  "pointerDown (checkGameEnd s) = pointerDown s"
  "lastPointerPosition (checkGameEnd s) = lastPointerPosition s"
  "pointerDelta (checkGameEnd s) = pointerDelta s"
  "particlePool (checkGameEnd s) = particlePool s"
  "trailUpdateCounter (checkGameEnd s) = trailUpdateCounter s"
  "drawn (checkGameEnd s) = drawn s"
  by (simp_all add: checkGameEnd_def)

lemma createScoreIndicator_other [simp]:
  "arScene (createScoreIndicator p b s) = arScene s"
  "ball_position (createScoreIndicator p b s) = ball_position s"
  "ball_rotation (createScoreIndicator p b s) = ball_rotation s"
  "trail (createScoreIndicator p b s) = trail s"
  "playerPaddle_position (createScoreIndicator p b s) = playerPaddle_position s"
  "aiPaddle_position (createScoreIndicator p b s) = aiPaddle_position s"
  "particles (createScoreIndicator p b s) = particles s"
  "isPlaying (createScoreIndicator p b s) = isPlaying s"
  "playerScore (createScoreIndicator p b s) = playerScore s"
  "aiScore (createScoreIndicator p b s) = aiScore s"
  "ballVelocity (createScoreIndicator p b s) = ballVelocity s"
  "ballSpeed (createScoreIndicator p b s) = ballSpeed s"
  "lastPosition (createScoreIndicator p b s) = lastPosition s"
  "gameLevel (createScoreIndicator p b s) = gameLevel s"
  "pointerDown (createScoreIndicator p b s) = pointerDown s"
  "lastPointerPosition (createScoreIndicator p b s) = lastPointerPosition s"
  "pointerDelta (createScoreIndicator p b s) = pointerDelta s"
  "particlePool (createScoreIndicator p b s) = particlePool s"
  "trailUpdateCounter (createScoreIndicator p b s) = trailUpdateCounter s"
  "timeouts (createScoreIndicator p b s) = timeouts s"
  "drawn (createScoreIndicator p b s) = drawn s"
  by (simp_all add: createScoreIndicator_def)

lemma resetBall_other [simp]:
  "arScene (resetBall R b s) = arScene s"
  "ball_rotation (resetBall R b s) = ball_rotation s"
  "trail (resetBall R b s) = trail s"
  "playerPaddle_position (resetBall R b s) = playerPaddle_position s"
  "aiPaddle_position (resetBall R b s) = aiPaddle_position s"
  "scoreIndicators (resetBall R b s) = scoreIndicators s"
  "isPlaying (resetBall R b s) = isPlaying s"
  "playerScore (resetBall R b s) = playerScore s"
  "aiScore (resetBall R b s) = aiScore s"
  "ballSpeed (resetBall R b s) = ballSpeed s"
  "gameLevel (resetBall R b s) = gameLevel s"
  "pointerDown (resetBall R b s) = pointerDown s"
  "lastPointerPosition (resetBall R b s) = lastPointerPosition s"
  "pointerDelta (resetBall R b s) = pointerDelta s"
  "trailUpdateCounter (resetBall R b s) = trailUpdateCounter s"
  by (simp_all add: resetBall_def Let_def)

lemma checkScoring_other [simp]:
  "arScene (checkScoring R s) = arScene s"
  "ball_rotation (checkScoring R s) = ball_rotation s"
  "trail (checkScoring R s) = trail s"
  "playerPaddle_position (checkScoring R s) = playerPaddle_position s"
  "aiPaddle_position (checkScoring R s) = aiPaddle_position s"
  "isPlaying (checkScoring R s) = isPlaying s"
  "ballSpeed (checkScoring R s) = ballSpeed s"
  "gameLevel (checkScoring R s) = gameLevel s"
  "pointerDown (checkScoring R s) = pointerDown s"
  "lastPointerPosition (checkScoring R s) = lastPointerPosition s"
  "pointerDelta (checkScoring R s) = pointerDelta s"
  "trailUpdateCounter (checkScoring R s) = trailUpdateCounter s"
  by (simp_all add: checkScoring_def Let_def)

lemma playerPaddleCollision_other [simp]:
  "arScene (playerPaddleCollision R s) = arScene s"
  "ball_rotation (playerPaddleCollision R s) = ball_rotation s"
  "trail (playerPaddleCollision R s) = trail s"
  "playerPaddle_position (playerPaddleCollision R s) = playerPaddle_position s"
  "aiPaddle_position (playerPaddleCollision R s) = aiPaddle_position s"
  "scoreIndicators (playerPaddleCollision R s) = scoreIndicators s"
  "isPlaying (playerPaddleCollision R s) = isPlaying s"
  "playerScore (playerPaddleCollision R s) = playerScore s"
  "aiScore (playerPaddleCollision R s) = aiScore s"
  "ballSpeed (playerPaddleCollision R s) = ballSpeed s"
  "lastPosition (playerPaddleCollision R s) = lastPosition s"
  "gameLevel (playerPaddleCollision R s) = gameLevel s"
  "pointerDown (playerPaddleCollision R s) = pointerDown s"
  "lastPointerPosition (playerPaddleCollision R s) = lastPointerPosition s"
  "pointerDelta (playerPaddleCollision R s) = pointerDelta s"
  "trailUpdateCounter (playerPaddleCollision R s) = trailUpdateCounter s"
  "timeouts (playerPaddleCollision R s) = timeouts s"
  by (simp_all add: playerPaddleCollision_def Let_def)

lemma aiPaddleCollision_other [simp]:
  "arScene (aiPaddleCollision R s) = arScene s"
  "ball_rotation (aiPaddleCollision R s) = ball_rotation s"
  "trail (aiPaddleCollision R s) = trail s"
  "playerPaddle_position (aiPaddleCollision R s) = playerPaddle_position s"
  "aiPaddle_position (aiPaddleCollision R s) = aiPaddle_position s"
  "scoreIndicators (aiPaddleCollision R s) = scoreIndicators s"
  "isPlaying (aiPaddleCollision R s) = isPlaying s"
  "playerScore (aiPaddleCollision R s) = playerScore s"
  "aiScore (aiPaddleCollision R s) = aiScore s"
  "ballSpeed (aiPaddleCollision R s) = ballSpeed s"
  "lastPosition (aiPaddleCollision R s) = lastPosition s"
  "gameLevel (aiPaddleCollision R s) = gameLevel s"
  "pointerDown (aiPaddleCollision R s) = pointerDown s"
  "lastPointerPosition (aiPaddleCollision R s) = lastPointerPosition s"
  "pointerDelta (aiPaddleCollision R s) = pointerDelta s"
  "trailUpdateCounter (aiPaddleCollision R s) = trailUpdateCounter s"
  "timeouts (aiPaddleCollision R s) = timeouts s"
  by (simp_all add: aiPaddleCollision_def Let_def)

lemma checkPaddleCollisions_other [simp]:
  "arScene (checkPaddleCollisions R s) = arScene s"
  "ball_rotation (checkPaddleCollisions R s) = ball_rotation s"
  "trail (checkPaddleCollisions R s) = trail s"
  "playerPaddle_position (checkPaddleCollisions R s) = playerPaddle_position s"
  "aiPaddle_position (checkPaddleCollisions R s) = aiPaddle_position s"
  "scoreIndicators (checkPaddleCollisions R s) = scoreIndicators s"
  "isPlaying (checkPaddleCollisions R s) = isPlaying s"
  "playerScore (checkPaddleCollisions R s) = playerScore s"
  "aiScore (checkPaddleCollisions R s) = aiScore s"
  "ballSpeed (checkPaddleCollisions R s) = ballSpeed s"
  "lastPosition (checkPaddleCollisions R s) = lastPosition s"
  "gameLevel (checkPaddleCollisions R s) = gameLevel s"
  "pointerDown (checkPaddleCollisions R s) = pointerDown s"
  "lastPointerPosition (checkPaddleCollisions R s) = lastPointerPosition s"
  "pointerDelta (checkPaddleCollisions R s) = pointerDelta s"
  "trailUpdateCounter (checkPaddleCollisions R s) = trailUpdateCounter s"
  "timeouts (checkPaddleCollisions R s) = timeouts s"
  by (simp_all add: checkPaddleCollisions_def)

lemma trackBall_other [simp]:
  "arScene (trackBall R dt s) = arScene s"
  "ball_position (trackBall R dt s) = ball_position s"
  "ball_rotation (trackBall R dt s) = ball_rotation s"
  "trail (trackBall R dt s) = trail s"
  "playerPaddle_position (trackBall R dt s) = playerPaddle_position s"
  "particles (trackBall R dt s) = particles s"
  "scoreIndicators (trackBall R dt s) = scoreIndicators s"
  "isPlaying (trackBall R dt s) = isPlaying s"
  "playerScore (trackBall R dt s) = playerScore s"
  "aiScore (trackBall R dt s) = aiScore s"
  "ballVelocity (trackBall R dt s) = ballVelocity s"
  "ballSpeed (trackBall R dt s) = ballSpeed s"
  "lastPosition (trackBall R dt s) = lastPosition s"
  "gameLevel (trackBall R dt s) = gameLevel s"
  "pointerDown (trackBall R dt s) = pointerDown s"
  "lastPointerPosition (trackBall R dt s) = lastPointerPosition s"
  "pointerDelta (trackBall R dt s) = pointerDelta s"
  "particlePool (trackBall R dt s) = particlePool s"
  "trailUpdateCounter (trackBall R dt s) = trailUpdateCounter s"
  "timeouts (trackBall R dt s) = timeouts s"
  by (simp_all add: trackBall_def Let_def)

lemma clampAiPaddle_other [simp]:
  "arScene (clampAiPaddle s) = arScene s"
  "ball_position (clampAiPaddle s) = ball_position s"
  "ball_rotation (clampAiPaddle s) = ball_rotation s"
  "trail (clampAiPaddle s) = trail s"
  "playerPaddle_position (clampAiPaddle s) = playerPaddle_position s"
  "particles (clampAiPaddle s) = particles s"
  "scoreIndicators (clampAiPaddle s) = scoreIndicators s"
  "isPlaying (clampAiPaddle s) = isPlaying s"
  "playerScore (clampAiPaddle s) = playerScore s"
  "aiScore (clampAiPaddle s) = aiScore s"
  "ballVelocity (clampAiPaddle s) = ballVelocity s"
  "ballSpeed (clampAiPaddle s) = ballSpeed s"
  "lastPosition (clampAiPaddle s) = lastPosition s"
  "gameLevel (clampAiPaddle s) = gameLevel s"
  "pointerDown (clampAiPaddle s) = pointerDown s"
  "lastPointerPosition (clampAiPaddle s) = lastPointerPosition s"
  "pointerDelta (clampAiPaddle s) = pointerDelta s"
  "particlePool (clampAiPaddle s) = particlePool s"
  "trailUpdateCounter (clampAiPaddle s) = trailUpdateCounter s"
  "timeouts (clampAiPaddle s) = timeouts s"
  "drawn (clampAiPaddle s) = drawn s"
  by (simp_all add: clampAiPaddle_def Let_def)

lemma updateAI_other [simp]:
  "arScene (updateAI R dt s) = arScene s"
  "ball_position (updateAI R dt s) = ball_position s"
  "ball_rotation (updateAI R dt s) = ball_rotation s"
  "trail (updateAI R dt s) = trail s"
  "playerPaddle_position (updateAI R dt s) = playerPaddle_position s"
  "particles (updateAI R dt s) = particles s"
  "scoreIndicators (updateAI R dt s) = scoreIndicators s"
  "isPlaying (updateAI R dt s) = isPlaying s"
  "playerScore (updateAI R dt s) = playerScore s"
  "aiScore (updateAI R dt s) = aiScore s"
  "ballVelocity (updateAI R dt s) = ballVelocity s"
  "ballSpeed (updateAI R dt s) = ballSpeed s"
  "lastPosition (updateAI R dt s) = lastPosition s"
  "gameLevel (updateAI R dt s) = gameLevel s"
  "pointerDown (updateAI R dt s) = pointerDown s"
  "lastPointerPosition (updateAI R dt s) = lastPointerPosition s"
  "pointerDelta (updateAI R dt s) = pointerDelta s"
  "particlePool (updateAI R dt s) = particlePool s"
  "trailUpdateCounter (updateAI R dt s) = trailUpdateCounter s"
  "timeouts (updateAI R dt s) = timeouts s"
  by (simp_all add: updateAI_def)

lemma updateParticles_other [simp]:
  "arScene (updateParticles dt s) = arScene s"
  "ball_position (updateParticles dt s) = ball_position s"
  "ball_rotation (updateParticles dt s) = ball_rotation s"
  "trail (updateParticles dt s) = trail s"
  "playerPaddle_position (updateParticles dt s) = playerPaddle_position s"
  "aiPaddle_position (updateParticles dt s) = aiPaddle_position s"
  "scoreIndicators (updateParticles dt s) = scoreIndicators s"
  "isPlaying (updateParticles dt s) = isPlaying s"
  "playerScore (updateParticles dt s) = playerScore s"
  "aiScore (updateParticles dt s) = aiScore s"
  "ballVelocity (updateParticles dt s) = ballVelocity s"
  "ballSpeed (updateParticles dt s) = ballSpeed s"
  "lastPosition (updateParticles dt s) = lastPosition s"
  "gameLevel (updateParticles dt s) = gameLevel s"
  "pointerDown (updateParticles dt s) = pointerDown s"
  "lastPointerPosition (updateParticles dt s) = lastPointerPosition s"
  "pointerDelta (updateParticles dt s) = pointerDelta s"
  "trailUpdateCounter (updateParticles dt s) = trailUpdateCounter s"
  "timeouts (updateParticles dt s) = timeouts s"
  "drawn (updateParticles dt s) = drawn s"
  by (simp_all add: updateParticles_def split: prod.splits)

lemma updateTrail_other [simp]:
  "arScene (updateTrail s) = arScene s"
  "ball_position (updateTrail s) = ball_position s"
  "ball_rotation (updateTrail s) = ball_rotation s"
  "playerPaddle_position (updateTrail s) = playerPaddle_position s"
  "aiPaddle_position (updateTrail s) = aiPaddle_position s"
  "particles (updateTrail s) = particles s"
  "scoreIndicators (updateTrail s) = scoreIndicators s"
  "isPlaying (updateTrail s) = isPlaying s"
  "playerScore (updateTrail s) = playerScore s"
  "aiScore (updateTrail s) = aiScore s"
  "ballVelocity (updateTrail s) = ballVelocity s"
  "ballSpeed (updateTrail s) = ballSpeed s"
  "lastPosition (updateTrail s) = lastPosition s"
  "gameLevel (updateTrail s) = gameLevel s"
  "pointerDown (updateTrail s) = pointerDown s"
  "lastPointerPosition (updateTrail s) = lastPointerPosition s"
  "pointerDelta (updateTrail s) = pointerDelta s"
  "particlePool (updateTrail s) = particlePool s"
  "timeouts (updateTrail s) = timeouts s"
  "drawn (updateTrail s) = drawn s"
  by (simp_all add: updateTrail_def Let_def)

lemma updateScoreIndicators_other [simp]:
  "arScene (updateScoreIndicators dt s) = arScene s"
  "ball_position (updateScoreIndicators dt s) = ball_position s"
  "ball_rotation (updateScoreIndicators dt s) = ball_rotation s"
  "trail (updateScoreIndicators dt s) = trail s"
  "playerPaddle_position (updateScoreIndicators dt s) = playerPaddle_position s"
  "aiPaddle_position (updateScoreIndicators dt s) = aiPaddle_position s"
  "particles (updateScoreIndicators dt s) = particles s"
  "isPlaying (updateScoreIndicators dt s) = isPlaying s"
  "playerScore (updateScoreIndicators dt s) = playerScore s"
  "aiScore (updateScoreIndicators dt s) = aiScore s"
  "ballVelocity (updateScoreIndicators dt s) = ballVelocity s"
  "ballSpeed (updateScoreIndicators dt s) = ballSpeed s"
  "lastPosition (updateScoreIndicators dt s) = lastPosition s"
  "gameLevel (updateScoreIndicators dt s) = gameLevel s"
  "pointerDown (updateScoreIndicators dt s) = pointerDown s"
  "lastPointerPosition (updateScoreIndicators dt s) = lastPointerPosition s"
  "pointerDelta (updateScoreIndicators dt s) = pointerDelta s"
  "particlePool (updateScoreIndicators dt s) = particlePool s"
  "trailUpdateCounter (updateScoreIndicators dt s) = trailUpdateCounter s"
  "timeouts (updateScoreIndicators dt s) = timeouts s"
  "drawn (updateScoreIndicators dt s) = drawn s"
  by (simp_all add: updateScoreIndicators_def)

lemma integrateBall_other [simp]:
  "arScene (integrateBall dt s) = arScene s"
  "ball_rotation (integrateBall dt s) = ball_rotation s"
  "trail (integrateBall dt s) = trail s"
  "playerPaddle_position (integrateBall dt s) = playerPaddle_position s"
  "aiPaddle_position (integrateBall dt s) = aiPaddle_position s"
  "particles (integrateBall dt s) = particles s"
  "scoreIndicators (integrateBall dt s) = scoreIndicators s"
  "isPlaying (integrateBall dt s) = isPlaying s"
  "playerScore (integrateBall dt s) = playerScore s"
  "aiScore (integrateBall dt s) = aiScore s"
  "ballSpeed (integrateBall dt s) = ballSpeed s"
  "gameLevel (integrateBall dt s) = gameLevel s"
  "pointerDown (integrateBall dt s) = pointerDown s"
  "lastPointerPosition (integrateBall dt s) = lastPointerPosition s"
  "pointerDelta (integrateBall dt s) = pointerDelta s"
  "particlePool (integrateBall dt s) = particlePool s"
  "trailUpdateCounter (integrateBall dt s) = trailUpdateCounter s"
  "timeouts (integrateBall dt s) = timeouts s"
  "drawn (integrateBall dt s) = drawn s"
  by (simp_all add: integrateBall_def Let_def)

lemma bounceY_other [simp]:
  "arScene (bounceY R y s) = arScene s"
  "ball_rotation (bounceY R y s) = ball_rotation s"
  "trail (bounceY R y s) = trail s"
  "playerPaddle_position (bounceY R y s) = playerPaddle_position s"
  "aiPaddle_position (bounceY R y s) = aiPaddle_position s"
  "scoreIndicators (bounceY R y s) = scoreIndicators s"
  "isPlaying (bounceY R y s) = isPlaying s"
  "playerScore (bounceY R y s) = playerScore s"
  "aiScore (bounceY R y s) = aiScore s"
  "ballSpeed (bounceY R y s) = ballSpeed s"
  "lastPosition (bounceY R y s) = lastPosition s"
  "gameLevel (bounceY R y s) = gameLevel s"
  "pointerDown (bounceY R y s) = pointerDown s"
  "lastPointerPosition (bounceY R y s) = lastPointerPosition s"
  "pointerDelta (bounceY R y s) = pointerDelta s"
  "trailUpdateCounter (bounceY R y s) = trailUpdateCounter s"
  "timeouts (bounceY R y s) = timeouts s"
  by (simp_all add: bounceY_def Let_def)

lemma floorCeilingCollision_other [simp]:
  "arScene (floorCeilingCollision R s) = arScene s"
  "ball_rotation (floorCeilingCollision R s) = ball_rotation s"
  "trail (floorCeilingCollision R s) = trail s"
  "playerPaddle_position (floorCeilingCollision R s) = playerPaddle_position s"
  "aiPaddle_position (floorCeilingCollision R s) = aiPaddle_position s"
  "scoreIndicators (floorCeilingCollision R s) = scoreIndicators s"
  "isPlaying (floorCeilingCollision R s) = isPlaying s"
  "playerScore (floorCeilingCollision R s) = playerScore s"
  "aiScore (floorCeilingCollision R s) = aiScore s"
  "ballSpeed (floorCeilingCollision R s) = ballSpeed s"
  "lastPosition (floorCeilingCollision R s) = lastPosition s"
  "gameLevel (floorCeilingCollision R s) = gameLevel s"
  "pointerDown (floorCeilingCollision R s) = pointerDown s"
  "lastPointerPosition (floorCeilingCollision R s) = lastPointerPosition s"
  "pointerDelta (floorCeilingCollision R s) = pointerDelta s"
  "trailUpdateCounter (floorCeilingCollision R s) = trailUpdateCounter s"
  "timeouts (floorCeilingCollision R s) = timeouts s"
  by (simp_all add: floorCeilingCollision_def)

lemma sideWallCollision_other [simp]:
  "arScene (sideWallCollision R s) = arScene s"
  "ball_rotation (sideWallCollision R s) = ball_rotation s"
  "trail (sideWallCollision R s) = trail s"
  "playerPaddle_position (sideWallCollision R s) = playerPaddle_position s"
  "aiPaddle_position (sideWallCollision R s) = aiPaddle_position s"
  "scoreIndicators (sideWallCollision R s) = scoreIndicators s"
  "isPlaying (sideWallCollision R s) = isPlaying s"
  "playerScore (sideWallCollision R s) = playerScore s"
  "aiScore (sideWallCollision R s) = aiScore s"
  "ballSpeed (sideWallCollision R s) = ballSpeed s"
  "lastPosition (sideWallCollision R s) = lastPosition s"
  "gameLevel (sideWallCollision R s) = gameLevel s"
  "pointerDown (sideWallCollision R s) = pointerDown s"
  "lastPointerPosition (sideWallCollision R s) = lastPointerPosition s"
  "pointerDelta (sideWallCollision R s) = pointerDelta s"
  "trailUpdateCounter (sideWallCollision R s) = trailUpdateCounter s"
  "timeouts (sideWallCollision R s) = timeouts s"
  by (simp_all add: sideWallCollision_def Let_def)

lemma spinBall_other [simp]:
  "arScene (spinBall s) = arScene s"
  "ball_position (spinBall s) = ball_position s"
  "trail (spinBall s) = trail s"
  "playerPaddle_position (spinBall s) = playerPaddle_position s"
  "aiPaddle_position (spinBall s) = aiPaddle_position s"
  "particles (spinBall s) = particles s"
  "scoreIndicators (spinBall s) = scoreIndicators s"
  "isPlaying (spinBall s) = isPlaying s"
  "playerScore (spinBall s) = playerScore s"
  "aiScore (spinBall s) = aiScore s"
  "ballVelocity (spinBall s) = ballVelocity s"
  "ballSpeed (spinBall s) = ballSpeed s"
  "lastPosition (spinBall s) = lastPosition s"
  "gameLevel (spinBall s) = gameLevel s"
  "pointerDown (spinBall s) = pointerDown s"
  "lastPointerPosition (spinBall s) = lastPointerPosition s"
  "pointerDelta (spinBall s) = pointerDelta s"
  "particlePool (spinBall s) = particlePool s"
  "trailUpdateCounter (spinBall s) = trailUpdateCounter s"
  "timeouts (spinBall s) = timeouts s"
  "drawn (spinBall s) = drawn s"
  by (simp_all add: spinBall_def)

lemma celebrate_other [simp]:
  "arScene (celebrate R s) = arScene s"
  "ball_position (celebrate R s) = ball_position s"
  "ball_rotation (celebrate R s) = ball_rotation s"
  "trail (celebrate R s) = trail s"
  "playerPaddle_position (celebrate R s) = playerPaddle_position s"
  "aiPaddle_position (celebrate R s) = aiPaddle_position s"
  "scoreIndicators (celebrate R s) = scoreIndicators s"
  "isPlaying (celebrate R s) = isPlaying s"
  "playerScore (celebrate R s) = playerScore s"
  "aiScore (celebrate R s) = aiScore s"
  "ballVelocity (celebrate R s) = ballVelocity s"
  "ballSpeed (celebrate R s) = ballSpeed s"
  "lastPosition (celebrate R s) = lastPosition s"
  "gameLevel (celebrate R s) = gameLevel s"
  "pointerDown (celebrate R s) = pointerDown s"
  "lastPointerPosition (celebrate R s) = lastPointerPosition s"
  "pointerDelta (celebrate R s) = pointerDelta s"
  "trailUpdateCounter (celebrate R s) = trailUpdateCounter s"
  "timeouts (celebrate R s) = timeouts s"
  by (simp_all add: celebrate_def Let_def)

lemma resetGame_other [simp]:
  "arScene (resetGame R s) = arScene s"
  "ball_rotation (resetGame R s) = ball_rotation s"
  "trail (resetGame R s) = trail s"
  "playerPaddle_position (resetGame R s) = playerPaddle_position s"
  "aiPaddle_position (resetGame R s) = aiPaddle_position s"
  "particles (resetGame R s) = particles s"
  "scoreIndicators (resetGame R s) = scoreIndicators s"
  "isPlaying (resetGame R s) = isPlaying s"
  "ballVelocity (resetGame R s) = ballVelocity s"
  "lastPosition (resetGame R s) = lastPosition s"
  "pointerDown (resetGame R s) = pointerDown s"
  "lastPointerPosition (resetGame R s) = lastPointerPosition s"
  "pointerDelta (resetGame R s) = pointerDelta s"
  "particlePool (resetGame R s) = particlePool s"
  "trailUpdateCounter (resetGame R s) = trailUpdateCounter s"
  "drawn (resetGame R s) = drawn s"
  by (simp_all add: resetGame_def Let_def resetBall_def)

lemma updatePointerPosition_other [simp]:
  "arScene (updatePointerPosition cx cy w h dbg hit s) = arScene s"
  "ball_position (updatePointerPosition cx cy w h dbg hit s) = ball_position s"
  "ball_rotation (updatePointerPosition cx cy w h dbg hit s) = ball_rotation s"
  "trail (updatePointerPosition cx cy w h dbg hit s) = trail s"
  "aiPaddle_position (updatePointerPosition cx cy w h dbg hit s) = aiPaddle_position s"
  "particles (updatePointerPosition cx cy w h dbg hit s) = particles s"
  "scoreIndicators (updatePointerPosition cx cy w h dbg hit s) = scoreIndicators s"
  "isPlaying (updatePointerPosition cx cy w h dbg hit s) = isPlaying s"
  "playerScore (updatePointerPosition cx cy w h dbg hit s) = playerScore s"
  "aiScore (updatePointerPosition cx cy w h dbg hit s) = aiScore s"
  "ballVelocity (updatePointerPosition cx cy w h dbg hit s) = ballVelocity s"
  "ballSpeed (updatePointerPosition cx cy w h dbg hit s) = ballSpeed s"
  "lastPosition (updatePointerPosition cx cy w h dbg hit s) = lastPosition s"
  "gameLevel (updatePointerPosition cx cy w h dbg hit s) = gameLevel s"
  "pointerDown (updatePointerPosition cx cy w h dbg hit s) = pointerDown s"
  "particlePool (updatePointerPosition cx cy w h dbg hit s) = particlePool s"
  "trailUpdateCounter (updatePointerPosition cx cy w h dbg hit s) = trailUpdateCounter s"
  "timeouts (updatePointerPosition cx cy w h dbg hit s) = timeouts s"
  "drawn (updatePointerPosition cx cy w h dbg hit s) = drawn s"
  by (simp_all add: updatePointerPosition_def Let_def split: option.splits)

text \<open>One call of \<open>update\<close> as the sequence of its stretches, and what each does to the ball.\<close>

lemma update_phases:
  "update R deltaTime s =
     (if \<not> isPlaying s then s
      else updateScoreIndicators deltaTime (spinBall (updateAI R deltaTime (checkScoring R
             (checkPaddleCollisions R (sideWallCollision R (updateParticles deltaTime
               (updateTrail (floorCeilingCollision R (integrateBall deltaTime s))))))))))"
  unfolding update_def integrateBall_def floorCeilingCollision_def bounceY_def
    sideWallCollision_def spinBall_def Let_def
  by (rule refl)

lemma paddleCollision_xy [simp]:
  "vec_x (ball_position (playerPaddleCollision R s)) = vec_x (ball_position s)"
  "vec_y (ball_position (playerPaddleCollision R s)) = vec_y (ball_position s)"
  "vec_x (ball_position (aiPaddleCollision R s)) = vec_x (ball_position s)"
  "vec_y (ball_position (aiPaddleCollision R s)) = vec_y (ball_position s)"
  "vec_x (ball_position (checkPaddleCollisions R s)) = vec_x (ball_position s)"
  "vec_y (ball_position (checkPaddleCollisions R s)) = vec_y (ball_position s)"
  by (simp_all add: playerPaddleCollision_def aiPaddleCollision_def checkPaddleCollisions_def
        Let_def)

lemma floorCeilingCollision_position:
  "vec_x (ball_position (floorCeilingCollision R s)) = vec_x (ball_position s)"
  "vec_z (ball_position (floorCeilingCollision R s)) = vec_z (ball_position s)"
  "tableHeight + ballRadius \<le> vec_y (ball_position (floorCeilingCollision R s))"
  "vec_y (ball_position (floorCeilingCollision R s)) \<le> tableHeight + playAreaHeight - ballRadius"
  by (simp_all add: floorCeilingCollision_def bounceY_def Let_def dims)

lemma sideWallCollision_position:
  "vec_y (ball_position (sideWallCollision R s)) = vec_y (ball_position s)"
  "vec_z (ball_position (sideWallCollision R s)) = vec_z (ball_position s)"
  "- tableWidth / 2 + ballRadius \<le> vec_x (ball_position (sideWallCollision R s))"
  "vec_x (ball_position (sideWallCollision R s)) \<le> tableWidth / 2 - ballRadius"
  by (auto simp add: sideWallCollision_def Let_def dims sgn_if)

lemma resetBall_position [simp]:
  "ball_position (resetBall R b s) = \<lparr>vec_x = 0, vec_y = tableHeight + ballRadius, vec_z = 0\<rparr>"
  by (simp add: resetBall_def Let_def)

lemma checkScoring_position:
  "ball_position (checkScoring R s) =
     (if vec_z (ball_position s) > tableDepth / 2 + ballRadius \<or>
         vec_z (ball_position s) < - tableDepth / 2 - ballRadius
      then \<lparr>vec_x = 0, vec_y = tableHeight + ballRadius, vec_z = 0\<rparr>
      else ball_position s)"
  by (simp add: checkScoring_def Let_def dims)

lemma checkScoring_scores:
  "aiScore (checkScoring R s) =
     (if vec_z (ball_position s) > tableDepth / 2 + ballRadius then aiScore s + 1 else aiScore s)"
  "playerScore (checkScoring R s) =
     (if vec_z (ball_position s) < - tableDepth / 2 - ballRadius then playerScore s + 1
      else playerScore s)"
  by (simp_all add: checkScoring_def Let_def dims)

lemma integrateBall_simps:
  "lastPosition (integrateBall dt s) = ball_position s"
  "ballVelocity (integrateBall dt s) =
     (ballVelocity s)\<lparr>vec_y := vec_y (ballVelocity s) + gravity * dt\<rparr>"
  "ball_position (integrateBall dt s) =
     \<lparr>vec_x = vec_x (ball_position s) + vec_x (ballVelocity s) * dt,
      vec_y = vec_y (ball_position s) + (vec_y (ballVelocity s) + gravity * dt) * dt,
      vec_z = vec_z (ball_position s) + vec_z (ballVelocity s) * dt\<rparr>"
  by (simp_all add: integrateBall_def Let_def)

lemma floorCeilingCollision_velocity [simp]:
  "vec_x (ballVelocity (floorCeilingCollision R s)) = vec_x (ballVelocity s)"
  "vec_z (ballVelocity (floorCeilingCollision R s)) = vec_z (ballVelocity s)"
  by (simp_all add: floorCeilingCollision_def bounceY_def Let_def)

lemma sideWallCollision_velocity [simp]:
  "vec_y (ballVelocity (sideWallCollision R s)) = vec_y (ballVelocity s)"
  "vec_z (ballVelocity (sideWallCollision R s)) = vec_z (ballVelocity s)"
  by (simp_all add: sideWallCollision_def Let_def)

lemma playerPaddleCollision_miss:
  "\<not> (vec_z (ballVelocity s) > 0 \<and>
       vec_z (ball_position s) + ballRadius > vec_z (playerPaddle_position s) - paddleDepth / 2 \<and>
       vec_z (lastPosition s) + ballRadius \<le> vec_z (playerPaddle_position s) - paddleDepth / 2)
   \<Longrightarrow> playerPaddleCollision R s = s"
  unfolding playerPaddleCollision_def by (simp only: if_False)

lemma aiPaddleCollision_miss:
  "\<not> (vec_z (ballVelocity s) < 0 \<and>
       vec_z (ball_position s) - ballRadius < vec_z (aiPaddle_position s) + paddleDepth / 2 \<and>
       vec_z (lastPosition s) - ballRadius \<ge> vec_z (aiPaddle_position s) + paddleDepth / 2)
   \<Longrightarrow> aiPaddleCollision R s = s"
  unfolding aiPaddleCollision_def by (simp only: if_False)

lemma beforeScoring_scores [simp]:
  "playerScore (beforeScoring R dt s) = playerScore s"
  "aiScore (beforeScoring R dt s) = aiScore s"
  by (simp_all add: beforeScoring_def)

lemma update_beforeScoring:
  "isPlaying s \<Longrightarrow>
     update R dt s
       = updateScoreIndicators dt (spinBall (updateAI R dt (checkScoring R (beforeScoring R dt s))))"
  by (simp add: update_phases beforeScoring_def)

lemma beforeScoring_miss:
  assumes "\<not> (vec_z (ballVelocity s) > 0 \<and>
       vec_z (ball_position s) + vec_z (ballVelocity s) * dt + ballRadius
          > vec_z (playerPaddle_position s) - paddleDepth / 2 \<and>
       vec_z (ball_position s) + ballRadius \<le> vec_z (playerPaddle_position s) - paddleDepth / 2)"
    and "\<not> (vec_z (ballVelocity s) < 0 \<and>
       vec_z (ball_position s) + vec_z (ballVelocity s) * dt - ballRadius
          < vec_z (aiPaddle_position s) + paddleDepth / 2 \<and>
       vec_z (ball_position s) - ballRadius \<ge> vec_z (aiPaddle_position s) + paddleDepth / 2)"
  shows "beforeScoring R dt s
           = sideWallCollision R (updateParticles dt
               (updateTrail (floorCeilingCollision R (integrateBall dt s))))"
proof -
  define s2 where "s2 = sideWallCollision R (updateParticles dt
               (updateTrail (floorCeilingCollision R (integrateBall dt s))))"
  have vz: "vec_z (ballVelocity s2) = vec_z (ballVelocity s)"
    by (simp add: s2_def integrateBall_simps)
  have z: "vec_z (ball_position s2) = vec_z (ball_position s) + vec_z (ballVelocity s) * dt"
    by (simp add: s2_def sideWallCollision_position floorCeilingCollision_position
          integrateBall_simps)
  have l: "lastPosition s2 = ball_position s"
    by (simp add: s2_def integrateBall_simps)
  have p: "playerPaddle_position s2 = playerPaddle_position s"
          "aiPaddle_position s2 = aiPaddle_position s"
    by (simp_all add: s2_def)
  have 1: "playerPaddleCollision R s2 = s2"
    by (rule playerPaddleCollision_miss) (use assms(1) in \<open>simp add: vz z l p\<close>)
  have 2: "aiPaddleCollision R s2 = s2"
    by (rule aiPaddleCollision_miss) (use assms(2) in \<open>simp add: vz z l p\<close>)
  show ?thesis
    unfolding beforeScoring_def checkPaddleCollisions_def s2_def[symmetric] 1 2 ..
qed

lemma beforeScoring_miss_z:
  assumes "\<not> (vec_z (ballVelocity s) > 0 \<and>
       vec_z (ball_position s) + vec_z (ballVelocity s) * dt + ballRadius
          > vec_z (playerPaddle_position s) - paddleDepth / 2 \<and>
       vec_z (ball_position s) + ballRadius \<le> vec_z (playerPaddle_position s) - paddleDepth / 2)"
    and "\<not> (vec_z (ballVelocity s) < 0 \<and>
       vec_z (ball_position s) + vec_z (ballVelocity s) * dt - ballRadius
          < vec_z (aiPaddle_position s) + paddleDepth / 2 \<and>
       vec_z (ball_position s) - ballRadius \<ge> vec_z (aiPaddle_position s) + paddleDepth / 2)"
  shows "vec_z (ball_position (beforeScoring R dt s))
           = vec_z (ball_position s) + vec_z (ballVelocity s) * dt"
  unfolding beforeScoring_miss[OF assms]
  by (simp add: sideWallCollision_position floorCeilingCollision_position integrateBall_simps)

lemma leavingTable_before:
  "vec_z (ball_position (beforeScoring R (1 / 10) leavingTable)) = 0.65"
  "vec_z (ball_position (beforeScoring R (1 / 10) leavingTableAi)) = - 0.65"
  by (subst beforeScoring_miss_z;
      simp add: leavingTable_def leavingTableAi_def kickoff_simps dims)+

text \<open>What the end of a game schedules, and what the scheduled callback does.\<close>

lemma checkGameEnd_timeouts:
  "timeouts (checkGameEnd s) =
     (if playerScore s \<ge> winningScore \<or> aiScore s \<ge> winningScore
      then timeouts s @ [(0, Celebrate), (300, Celebrate), (600, Celebrate), (900, Celebrate),
                         (1200, Celebrate), (3000, ResetGame)]
      else timeouts s)"
proof -
  have "[0..<5] = [0, 1, 2, 3, 4::nat]" by (simp add: upt_rec)
  then show ?thesis by (simp add: checkGameEnd_def)
qed

lemma resetBall_False_timeouts [simp]:
  "timeouts (resetBall R False s) = timeouts s"
  by (simp add: resetBall_def Let_def)

lemma checkScoring_timeouts:
  "timeouts (checkScoring R s) =
     (if vec_z (ball_position s) > tableDepth / 2 + ballRadius
      then timeouts (checkGameEnd (s\<lparr>aiScore := aiScore s + 1\<rparr>))
      else if vec_z (ball_position s) < - tableDepth / 2 - ballRadius
      then timeouts (checkGameEnd (s\<lparr>playerScore := playerScore s + 1\<rparr>))
      else timeouts s)"
  by (simp add: checkScoring_def Let_def checkGameEnd_timeouts dims)

lemma resetGame_simps:
  "playerScore (resetGame R s) = 0"
  "aiScore (resetGame R s) = 0"
  "gameLevel (resetGame R s) = gameLevel s + 1"
  "ballSpeed (resetGame R s) = min (0.5 + real_of_int (gameLevel s + 1) * 0.05) 0.8"
  "timeouts (resetGame R s) = timeouts s @ [(1000, LaunchBall)]"
  "ball_position (resetGame R s) = \<lparr>vec_x = 0, vec_y = tableHeight + ballRadius, vec_z = 0\<rparr>"
  by (simp_all add: resetGame_def resetBall_def Let_def)

lemma matchPoint_simps:
  "vec_z (ball_position matchPointAi) > tableDepth / 2 + ballRadius"
  "aiScore matchPointAi = 4" "playerScore matchPointAi = 2"
  "timeouts matchPointAi = [(1000, LaunchBall)]" "gameLevel matchPointAi = 1"
  "vec_z (ball_position matchPointPlayer) < - tableDepth / 2 - ballRadius"
  "aiScore matchPointPlayer = 3" "playerScore matchPointPlayer = 4"
  "timeouts matchPointPlayer = [(1000, LaunchBall)]" "gameLevel matchPointPlayer = 1"
  by (simp_all add: matchPointAi_def matchPointPlayer_def pastPlayerEnd_def pastAiEnd_def
        kickoff_simps dims)

text \<open>Registering and removing the per-frame callback.\<close>

lemma indexOf_None: "callback \<notin> set cs \<Longrightarrow> indexOf cs callback = None"
  by (induction cs) auto

lemma initialize_callbacks:
  "onUpdateCallbacks (arScene (initialize R s))
     = onUpdateCallbacks (arScene s) @ [allocated (arScene s)]"
  "allocated (arScene (initialize R s)) = allocated (arScene s) + 1"
  by (simp_all add: initialize_def Let_def bindUpdate_def addUpdateCallback_def
        createBall_def createPaddles_def)

lemma dispose_callbacks:
  assumes "\<forall>c \<in> set (onUpdateCallbacks (arScene s)). c < allocated (arScene s)"
  shows "onUpdateCallbacks (arScene (dispose s)) = onUpdateCallbacks (arScene s)"
proof -
  have "allocated (arScene s) \<notin> set (onUpdateCallbacks (arScene s))"
    using assms by auto
  then have "indexOf (onUpdateCallbacks (arScene s)) (allocated (arScene s)) = None"
    by (rule indexOf_None)
  then show ?thesis
    by (simp add: dispose_def Let_def bindUpdate_def removeUpdateCallback_def)
qed

text \<open>The life of a pooled particle system.\<close>

lemma createParticleSystem_fresh:
  "\<not> active (createParticleSystem R d n)"
  "lifetime (createParticleSystem R d n) = 0"
  "maxLifetime (createParticleSystem R d n) = 1"
  by (simp_all add: createParticleSystem_def split: prod.splits)

lemma foldl_addPooledSystem_idle:
  "list_all idle (particlePool s) \<Longrightarrow>
     list_all idle (particlePool (foldl (\<lambda>s i. addPooledSystem R s) s xs))"
  by (induction xs arbitrary: s)
     (simp_all add: addPooledSystem_def Let_def idle_def createParticleSystem_fresh)

lemma kickoff_pool_idle: "list_all idle (particlePool kickoff)"
proof -
  have "list_all idle (particlePool (createParticlePool steady
          (createPaddles (createBall (constructor scene0)))))"
    unfolding createParticlePool_def
    by (rule foldl_addPooledSystem_idle)
       (simp add: createPaddles_def createBall_def constructor_def)
  then show ?thesis
    by (simp add: kickoff_def initialize_def Let_def resetBall_def split: prod.splits)
qed

lemma findInactive_first:
  "pool \<noteq> [] \<Longrightarrow> \<not> active (pool ! 0) \<Longrightarrow> findInactive pool = Some 0"
  by (cases pool) simp_all

lemma scatter_other [simp]:
  "active (scatter R d c n v ps) = active ps"
  "lifetime (scatter R d c n v ps) = lifetime ps"
  "maxLifetime (scatter R d c n v ps) = maxLifetime ps"
  by (simp_all add: scatter_def split: prod.splits)

lemma emitParticles_first:
  assumes "particlePool s \<noteq> []" "\<not> active (particlePool s ! 0)"
  shows "particles (emitParticles R p c n v s) = particles s @ [0]"
    and "lifetime (particlePool (emitParticles R p c n v s) ! 0) = 0"
    and "maxLifetime (particlePool (emitParticles R p c n v s) ! 0)
           = maxLifetime (particlePool s ! 0)"
    and "active (particlePool (emitParticles R p c n v s) ! 0)"
  using assms findInactive_first[OF assms]
  by (simp_all add: emitParticles_def Let_def)

lemma advanceParticles_other [simp]:
  "active (advanceParticles dt ps) = active ps"
  "lifetime (advanceParticles dt ps) = lifetime ps"
  "maxLifetime (advanceParticles dt ps) = maxLifetime ps"
  by (simp_all add: advanceParticles_def Let_def split: prod.splits)

lemma updateParticles_none:
  "particles s = [] \<Longrightarrow> particlePool (updateParticles dt s) = particlePool s"
  "particles s = [] \<Longrightarrow> particles (updateParticles dt s) = []"
  by (simp_all add: updateParticles_def)

lemma updateParticles_one:
  assumes "particles s = [k]" "k < length (particlePool s)"
    and "lifetime (particlePool s ! k) + dt < maxLifetime (particlePool s ! k)"
  shows "lifetime (particlePool (updateParticles dt s) ! k) = lifetime (particlePool s ! k) + dt"
  using assms by (simp add: updateParticles_def updateParticleSystem_def Let_def)

text \<open>A tick without a bounce, a hit or a point.\<close>

lemma floorCeilingCollision_none:
  "tableHeight + ballRadius \<le> vec_y (ball_position s) \<Longrightarrow>
   vec_y (ball_position s) \<le> tableHeight + playAreaHeight - ballRadius \<Longrightarrow>
   floorCeilingCollision R s = s"
  by (simp add: floorCeilingCollision_def)

lemma sideWallCollision_none:
  "\<bar>vec_x (ball_position s)\<bar> \<le> tableWidth / 2 - ballRadius \<Longrightarrow> sideWallCollision R s = s"
  by (simp add: sideWallCollision_def)

lemma sideWallCollision_hit:
  "\<bar>vec_x (ball_position s)\<bar> > tableWidth / 2 - ballRadius \<Longrightarrow>
   sideWallCollision R s =
     emitParticles R
       ((ball_position s)\<lparr>vec_x := sgn (vec_x (ball_position s)) * (tableWidth / 2 - ballRadius)\<rparr>)
       (hexColor 0x3388ff) 20 0.1
       (s\<lparr>ballVelocity := (ballVelocity s)\<lparr>vec_x := vec_x (ballVelocity s) * (- 1)\<rparr>,
          ball_position := (ball_position s)
            \<lparr>vec_x := sgn (vec_x (ball_position s)) * (tableWidth / 2 - ballRadius)\<rparr>\<rparr>)"
  unfolding sideWallCollision_def Let_def by simp

lemma checkScoring_none:
  "vec_z (ball_position s) \<le> tableDepth / 2 + ballRadius \<Longrightarrow>
   - tableDepth / 2 - ballRadius \<le> vec_z (ball_position s) \<Longrightarrow>
   checkScoring R s = s"
  by (simp add: checkScoring_def Let_def)

lemma checkPaddleCollisions_miss:
  assumes "\<not> (vec_z (ballVelocity s) > 0 \<and>
       vec_z (ball_position s) + ballRadius > vec_z (playerPaddle_position s) - paddleDepth / 2 \<and>
       vec_z (lastPosition s) + ballRadius \<le> vec_z (playerPaddle_position s) - paddleDepth / 2)"
    and "\<not> (vec_z (ballVelocity s) < 0 \<and>
       vec_z (ball_position s) - ballRadius < vec_z (aiPaddle_position s) + paddleDepth / 2 \<and>
       vec_z (lastPosition s) - ballRadius \<ge> vec_z (aiPaddle_position s) + paddleDepth / 2)"
  shows "checkPaddleCollisions R s = s"
  unfolding checkPaddleCollisions_def
  by (simp add: playerPaddleCollision_miss[OF assms(1)] aiPaddleCollision_miss[OF assms(2)])

lemma towardsWall_integrated:
  "ball_position (integrateBall (1 / 10) towardsWall) = \<lparr>vec_x = 0.42, vec_y = 0.297, vec_z = 0.03\<rparr>"
  "ballVelocity (integrateBall (1 / 10) towardsWall) = \<lparr>vec_x = 0.5, vec_y = - 0.03, vec_z = 0.3\<rparr>"
  "lastPosition (integrateBall (1 / 10) towardsWall) = \<lparr>vec_x = 0.37, vec_y = 0.3, vec_z = 0\<rparr>"
  "particles (integrateBall (1 / 10) towardsWall) = []"
  "particlePool (integrateBall (1 / 10) towardsWall) = particlePool kickoff"
  "playerPaddle_position (integrateBall (1 / 10) towardsWall) = \<lparr>vec_x = 0, vec_y = 0.085, vec_z = 0.55\<rparr>"
  "aiPaddle_position (integrateBall (1 / 10) towardsWall) = \<lparr>vec_x = 0, vec_y = 0.085, vec_z = - 0.55\<rparr>"
  "isPlaying towardsWall"
  by (simp_all add: integrateBall_simps towardsWall_def kickoff_simps dims)

lemma kickoff_pool0:
  "particlePool kickoff \<noteq> []" "\<not> active (particlePool kickoff ! 0)"
  "lifetime (particlePool kickoff ! 0) = 0" "maxLifetime (particlePool kickoff ! 0) = 1"
proof -
  show ne: "particlePool kickoff \<noteq> []"
    using kickoff_simps(13) by auto
  then have "idle (particlePool kickoff ! 0)"
    using kickoff_pool_idle by (simp add: list_all_length)
  then show "\<not> active (particlePool kickoff ! 0)"
    "lifetime (particlePool kickoff ! 0) = 0" "maxLifetime (particlePool kickoff ! 0) = 1"
    by (simp_all add: idle_def)
qed


lemma towardsWall_spec_order:
  "lifetime (particlePool (update_spec_order steady (1 / 10) towardsWall) ! 0) = 1 / 10"
proof -
  let ?R = steady
  define a where "a = integrateBall (1 / 10) towardsWall"
  note ia = towardsWall_integrated[folded a_def]
  have fa: "floorCeilingCollision ?R a = a"
    by (rule floorCeilingCollision_none) (simp_all add: ia dims)
  define c where "c = sideWallCollision ?R a"
  have hit: "\<bar>vec_x (ball_position a)\<bar> > tableWidth / 2 - ballRadius"
    by (simp add: ia dims)
  note c_eq = sideWallCollision_hit[OF hit, of ?R, folded c_def]
  have c: "ball_position c = \<lparr>vec_x = 0.38, vec_y = 0.297, vec_z = 0.03\<rparr>"
    "ballVelocity c = \<lparr>vec_x = - 0.5, vec_y = - 0.03, vec_z = 0.3\<rparr>"
    "lastPosition c = lastPosition a" "playerPaddle_position c = playerPaddle_position a"
    "aiPaddle_position c = aiPaddle_position a"
    unfolding c_eq by (simp_all add: ia dims)
  have c0: "particles c = [0]" "lifetime (particlePool c ! 0) = 0"
    "maxLifetime (particlePool c ! 0) = 1" "length (particlePool c) = 10"
    unfolding c_eq
    by (simp_all add: emitParticles_first ia kickoff_pool0 kickoff_simps
          emitParticles_def[of _ _ _ _ _ "_\<lparr>ballVelocity := _, ball_position := _\<rparr>"]
          findInactive_first Let_def)
  have p: "checkPaddleCollisions ?R c = c"
    by (rule checkPaddleCollisions_miss) (simp_all add: c ia dims)
  have q: "checkScoring ?R c = c"
    by (rule checkScoring_none) (simp_all add: c dims)
  define e where "e = spinBall (updateAI ?R (1 / 10) c)"
  have e: "particles e = [0]" "particlePool e = particlePool c"
    by (simp_all add: e_def c0)
  have "lifetime (particlePool (updateParticles (1 / 10) e) ! 0)
          = lifetime (particlePool e ! 0) + 1 / 10"
    by (rule updateParticles_one) (simp_all add: e c0)
  moreover have "update_spec_order ?R (1 / 10) towardsWall
          = updateScoreIndicators (1 / 10) (updateTrail (updateParticles (1 / 10) e))"
    by (simp add: update_spec_order_def Let_def ia(8) a_def[symmetric] fa c_def[symmetric] p q
          e_def[symmetric])
  ultimately show ?thesis by (simp add: e c0)
qed

text \<open>
  Two points, one for each side, at four points each: the frame in which the ball leaves at the
  AI's end, the frame in which the serve that follows leaves at the player's end, and the
  callbacks that the two game ends schedule.
\<close>

lemma emitParticles_drawn:
  "particlePool s \<noteq> [] \<Longrightarrow> \<not> active (particlePool s ! 0) \<Longrightarrow>
   drawn (emitParticles R p c n v s) = drawn s + 3 * n"
  using findInactive_first[of "particlePool s"] by (simp add: emitParticles_def Let_def)

lemma playerPaddleCollision_wide:
  "\<not> (vec_x (ball_position s) \<ge> vec_x (playerPaddle_position s) - paddleWidth / 2 \<and>
       vec_x (ball_position s) \<le> vec_x (playerPaddle_position s) + paddleWidth / 2 \<and>
       vec_y (ball_position s) \<ge> vec_y (playerPaddle_position s) - paddleHeight / 2 \<and>
       vec_y (ball_position s) \<le> vec_y (playerPaddle_position s) + paddleHeight / 2)
   \<Longrightarrow> playerPaddleCollision R s = s"
  unfolding playerPaddleCollision_def Let_def by (simp only: if_False if_cancel)

lemma checkScoring_player_point:
  assumes "vec_z (ball_position s) < - tableDepth / 2 - ballRadius"
  shows "checkScoring R s =
     checkGameEnd (resetBall R False
       (emitParticles R (ball_position s) (hexColor 0x00ff88) 40 0.25
          (createScoreIndicator (ball_position s) True
             (s\<lparr>playerScore := playerScore s + 1\<rparr>))))"
proof -
  have "\<not> vec_z (ball_position s) > tableDepth / 2 + ballRadius"
    using assms by (simp add: dims)
  with assms show ?thesis
    unfolding checkScoring_def Let_def by simp
qed

lemma checkScoring_player_serve:
  assumes "vec_z (ball_position s) < - tableDepth / 2 - ballRadius"
    and "particlePool s \<noteq> []" "\<not> active (particlePool s ! 0)"
  shows "ballVelocity (checkScoring R s)
           = ballVelocity (launchBall R (s\<lparr>drawn := drawn s + 120\<rparr>))"
proof -
  define x where "x = emitParticles R (ball_position s) (hexColor 0x00ff88) 40 0.25
          (createScoreIndicator (ball_position s) True (s\<lparr>playerScore := playerScore s + 1\<rparr>))"
  have d: "drawn x = drawn s + 120"
    unfolding x_def using assms(2,3)
    by (subst emitParticles_drawn) (simp_all add: createScoreIndicator_def)
  have b: "ballSpeed x = ballSpeed s" by (simp add: x_def)
  have "ballVelocity (checkScoring R s)
          = ballVelocity (launchBall R
              (x\<lparr>ball_position := \<lparr>vec_x = 0, vec_y = tableHeight + ballRadius, vec_z = 0\<rparr>\<rparr>))"
    unfolding checkScoring_player_point[OF assms(1)] x_def[symmetric]
    by (simp add: resetBall_def Let_def)
  then show ?thesis
    by (simp add: launchBall_velocity d b)
qed

lemma fireTimeout_Celebrate:
  assumes "timeouts s = pre @ (d, Celebrate) # post" "k = length pre"
  shows "timeouts (fireTimeout R k s) = pre @ post"
    "playerScore (fireTimeout R k s) = playerScore s"
    "aiScore (fireTimeout R k s) = aiScore s"
    "gameLevel (fireTimeout R k s) = gameLevel s"
    "ballSpeed (fireTimeout R k s) = ballSpeed s"
    "isPlaying (fireTimeout R k s) = isPlaying s"
    "ball_position (fireTimeout R k s) = ball_position s"
    "ballVelocity (fireTimeout R k s) = ballVelocity s"
    "playerPaddle_position (fireTimeout R k s) = playerPaddle_position s"
  using assms by (simp_all add: fireTimeout_def nth_append)

lemma fireTimeout_LaunchBall:
  assumes "timeouts s = pre @ (d, LaunchBall) # post" "k = length pre"
  shows "timeouts (fireTimeout R k s) = pre @ post"
    "playerScore (fireTimeout R k s) = playerScore s"
    "aiScore (fireTimeout R k s) = aiScore s"
    "gameLevel (fireTimeout R k s) = gameLevel s"
    "ballSpeed (fireTimeout R k s) = ballSpeed s"
  using assms by (simp_all add: fireTimeout_def nth_append)

lemma fireTimeout_ResetGame_fields:
  assumes "timeouts s = pre @ (d, ResetGame) # post" "k = length pre"
  shows "timeouts (fireTimeout R k s) = pre @ post @ [(1000, LaunchBall)]"
    "playerScore (fireTimeout R k s) = 0"
    "aiScore (fireTimeout R k s) = 0"
    "gameLevel (fireTimeout R k s) = gameLevel s + 1"
    "ballSpeed (fireTimeout R k s) = min (0.5 + real_of_int (gameLevel s + 1) * 0.05) 0.8"
  using assms by (simp_all add: fireTimeout_def nth_append resetGame_simps)

lemma bursts5:
  fixes R :: "nat \<Rightarrow> real"
  assumes "timeouts s = pre @ [(d1, Celebrate), (d2, Celebrate), (d3, Celebrate),
                               (d4, Celebrate), (d5, Celebrate)] @ post"
    and "k = length pre"
  defines "t \<equiv> fireTimeout R k (fireTimeout R k (fireTimeout R k
                 (fireTimeout R k (fireTimeout R k s))))"
  shows "timeouts t = pre @ post"
    "playerScore t = playerScore s" "aiScore t = aiScore s" "gameLevel t = gameLevel s"
    "ballSpeed t = ballSpeed s" "isPlaying t = isPlaying s"
    "ball_position t = ball_position s" "ballVelocity t = ballVelocity s"
    "playerPaddle_position t = playerPaddle_position s"
proof -
  define s1 where "s1 = fireTimeout R k s"
  define s2 where "s2 = fireTimeout R k s1"
  define s3 where "s3 = fireTimeout R k s2"
  define s4 where "s4 = fireTimeout R k s3"
  have t: "t = fireTimeout R k s4"
    by (simp add: t_def s1_def s2_def s3_def s4_def)
  have a0: "timeouts s = pre @ (d1, Celebrate)
              # ([(d2, Celebrate), (d3, Celebrate), (d4, Celebrate), (d5, Celebrate)] @ post)"
    using assms(1) by simp
  note f1 = fireTimeout_Celebrate[OF a0 assms(2), of R, folded s1_def]
  have a1: "timeouts s1 = pre @ (d2, Celebrate)
              # ([(d3, Celebrate), (d4, Celebrate), (d5, Celebrate)] @ post)"
    using f1(1) by simp
  note f2 = fireTimeout_Celebrate[OF a1 assms(2), of R, folded s2_def]
  have a2: "timeouts s2 = pre @ (d3, Celebrate) # ([(d4, Celebrate), (d5, Celebrate)] @ post)"
    using f2(1) by simp
  note f3 = fireTimeout_Celebrate[OF a2 assms(2), of R, folded s3_def]
  have a3: "timeouts s3 = pre @ (d4, Celebrate) # ([(d5, Celebrate)] @ post)"
    using f3(1) by simp
  note f4 = fireTimeout_Celebrate[OF a3 assms(2), of R, folded s4_def]
  have a4: "timeouts s4 = pre @ (d5, Celebrate) # post"
    using f4(1) by simp
  note f5 = fireTimeout_Celebrate[OF a4 assms(2), of R, folded t]
  show "timeouts t = pre @ post"
    "playerScore t = playerScore s" "aiScore t = aiScore s" "gameLevel t = gameLevel s"
    "ballSpeed t = ballSpeed s" "isPlaying t = isPlaying s"
    "ball_position t = ball_position s" "ballVelocity t = ballVelocity s"
    "playerPaddle_position t = playerPaddle_position s"
    by (simp_all add: f1 f2 f3 f4 f5)
qed

lemma deuce_simps:
  "playerScore deuce = 4" "aiScore deuce = 4" "gameLevel deuce = 1" "isPlaying deuce"
  "timeouts deuce = []" "ballSpeed deuce = 0.5" "drawn deuce = 1200"
  "particles deuce = []" "particlePool deuce = particlePool kickoff"
  "ball_position deuce = \<lparr>vec_x = 0.2, vec_y = 0.3, vec_z = - 0.6\<rparr>"
  "ballVelocity deuce = \<lparr>vec_x = 0, vec_y = 0, vec_z = - 0.5\<rparr>"
  "playerPaddle_position deuce = \<lparr>vec_x = 0.3, vec_y = 0.085, vec_z = 0.55\<rparr>"
  "aiPaddle_position deuce = \<lparr>vec_x = 0, vec_y = 0.085, vec_z = - 0.55\<rparr>"
  by (simp_all add: deuce_def kickoff_simps towardsWall_spec_order)

lemma deuce_first_point:
  "playerScore firstPoint = 5"
  "aiScore firstPoint = 4"
  "gameLevel firstPoint = 1"
  "isPlaying firstPoint"
  "timeouts firstPoint
     = [(0, Celebrate), (300, Celebrate), (600, Celebrate), (900, Celebrate),
        (1200, Celebrate), (3000, ResetGame)]"
  "ball_position firstPoint = \<lparr>vec_x = 0, vec_y = 0.03, vec_z = 0\<rparr>"
  "ballVelocity firstPoint = \<lparr>vec_x = 0, vec_y = 0, vec_z = 0.5\<rparr>"
  "playerPaddle_position firstPoint
     = \<lparr>vec_x = 0.3, vec_y = 0.085, vec_z = 0.55\<rparr>"
proof -
  let ?R = alongZ
  define a where "a = integrateBall (1 / 10) deuce"
  have ia: "ball_position a = \<lparr>vec_x = 0.2, vec_y = 0.297, vec_z = - 0.65\<rparr>"
    "ballVelocity a = \<lparr>vec_x = 0, vec_y = - 0.03, vec_z = - 0.5\<rparr>"
    "lastPosition a = \<lparr>vec_x = 0.2, vec_y = 0.3, vec_z = - 0.6\<rparr>"
    "particles a = []" "particlePool a = particlePool kickoff" "drawn a = 1200"
    "playerPaddle_position a = \<lparr>vec_x = 0.3, vec_y = 0.085, vec_z = 0.55\<rparr>"
    "aiPaddle_position a = \<lparr>vec_x = 0, vec_y = 0.085, vec_z = - 0.55\<rparr>"
    "playerScore a = 4" "aiScore a = 4" "gameLevel a = 1" "isPlaying a" "timeouts a = []"
    "ballSpeed a = 0.5"
    by (simp_all add: a_def integrateBall_simps deuce_simps dims)
  have fa: "floorCeilingCollision ?R a = a"
    by (rule floorCeilingCollision_none) (simp_all add: ia dims)
  define b where "b = updateParticles (1 / 10) (updateTrail a)"
  have b: "ball_position b = ball_position a" "ballVelocity b = ballVelocity a"
    "lastPosition b = lastPosition a" "playerPaddle_position b = playerPaddle_position a"
    "aiPaddle_position b = aiPaddle_position a"
    "particlePool b = particlePool kickoff" "drawn b = 1200"
    "playerScore b = 4" "aiScore b = 4" "gameLevel b = 1" "isPlaying b" "timeouts b = []"
    "ballSpeed b = 0.5"
    by (simp_all add: b_def updateParticles_none ia)
  have wb: "sideWallCollision ?R b = b"
    by (rule sideWallCollision_none) (simp add: b ia dims)
  have pb: "checkPaddleCollisions ?R b = b"
    by (rule checkPaddleCollisions_miss) (simp_all add: b ia dims)
  have bz: "vec_z (ball_position b) < - tableDepth / 2 - ballRadius"
    "\<not> vec_z (ball_position b) > tableDepth / 2 + ballRadius"
    by (simp_all add: b ia dims)
  define c where "c = checkScoring ?R b"
  have cv: "ballVelocity c = \<lparr>vec_x = 0, vec_y = 0, vec_z = 0.5\<rparr>"
    unfolding c_def
    by (subst checkScoring_player_serve[OF bz(1)])
       (simp_all add: b kickoff_pool0 launchBall_velocity alongZ_def)
  have c: "playerScore c = 5" "aiScore c = 4" "gameLevel c = 1" "isPlaying c"
    "timeouts c = [(0, Celebrate), (300, Celebrate), (600, Celebrate), (900, Celebrate),
        (1200, Celebrate), (3000, ResetGame)]"
    "ball_position c = \<lparr>vec_x = 0, vec_y = 0.03, vec_z = 0\<rparr>"
    "playerPaddle_position c = \<lparr>vec_x = 0.3, vec_y = 0.085, vec_z = 0.55\<rparr>"
    unfolding c_def using bz
    by (simp_all add: checkScoring_scores checkScoring_timeouts checkGameEnd_timeouts
          checkScoring_position b ia winningScore_def dims)
  have u: "firstPoint
          = updateScoreIndicators (1 / 10) (spinBall (updateAI ?R (1 / 10) c))"
    by (simp add: firstPoint_def update_phases deuce_simps a_def[symmetric] fa
          b_def[symmetric] wb pb c_def[symmetric])
  show "playerScore firstPoint = 5"
    "aiScore firstPoint = 4"
    "gameLevel firstPoint = 1"
    "isPlaying firstPoint"
    "timeouts firstPoint
       = [(0, Celebrate), (300, Celebrate), (600, Celebrate), (900, Celebrate),
          (1200, Celebrate), (3000, ResetGame)]"
    "ball_position firstPoint = \<lparr>vec_x = 0, vec_y = 0.03, vec_z = 0\<rparr>"
    "ballVelocity firstPoint = \<lparr>vec_x = 0, vec_y = 0, vec_z = 0.5\<rparr>"
    "playerPaddle_position firstPoint
       = \<lparr>vec_x = 0.3, vec_y = 0.085, vec_z = 0.55\<rparr>"
    unfolding u by (simp_all add: c cv)
qed

lemma served_point:
  assumes "isPlaying s"
    and "ball_position s = \<lparr>vec_x = 0, vec_y = 0.03, vec_z = 0\<rparr>"
    and "ballVelocity s = \<lparr>vec_x = 0, vec_y = 0, vec_z = 0.5\<rparr>"
    and "playerPaddle_position s = \<lparr>vec_x = 0.3, vec_y = 0.085, vec_z = 0.55\<rparr>"
  shows "playerScore (update R (13 / 10) s) = playerScore s"
    "aiScore (update R (13 / 10) s) = aiScore s + 1"
    "gameLevel (update R (13 / 10) s) = gameLevel s"
    "ballSpeed (update R (13 / 10) s) = ballSpeed s"
    "timeouts (update R (13 / 10) s)
       = (if playerScore s \<ge> winningScore \<or> aiScore s + 1 \<ge> winningScore
          then timeouts s @ [(0, Celebrate), (300, Celebrate), (600, Celebrate), (900, Celebrate),
                             (1200, Celebrate), (3000, ResetGame)]
          else timeouts s)"
proof -
  define a where "a = integrateBall (13 / 10) s"
  have ia: "vec_x (ball_position a) = 0" "vec_z (ball_position a) = 0.65"
    "vec_z (ballVelocity a) = 0.5"
    "playerPaddle_position a = \<lparr>vec_x = 0.3, vec_y = 0.085, vec_z = 0.55\<rparr>"
    "playerScore a = playerScore s" "aiScore a = aiScore s" "gameLevel a = gameLevel s"
    "ballSpeed a = ballSpeed s" "timeouts a = timeouts s"
    by (simp_all add: a_def integrateBall_simps assms)
  define b where "b = updateParticles (13 / 10) (updateTrail (floorCeilingCollision R a))"
  have b: "vec_x (ball_position b) = 0" "vec_z (ball_position b) = 0.65"
    "vec_z (ballVelocity b) = 0.5"
    "playerPaddle_position b = \<lparr>vec_x = 0.3, vec_y = 0.085, vec_z = 0.55\<rparr>"
    "playerScore b = playerScore s" "aiScore b = aiScore s" "gameLevel b = gameLevel s"
    "ballSpeed b = ballSpeed s" "timeouts b = timeouts s"
    by (simp_all add: b_def floorCeilingCollision_position ia)
  have wb: "sideWallCollision R b = b"
    by (rule sideWallCollision_none) (simp add: b dims)
  have pp: "playerPaddleCollision R b = b"
    by (rule playerPaddleCollision_wide) (simp add: b dims)
  have pa: "aiPaddleCollision R b = b"
    by (rule aiPaddleCollision_miss) (simp add: b)
  have pb: "checkPaddleCollisions R b = b"
    by (simp add: checkPaddleCollisions_def pp pa)
  define c where "c = checkScoring R b"
  have c: "playerScore c = playerScore s" "aiScore c = aiScore s + 1"
    "gameLevel c = gameLevel s" "ballSpeed c = ballSpeed s"
    "timeouts c
       = (if playerScore s \<ge> winningScore \<or> aiScore s + 1 \<ge> winningScore
          then timeouts s @ [(0, Celebrate), (300, Celebrate), (600, Celebrate), (900, Celebrate),
                             (1200, Celebrate), (3000, ResetGame)]
          else timeouts s)"
    unfolding c_def
    by (simp_all add: checkScoring_scores checkScoring_timeouts checkGameEnd_timeouts b dims)
  have u: "update R (13 / 10) s
          = updateScoreIndicators (13 / 10) (spinBall (updateAI R (13 / 10) c))"
    by (simp add: update_phases assms(1) a_def[symmetric] b_def[symmetric] wb pb
          c_def[symmetric])
  show "playerScore (update R (13 / 10) s) = playerScore s"
    "aiScore (update R (13 / 10) s) = aiScore s + 1"
    "gameLevel (update R (13 / 10) s) = gameLevel s"
    "ballSpeed (update R (13 / 10) s) = ballSpeed s"
    "timeouts (update R (13 / 10) s)
       = (if playerScore s \<ge> winningScore \<or> aiScore s + 1 \<ge> winningScore
          then timeouts s @ [(0, Celebrate), (300, Celebrate), (600, Celebrate), (900, Celebrate),
                             (1200, Celebrate), (3000, ResetGame)]
          else timeouts s)"
    unfolding u by (simp_all add: c)
qed

lemma deuce_run:
  "timeouts firstBursts = [(3000, ResetGame)]"
  "playerScore secondPoint = 5" "aiScore secondPoint = 5" "gameLevel secondPoint = 1"
  "timeouts secondPoint
     = [(3000, ResetGame), (0, Celebrate), (300, Celebrate), (600, Celebrate), (900, Celebrate),
        (1200, Celebrate), (3000, ResetGame)]"
  "timeouts secondBursts = [(3000, ResetGame), (3000, ResetGame)]"
  "playerScore firstReset = 0" "aiScore firstReset = 0" "gameLevel firstReset = 2"
  "ballSpeed firstReset = 0.6"
  "timeouts firstReset = [(3000, ResetGame), (1000, LaunchBall)]"
  "timeouts served = [(3000, ResetGame)]" "gameLevel served = 2"
  "playerScore secondReset = 0" "aiScore secondReset = 0" "gameLevel secondReset = 3"
  "ballSpeed secondReset = 0.65"
  "timeouts secondReset = [(1000, LaunchBall)]"
proof -
  note fp = deuce_first_point
  have t1: "timeouts firstPoint = [] @ [(0, Celebrate), (300, Celebrate), (600, Celebrate),
              (900, Celebrate), (1200, Celebrate)] @ [(3000, ResetGame)]"
    by (simp add: fp)
  note fb0 = bursts5[OF t1, of 0 alongZ, folded firstBursts_def]
  have fb: "timeouts firstBursts = [(3000, ResetGame)]"
    "playerScore firstBursts = 5" "aiScore firstBursts = 4" "gameLevel firstBursts = 1"
    "isPlaying firstBursts"
    "ball_position firstBursts = \<lparr>vec_x = 0, vec_y = 0.03, vec_z = 0\<rparr>"
    "ballVelocity firstBursts = \<lparr>vec_x = 0, vec_y = 0, vec_z = 0.5\<rparr>"
    "playerPaddle_position firstBursts = \<lparr>vec_x = 0.3, vec_y = 0.085, vec_z = 0.55\<rparr>"
    by (simp_all add: fb0 fp)
  note sp0 = served_point[OF fb(5) fb(6) fb(7) fb(8), of alongZ, folded secondPoint_def]
  have sp: "playerScore secondPoint = 5" "aiScore secondPoint = 5" "gameLevel secondPoint = 1"
    "timeouts secondPoint
     = [(3000, ResetGame), (0, Celebrate), (300, Celebrate), (600, Celebrate), (900, Celebrate),
        (1200, Celebrate), (3000, ResetGame)]"
    by (simp_all add: sp0 fb winningScore_def)
  have t2: "timeouts secondPoint = [(3000, ResetGame)] @ [(0, Celebrate), (300, Celebrate),
              (600, Celebrate), (900, Celebrate), (1200, Celebrate)] @ [(3000, ResetGame)]"
    by (simp add: sp)
  note sb0 = bursts5[OF t2, of 1 alongZ, folded secondBursts_def]
  have sb: "timeouts secondBursts = [(3000, ResetGame), (3000, ResetGame)]"
    "gameLevel secondBursts = 1"
    by (simp_all add: sb0 sp)
  have t3: "timeouts secondBursts = [] @ (3000, ResetGame) # [(3000, ResetGame)]"
    by (simp add: sb)
  note fr0 = fireTimeout_ResetGame_fields[OF t3, of 0 alongZ, folded firstReset_def]
  have fr: "playerScore firstReset = 0" "aiScore firstReset = 0" "gameLevel firstReset = 2"
    "ballSpeed firstReset = 0.6"
    "timeouts firstReset = [(3000, ResetGame), (1000, LaunchBall)]"
    by (simp_all add: fr0 sb)
  have t4: "timeouts firstReset = [(3000, ResetGame)] @ (1000, LaunchBall) # []"
    by (simp add: fr)
  note sv0 = fireTimeout_LaunchBall[OF t4, of 1 alongZ, folded served_def]
  have sv: "timeouts served = [(3000, ResetGame)]" "gameLevel served = 2"
    by (simp_all add: sv0 fr)
  have t5: "timeouts served = [] @ (3000, ResetGame) # []"
    by (simp add: sv)
  note sr0 = fireTimeout_ResetGame_fields[OF t5, of 0 alongZ, folded secondReset_def]
  have sr: "playerScore secondReset = 0" "aiScore secondReset = 0" "gameLevel secondReset = 3"
    "ballSpeed secondReset = 0.65" "timeouts secondReset = [(1000, LaunchBall)]"
    by (simp_all add: sr0 sv)
  from fb(1) sp sb(1) fr sv sr
  show "timeouts firstBursts = [(3000, ResetGame)]"
  "playerScore secondPoint = 5" "aiScore secondPoint = 5" "gameLevel secondPoint = 1"
  "timeouts secondPoint
     = [(3000, ResetGame), (0, Celebrate), (300, Celebrate), (600, Celebrate), (900, Celebrate),
        (1200, Celebrate), (3000, ResetGame)]"
  "timeouts secondBursts = [(3000, ResetGame), (3000, ResetGame)]"
  "playerScore firstReset = 0" "aiScore firstReset = 0" "gameLevel firstReset = 2"
  "ballSpeed firstReset = 0.6"
  "timeouts firstReset = [(3000, ResetGame), (1000, LaunchBall)]"
  "timeouts served = [(3000, ResetGame)]" "gameLevel served = 2"
  "playerScore secondReset = 0" "aiScore secondReset = 0" "gameLevel secondReset = 3"
  "ballSpeed secondReset = 0.65"
  "timeouts secondReset = [(1000, LaunchBall)]"
    by simp_all
qed

text \<open>The clamps of the two paddles.\<close>

lemma clampAiPaddle_position:
  "aiPaddle_position (clampAiPaddle s) =
     \<lparr>vec_x = max (- (tableWidth / 2 - paddleWidth / 2))
                 (min (tableWidth / 2 - paddleWidth / 2) (vec_x (aiPaddle_position s))),
      vec_y = max (tableHeight + paddleHeight / 2)
                 (min (tableHeight + paddleVerticalRange) (vec_y (aiPaddle_position s))),
      vec_z = max (- tableDepth / 2 - paddleDepthRange)
                 (min (- tableDepth / 2 + 0.05) (vec_z (aiPaddle_position s)))\<rparr>"
  by (simp add: clampAiPaddle_def Let_def)


lemma clamp_range:
  fixes lo hi x :: real
  assumes "lo \<le> hi"
  shows "lo \<le> max lo (min hi x) \<and> max lo (min hi x) \<le> hi"
  using assms by auto

lemma updatePointerPosition_moved:
  assumes "(debugMode \<and> pointerDown t) \<or> (\<not> debugMode \<and> hit \<noteq> None)"
  shows "\<exists>x y z. playerPaddle_position
           (updatePointerPosition clientX clientY innerWidth innerHeight debugMode hit t)
         = \<lparr>vec_x = max (- (tableWidth / 2 - paddleWidth / 2))
                      (min (tableWidth / 2 - paddleWidth / 2) x),
            vec_y = max (tableHeight + paddleHeight / 2)
                      (min (tableHeight + paddleVerticalRange) y),
            vec_z = max (tableDepth / 2 - paddleDepthRange) (min (tableDepth / 2) z)\<rparr>"
proof (cases debugMode)
  case True
  with assms have "pointerDown t" by simp
  with True show ?thesis
    unfolding updatePointerPosition_def Let_def by (simp del: max_less_iff_conj) blast
next
  case False
  with assms obtain p where "hit = Some p" by auto
  with False show ?thesis
    unfolding updatePointerPosition_def Let_def by (simp del: max_less_iff_conj) blast
qed



text \<open>Invariants of a session: the level, the speed of the ball and the depth of the paddles.\<close>

lemma update_speed [simp]:
  "ballSpeed (update R dt s) = ballSpeed s"
  "gameLevel (update R dt s) = gameLevel s"
  by (simp_all add: update_phases)

lemma fireTimeout_speed:
  "1 \<le> gameLevel s \<and> 0.5 \<le> ballSpeed s \<and> ballSpeed s \<le> 0.8 \<Longrightarrow>
   1 \<le> gameLevel (fireTimeout R k s) \<and> 0.5 \<le> ballSpeed (fireTimeout R k s) \<and>
   ballSpeed (fireTimeout R k s) \<le> 0.8"
proof (cases "k < length (timeouts s)")
  case False
  assume "1 \<le> gameLevel s \<and> 0.5 \<le> ballSpeed s \<and> ballSpeed s \<le> 0.8"
  with False show ?thesis by (simp add: fireTimeout_def)
next
  case True
  assume inv: "1 \<le> gameLevel s \<and> 0.5 \<le> ballSpeed s \<and> ballSpeed s \<le> 0.8"
  show ?thesis
  proof (cases "snd (timeouts s ! k)")
    case LaunchBall
    with True inv show ?thesis by (simp add: fireTimeout_def)
  next
    case Celebrate
    with True inv show ?thesis by (simp add: fireTimeout_def)
  next
    case ResetGame
    have "0.5 \<le> min (0.5 + real_of_int (gameLevel s + 1) * 0.05) (0.8 :: real)"
         "min (0.5 + real_of_int (gameLevel s + 1) * 0.05) (0.8 :: real) \<le> 0.8"
      using inv by (simp_all add: min_def)
    moreover have "fireTimeout R k s
        = resetGame R (s\<lparr>timeouts := take k (timeouts s) @ drop (Suc k) (timeouts s)\<rparr>)"
      using True ResetGame by (simp add: fireTimeout_def)
    ultimately show ?thesis
      using inv by (simp add: resetGame_simps del: min_less_iff_conj)
  qed
qed

lemma session_ballSpeed:
  "session R s \<Longrightarrow> 1 \<le> gameLevel s \<and> 0.5 \<le> ballSpeed s \<and> ballSpeed s \<le> 0.8"
proof (induction rule: session.induct)
  case (started sc)
  show ?case
    by (simp add: initialize_def Let_def constructor_def createBall_def createPaddles_def
          split: prod.splits)
next
  case (frame s deltaTime)
  then show ?case by simp
next
  case (timeout s k)
  from timeout.IH show ?case by (rule fireTimeout_speed)
next
  case (pointerdown s clientX clientY innerWidth innerHeight debugMode hit)
  then show ?case by (simp add: onPointerDown_def)
next
  case (pointermove s clientX clientY innerWidth innerHeight debugMode hit)
  then show ?case by (simp add: onPointerMove_def)
next
  case (pointerup s)
  then show ?case by (simp add: onPointerUp_def)
next
  case (disposed s)
  then show ?case by (simp add: dispose_def Let_def split: prod.splits)
qed

lemma session_kickoff: "session steady kickoff"
  unfolding kickoff_def by (rule session.started)

lemma updateAI_depth:
  "- tableDepth / 2 - paddleDepthRange \<le> vec_z (aiPaddle_position (updateAI R dt s))"
  "vec_z (aiPaddle_position (updateAI R dt s)) \<le> - tableDepth / 2 + 0.05"
proof -
  have "- tableDepth / 2 - paddleDepthRange \<le> - tableDepth / 2 + 0.05"
    by (simp add: dims)
  from clamp_range[OF this]
  show "- tableDepth / 2 - paddleDepthRange \<le> vec_z (aiPaddle_position (updateAI R dt s))"
    "vec_z (aiPaddle_position (updateAI R dt s)) \<le> - tableDepth / 2 + 0.05"
    unfolding updateAI_def clampAiPaddle_position Vector3.simps by blast+
qed

lemma update_paddles:
  "playerPaddle_position (update R dt s) = playerPaddle_position s"
  "aiPaddle_position (update R dt s) =
     (if isPlaying s then aiPaddle_position (updateAI R dt (checkScoring R (beforeScoring R dt s)))
      else aiPaddle_position s)"
  by (simp_all add: update_phases beforeScoring_def)

lemma fireTimeout_paddles [simp]:
  "playerPaddle_position (fireTimeout R k s) = playerPaddle_position s"
  "aiPaddle_position (fireTimeout R k s) = aiPaddle_position s"
  by (cases "snd (timeouts s ! k)"; simp add: fireTimeout_def)+

lemma updatePointerPosition_depth:
  assumes "tableDepth / 2 - paddleDepthRange \<le> vec_z (playerPaddle_position s)"
    and "vec_z (playerPaddle_position s) \<le> tableDepth / 2"
  shows "tableDepth / 2 - paddleDepthRange
           \<le> vec_z (playerPaddle_position (updatePointerPosition cx cy w h dbg hit s))"
    and "vec_z (playerPaddle_position (updatePointerPosition cx cy w h dbg hit s))
           \<le> tableDepth / 2"
proof -
  have r: "tableDepth / 2 - paddleDepthRange \<le> tableDepth / 2" by (simp add: dims)
  have "tableDepth / 2 - paddleDepthRange
           \<le> vec_z (playerPaddle_position (updatePointerPosition cx cy w h dbg hit s)) \<and>
        vec_z (playerPaddle_position (updatePointerPosition cx cy w h dbg hit s))
           \<le> tableDepth / 2"
  proof (cases "(dbg \<and> pointerDown s) \<or> (\<not> dbg \<and> hit \<noteq> None)")
    case True
    from updatePointerPosition_moved[OF True, of cx cy w h]
    obtain x y z where "playerPaddle_position (updatePointerPosition cx cy w h dbg hit s)
         = \<lparr>vec_x = max (- (tableWidth / 2 - paddleWidth / 2))
                      (min (tableWidth / 2 - paddleWidth / 2) x),
            vec_y = max (tableHeight + paddleHeight / 2)
                      (min (tableHeight + paddleVerticalRange) y),
            vec_z = max (tableDepth / 2 - paddleDepthRange) (min (tableDepth / 2) z)\<rparr>"
      by blast
    then show ?thesis
      unfolding Vector3.simps using clamp_range[OF r] by simp
  next
    case False
    then have "playerPaddle_position (updatePointerPosition cx cy w h dbg hit s)
                 = playerPaddle_position s"
      by (auto simp add: updatePointerPosition_def Let_def)
    with assms show ?thesis by simp
  qed
  then show "tableDepth / 2 - paddleDepthRange
           \<le> vec_z (playerPaddle_position (updatePointerPosition cx cy w h dbg hit s))"
    and "vec_z (playerPaddle_position (updatePointerPosition cx cy w h dbg hit s))
           \<le> tableDepth / 2"
    by blast+
qed

lemma session_paddles:
  "session R s \<Longrightarrow>
     tableDepth / 2 - paddleDepthRange \<le> vec_z (playerPaddle_position s) \<and>
     vec_z (playerPaddle_position s) \<le> tableDepth / 2 \<and>
     - tableDepth / 2 - paddleDepthRange \<le> vec_z (aiPaddle_position s) \<and>
     vec_z (aiPaddle_position s) \<le> - tableDepth / 2 + 0.05"
proof (induction rule: session.induct)
  case (started sc)
  show ?case
    by (simp add: initialize_def Let_def createPaddles_def dims split: prod.splits)
next
  case (frame s deltaTime)
  with updateAI_depth[of R deltaTime "checkScoring R (beforeScoring R deltaTime s)"]
  show ?case
    by (simp add: update_paddles)
next
  case (timeout s k)
  then show ?case by simp
next
  case (pointerdown s clientX clientY innerWidth innerHeight debugMode hit)
  then have p: "tableDepth / 2 - paddleDepthRange
                  \<le> vec_z (playerPaddle_position (s\<lparr>pointerDown := True\<rparr>))"
    "vec_z (playerPaddle_position (s\<lparr>pointerDown := True\<rparr>)) \<le> tableDepth / 2"
    by simp_all
  from pointerdown.IH
    updatePointerPosition_depth[OF p, of clientX clientY innerWidth innerHeight debugMode hit]
  show ?case by (simp add: onPointerDown_def)
next
  case (pointermove s clientX clientY innerWidth innerHeight debugMode hit)
  then have p: "tableDepth / 2 - paddleDepthRange \<le> vec_z (playerPaddle_position s)"
    "vec_z (playerPaddle_position s) \<le> tableDepth / 2"
    by simp_all
  from pointermove.IH
    updatePointerPosition_depth[OF p, of clientX clientY innerWidth innerHeight debugMode hit]
  show ?case by (simp add: onPointerMove_def)
next
  case (pointerup s)
  then show ?case by (simp add: onPointerUp_def)
next
  case (disposed s)
  then show ?case by (simp add: dispose_def Let_def split: prod.splits)
qed

lemma checkPaddleCollisions_towards_ai:
  "vec_z (ballVelocity s) < 0 \<Longrightarrow> checkPaddleCollisions R s = aiPaddleCollision R s"
  by (simp add: checkPaddleCollisions_def playerPaddleCollision_miss)

lemma checkPaddleCollisions_towards_player:
  assumes "vec_z (ballVelocity s) > 0"
    and "vec_z (aiPaddle_position s) + paddleDepth / 2
           \<le> vec_z (playerPaddle_position s) - paddleDepth / 2 - 2 * ballRadius"
  shows "checkPaddleCollisions R s = playerPaddleCollision R s"
proof -
  have "\<not> (vec_z (ball_position (playerPaddleCollision R s)) - ballRadius
              < vec_z (aiPaddle_position (playerPaddleCollision R s)) + paddleDepth / 2 \<and>
            vec_z (ballVelocity (playerPaddleCollision R s)) < 0)"
  proof (cases "playerPaddleCollision R s = s")
    case True
    with assms(1) show ?thesis by simp
  next
    case False
    then have "vec_z (ball_position (playerPaddleCollision R s))
                 = vec_z (playerPaddle_position s) - paddleDepth / 2 - ballRadius"
      by (auto simp add: playerPaddleCollision_def Let_def split: if_splits)
    with assms(2) show ?thesis by simp
  qed
  then have "aiPaddleCollision R (playerPaddleCollision R s) = playerPaddleCollision R s"
    by (intro aiPaddleCollision_miss) blast
  then show ?thesis by (simp add: checkPaddleCollisions_def)
qed

lemma session_paddles_apart:
  "session R s \<Longrightarrow>
     vec_z (aiPaddle_position s) + paddleDepth / 2
       \<le> vec_z (playerPaddle_position s) - paddleDepth / 2 - 2 * ballRadius"
  using session_paddles[of R s] by (simp add: dims)

lemma update_ball_inside:
  assumes "isPlaying s"
  shows "- tableWidth / 2 + ballRadius \<le> vec_x (ball_position (update R deltaTime s)) \<and>
         vec_x (ball_position (update R deltaTime s)) \<le> tableWidth / 2 - ballRadius \<and>
         tableHeight + ballRadius \<le> vec_y (ball_position (update R deltaTime s)) \<and>
         vec_y (ball_position (update R deltaTime s))
           \<le> tableHeight + playAreaHeight - ballRadius"
proof -
  define s1 where "s1 = floorCeilingCollision R (integrateBall deltaTime s)"
  define s2 where "s2 = sideWallCollision R (updateParticles deltaTime (updateTrail s1))"
  define s3 where "s3 = checkPaddleCollisions R s2"
  have y1: "tableHeight + ballRadius \<le> vec_y (ball_position s1)"
           "vec_y (ball_position s1) \<le> tableHeight + playAreaHeight - ballRadius"
    unfolding s1_def by (rule floorCeilingCollision_position)+
  have x2: "- tableWidth / 2 + ballRadius \<le> vec_x (ball_position s2)"
           "vec_x (ball_position s2) \<le> tableWidth / 2 - ballRadius"
    unfolding s2_def by (rule sideWallCollision_position)+
  have y2: "vec_y (ball_position s2) = vec_y (ball_position s1)"
    unfolding s2_def by (simp add: sideWallCollision_position)
  have xy3: "vec_x (ball_position s3) = vec_x (ball_position s2)"
            "vec_y (ball_position s3) = vec_y (ball_position s1)"
    unfolding s3_def by (simp_all add: y2)
  have final: "ball_position (update R deltaTime s) = ball_position (checkScoring R s3)"
    using assms by (simp add: update_phases s1_def s2_def s3_def)
  show ?thesis
  proof (cases "vec_z (ball_position s3) > tableDepth / 2 + ballRadius \<or>
                vec_z (ball_position s3) < - tableDepth / 2 - ballRadius")
    case True
    then have "ball_position (update R deltaTime s)
                 = \<lparr>vec_x = 0, vec_y = tableHeight + ballRadius, vec_z = 0\<rparr>"
      unfolding final by (simp add: checkScoring_position)
    then show ?thesis by (simp add: dims)
  next
    case False
    then have "ball_position (update R deltaTime s) = ball_position s3"
      unfolding final by (simp add: checkScoring_position)
    with x2 y1 xy3 show ?thesis by simp
  qed
qed


lemma fireTimeout_ball_position:
  "ball_position (fireTimeout R k s) = ball_position s \<or>
   ball_position (fireTimeout R k s) = \<lparr>vec_x = 0, vec_y = tableHeight + ballRadius, vec_z = 0\<rparr>"
  by (cases "snd (timeouts s ! k)") (simp_all add: fireTimeout_def resetGame_simps)

lemma session_ball_inside:
  "session R s \<Longrightarrow>
     - tableWidth / 2 + ballRadius \<le> vec_x (ball_position s) \<and>
     vec_x (ball_position s) \<le> tableWidth / 2 - ballRadius \<and>
     tableHeight + ballRadius \<le> vec_y (ball_position s) \<and>
     vec_y (ball_position s) \<le> tableHeight + playAreaHeight - ballRadius"
proof (induction rule: session.induct)
  case (started sc)
  have "ball_position (initialize R (constructor sc))
          = \<lparr>vec_x = 0, vec_y = tableHeight + ballRadius, vec_z = 0\<rparr>"
    by (simp add: initialize_def Let_def resetBall_def split: prod.splits)
  then show ?case by (simp add: dims)
next
  case (frame s deltaTime)
  show ?case
  proof (cases "isPlaying s")
    case True
    then show ?thesis by (rule update_ball_inside)
  next
    case False
    with frame.IH show ?thesis by (simp add: update_def)
  qed
next
  case (timeout s k)
  from fireTimeout_ball_position[of R k s] show ?case
  proof
    assume "ball_position (fireTimeout R k s) = ball_position s"
    with timeout.IH show ?thesis by simp
  next
    assume "ball_position (fireTimeout R k s)
              = \<lparr>vec_x = 0, vec_y = tableHeight + ballRadius, vec_z = 0\<rparr>"
    then show ?thesis by (simp add: dims)
  qed
next
  case (pointerdown s clientX clientY innerWidth innerHeight debugMode hit)
  then show ?case by (simp add: onPointerDown_def)
next
  case (pointermove s clientX clientY innerWidth innerHeight debugMode hit)
  then show ?case by (simp add: onPointerMove_def)
next
  case (pointerup s)
  then show ?case by (simp add: onPointerUp_def)
next
  case (disposed s)
  then show ?case by (simp add: dispose_def Let_def split: prod.splits)
qed

text \<open>The pool keeps its ten systems.\<close>

lemma foldl_updateParticleSystem_length:
  "length (fst (foldl (updateParticleSystem dt) acc ks)) = length (fst acc)"
proof (induction ks arbitrary: acc)
  case Nil
  show ?case by simp
next
  case (Cons k ks)
  have "length (fst (updateParticleSystem dt acc k)) = length (fst acc)"
    by (cases acc) (simp add: updateParticleSystem_def Let_def)
  with Cons show ?case by simp
qed

lemma updateParticles_length [simp]:
  "length (particlePool (updateParticles dt s)) = length (particlePool s)"
  using foldl_updateParticleSystem_length[of dt "(particlePool s, [])" "particles s"]
  by (auto simp add: updateParticles_def split: prod.splits)

lemma pool_length [simp]:
  "length (particlePool (resetBall R b s)) = length (particlePool s)"
  "length (particlePool (bounceY R y s)) = length (particlePool s)"
  "length (particlePool (floorCeilingCollision R s)) = length (particlePool s)"
  "length (particlePool (sideWallCollision R s)) = length (particlePool s)"
  "length (particlePool (playerPaddleCollision R s)) = length (particlePool s)"
  "length (particlePool (aiPaddleCollision R s)) = length (particlePool s)"
  "length (particlePool (celebrate R s)) = length (particlePool s)"
  by (simp_all add: resetBall_def bounceY_def floorCeilingCollision_def sideWallCollision_def
        playerPaddleCollision_def aiPaddleCollision_def celebrate_def Let_def)

lemma pool_length_steps [simp]:
  "length (particlePool (checkPaddleCollisions R s)) = length (particlePool s)"
  "length (particlePool (checkScoring R s)) = length (particlePool s)"
  "length (particlePool (fireTimeout R k s)) = length (particlePool s)"
  "length (particlePool (update R dt s)) = length (particlePool s)"
proof -
  show "length (particlePool (checkPaddleCollisions R s)) = length (particlePool s)"
    by (simp add: checkPaddleCollisions_def)
  show "length (particlePool (checkScoring R s)) = length (particlePool s)"
    by (simp add: checkScoring_def Let_def)
  then show "length (particlePool (update R dt s)) = length (particlePool s)"
    by (simp add: update_phases checkPaddleCollisions_def checkScoring_def Let_def)
  show "length (particlePool (fireTimeout R k s)) = length (particlePool s)"
    by (cases "snd (timeouts s ! k)") (simp_all add: fireTimeout_def)
qed

lemma session_pool_size: "session R s \<Longrightarrow> length (particlePool s) = 10"
proof (induction rule: session.induct)
  case (started sc)
  show ?case
    by (simp add: initialize_def Let_def resetBall_def createParticlePool_length
          createPaddles_def createBall_def constructor_def split: prod.splits)
next
  case (frame s deltaTime)
  then show ?case by simp
next
  case (timeout s k)
  then show ?case by simp
next
  case (pointerdown s clientX clientY innerWidth innerHeight debugMode hit)
  then show ?case by (simp add: onPointerDown_def)
next
  case (pointermove s clientX clientY innerWidth innerHeight debugMode hit)
  then show ?case by (simp add: onPointerMove_def)
next
  case (pointerup s)
  then show ?case by (simp add: onPointerUp_def)
next
  case (disposed s)
  then show ?case by (simp add: dispose_def Let_def split: prod.splits)
qed

section \<open>Paddle collisions renormalise the speed\<close>

text \<open>
  C1. For both paddles: when the z-velocity points towards the paddle, the ball has crossed
  the collision plane of the paddle between the previous tick and this one, and its
  \<open>(x, y)\<close> lies within the rectangle of the paddle, the response multiplies the z-velocity
  by \<open>-1.05\<close>, adds to the x- and y-velocity half the hit offset divided by the half-extent
  of the paddle, rescales the resulting vector \<open>v\<close> by \<open>ballSpeed / |v|\<close>, so that the new
  speed is exactly \<open>ballSpeed\<close>, and puts the z-coordinate of the ball at the paddle face,
  offset by \<open>paddleDepth / 2 + ballRadius\<close>. The speed of a session is never negative (see
  \<open>session_ballSpeed\<close>). The response to the AI paddle is all that \<open>checkPaddleCollisions\<close>
  does when the ball moves towards the AI, and the response to the player paddle is all it
  does when the ball moves towards the player and the paddles are a ball's diameter apart,
  as they are throughout a session (see \<open>session_paddles_apart\<close>).
\<close>

theorem paddle_collision_response:
  assumes speed: "0 \<le> ballSpeed s"
  shows
    "(vec_z (ballVelocity s) > 0 \<and>
      vec_z (ball_position s) + ballRadius > vec_z (playerPaddle_position s) - paddleDepth / 2 \<and>
      vec_z (lastPosition s) + ballRadius \<le> vec_z (playerPaddle_position s) - paddleDepth / 2 \<and>
      vec_x (ball_position s) \<ge> vec_x (playerPaddle_position s) - paddleWidth / 2 \<and>
      vec_x (ball_position s) \<le> vec_x (playerPaddle_position s) + paddleWidth / 2 \<and>
      vec_y (ball_position s) \<ge> vec_y (playerPaddle_position s) - paddleHeight / 2 \<and>
      vec_y (ball_position s) \<le> vec_y (playerPaddle_position s) + paddleHeight / 2
      \<longrightarrow>
        (let v = \<lparr>vec_x = vec_x (ballVelocity s)
                     + (vec_x (ball_position s) - vec_x (playerPaddle_position s))
                         / (paddleWidth / 2) * 0.5,
                   vec_y = vec_y (ballVelocity s)
                     + (vec_y (ball_position s) - vec_y (playerPaddle_position s))
                         / (paddleHeight / 2) * 0.5,
                   vec_z = vec_z (ballVelocity s) * (- 1.05)\<rparr>;
             s' = playerPaddleCollision R s
         in ballVelocity s' = multiplyScalar v (ballSpeed s / magnitude v) \<and>
            magnitude (ballVelocity s') = ballSpeed s \<and>
            ball_position s' = (ball_position s)
              \<lparr>vec_z := vec_z (playerPaddle_position s) - paddleDepth / 2 - ballRadius\<rparr>))
     \<and>
     (vec_z (ballVelocity s) < 0 \<and>
      vec_z (ball_position s) - ballRadius < vec_z (aiPaddle_position s) + paddleDepth / 2 \<and>
      vec_z (lastPosition s) - ballRadius \<ge> vec_z (aiPaddle_position s) + paddleDepth / 2 \<and>
      vec_x (ball_position s) \<ge> vec_x (aiPaddle_position s) - paddleWidth / 2 \<and>
      vec_x (ball_position s) \<le> vec_x (aiPaddle_position s) + paddleWidth / 2 \<and>
      vec_y (ball_position s) \<ge> vec_y (aiPaddle_position s) - paddleHeight / 2 \<and>
      vec_y (ball_position s) \<le> vec_y (aiPaddle_position s) + paddleHeight / 2
      \<longrightarrow>
        (let v = \<lparr>vec_x = vec_x (ballVelocity s)
                     + (vec_x (ball_position s) - vec_x (aiPaddle_position s))
                         / (paddleWidth / 2) * 0.5,
                   vec_y = vec_y (ballVelocity s)
                     + (vec_y (ball_position s) - vec_y (aiPaddle_position s))
                         / (paddleHeight / 2) * 0.5,
                   vec_z = vec_z (ballVelocity s) * (- 1.05)\<rparr>;
             s' = aiPaddleCollision R s
         in ballVelocity s' = multiplyScalar v (ballSpeed s / magnitude v) \<and>
            magnitude (ballVelocity s') = ballSpeed s \<and>
            ball_position s' = (ball_position s)
              \<lparr>vec_z := vec_z (aiPaddle_position s) + paddleDepth / 2 + ballRadius\<rparr>))
     \<and>
     (vec_z (ballVelocity s) < 0 \<longrightarrow> checkPaddleCollisions R s = aiPaddleCollision R s)
     \<and>
     (vec_z (ballVelocity s) > 0 \<and>
      vec_z (aiPaddle_position s) + paddleDepth / 2
        \<le> vec_z (playerPaddle_position s) - paddleDepth / 2 - 2 * ballRadius
      \<longrightarrow> checkPaddleCollisions R s = playerPaddleCollision R s)"
proof (intro conjI impI)
  assume hit:
    "vec_z (ballVelocity s) > 0 \<and>
      vec_z (ball_position s) + ballRadius > vec_z (playerPaddle_position s) - paddleDepth / 2 \<and>
      vec_z (lastPosition s) + ballRadius \<le> vec_z (playerPaddle_position s) - paddleDepth / 2 \<and>
      vec_x (ball_position s) \<ge> vec_x (playerPaddle_position s) - paddleWidth / 2 \<and>
      vec_x (ball_position s) \<le> vec_x (playerPaddle_position s) + paddleWidth / 2 \<and>
      vec_y (ball_position s) \<ge> vec_y (playerPaddle_position s) - paddleHeight / 2 \<and>
      vec_y (ball_position s) \<le> vec_y (playerPaddle_position s) + paddleHeight / 2"
  define v where "v = \<lparr>vec_x = vec_x (ballVelocity s)
                     + (vec_x (ball_position s) - vec_x (playerPaddle_position s))
                         / (paddleWidth / 2) * 0.5,
                   vec_y = vec_y (ballVelocity s)
                     + (vec_y (ball_position s) - vec_y (playerPaddle_position s))
                         / (paddleHeight / 2) * 0.5,
                   vec_z = vec_z (ballVelocity s) * (- 1.05)\<rparr>"
  have nz: "vec_z v \<noteq> 0" using hit by (simp add: v_def)
  have vel: "ballVelocity (playerPaddleCollision R s) = multiplyScalar v (ballSpeed s / magnitude v)"
    using hit playerPaddleCollision_hit(1)[of s R] by (simp add: v_def Let_def)
  have pos: "ball_position (playerPaddleCollision R s) = (ball_position s)
              \<lparr>vec_z := vec_z (playerPaddle_position s) - paddleDepth / 2 - ballRadius\<rparr>"
    using hit playerPaddleCollision_hit(2)[of s R] by simp
  have "magnitude (ballVelocity (playerPaddleCollision R s)) = ballSpeed s"
    unfolding vel using nz speed by (rule renormalized)
  with vel pos show
    "let v = \<lparr>vec_x = vec_x (ballVelocity s)
                     + (vec_x (ball_position s) - vec_x (playerPaddle_position s))
                         / (paddleWidth / 2) * 0.5,
                   vec_y = vec_y (ballVelocity s)
                     + (vec_y (ball_position s) - vec_y (playerPaddle_position s))
                         / (paddleHeight / 2) * 0.5,
                   vec_z = vec_z (ballVelocity s) * (- 1.05)\<rparr>;
             s' = playerPaddleCollision R s
         in ballVelocity s' = multiplyScalar v (ballSpeed s / magnitude v) \<and>
            magnitude (ballVelocity s') = ballSpeed s \<and>
            ball_position s' = (ball_position s)
              \<lparr>vec_z := vec_z (playerPaddle_position s) - paddleDepth / 2 - ballRadius\<rparr>"
    unfolding Let_def v_def by blast
next
  assume hit:
    "vec_z (ballVelocity s) < 0 \<and>
      vec_z (ball_position s) - ballRadius < vec_z (aiPaddle_position s) + paddleDepth / 2 \<and>
      vec_z (lastPosition s) - ballRadius \<ge> vec_z (aiPaddle_position s) + paddleDepth / 2 \<and>
      vec_x (ball_position s) \<ge> vec_x (aiPaddle_position s) - paddleWidth / 2 \<and>
      vec_x (ball_position s) \<le> vec_x (aiPaddle_position s) + paddleWidth / 2 \<and>
      vec_y (ball_position s) \<ge> vec_y (aiPaddle_position s) - paddleHeight / 2 \<and>
      vec_y (ball_position s) \<le> vec_y (aiPaddle_position s) + paddleHeight / 2"
  define v where "v = \<lparr>vec_x = vec_x (ballVelocity s)
                     + (vec_x (ball_position s) - vec_x (aiPaddle_position s))
                         / (paddleWidth / 2) * 0.5,
                   vec_y = vec_y (ballVelocity s)
                     + (vec_y (ball_position s) - vec_y (aiPaddle_position s))
                         / (paddleHeight / 2) * 0.5,
                   vec_z = vec_z (ballVelocity s) * (- 1.05)\<rparr>"
  have nz: "vec_z v \<noteq> 0" using hit by (simp add: v_def)
  have vel: "ballVelocity (aiPaddleCollision R s) = multiplyScalar v (ballSpeed s / magnitude v)"
    using hit aiPaddleCollision_hit(1)[of s R] by (simp add: v_def Let_def)
  have pos: "ball_position (aiPaddleCollision R s) = (ball_position s)
              \<lparr>vec_z := vec_z (aiPaddle_position s) + paddleDepth / 2 + ballRadius\<rparr>"
    using hit aiPaddleCollision_hit(2)[of s R] by simp
  have "magnitude (ballVelocity (aiPaddleCollision R s)) = ballSpeed s"
    unfolding vel using nz speed by (rule renormalized)
  with vel pos show
    "let v = \<lparr>vec_x = vec_x (ballVelocity s)
                     + (vec_x (ball_position s) - vec_x (aiPaddle_position s))
                         / (paddleWidth / 2) * 0.5,
                   vec_y = vec_y (ballVelocity s)
                     + (vec_y (ball_position s) - vec_y (aiPaddle_position s))
                         / (paddleHeight / 2) * 0.5,
                   vec_z = vec_z (ballVelocity s) * (- 1.05)\<rparr>;
             s' = aiPaddleCollision R s
         in ballVelocity s' = multiplyScalar v (ballSpeed s / magnitude v) \<and>
            magnitude (ballVelocity s') = ballSpeed s \<and>
            ball_position s' = (ball_position s)
              \<lparr>vec_z := vec_z (aiPaddle_position s) + paddleDepth / 2 + ballRadius\<rparr>"
    unfolding Let_def v_def by blast
next
  assume "vec_z (ballVelocity s) < 0"
  then show "checkPaddleCollisions R s = aiPaddleCollision R s"
    by (rule checkPaddleCollisions_towards_ai)
next
  assume "vec_z (ballVelocity s) > 0 \<and>
      vec_z (aiPaddle_position s) + paddleDepth / 2
        \<le> vec_z (playerPaddle_position s) - paddleDepth / 2 - 2 * ballRadius"
  then show "checkPaddleCollisions R s = playerPaddleCollision R s"
    by (intro checkPaddleCollisions_towards_player) blast+
qed

lemma atPlayerPaddle_hit:
  "0 \<le> ballSpeed atPlayerPaddle"
  "vec_z (ballVelocity atPlayerPaddle) > 0 \<and>
      vec_z (ball_position atPlayerPaddle) + ballRadius > vec_z (playerPaddle_position atPlayerPaddle) - paddleDepth / 2 \<and>
      vec_z (lastPosition atPlayerPaddle) + ballRadius \<le> vec_z (playerPaddle_position atPlayerPaddle) - paddleDepth / 2 \<and>
      vec_x (ball_position atPlayerPaddle) \<ge> vec_x (playerPaddle_position atPlayerPaddle) - paddleWidth / 2 \<and>
      vec_x (ball_position atPlayerPaddle) \<le> vec_x (playerPaddle_position atPlayerPaddle) + paddleWidth / 2 \<and>
      vec_y (ball_position atPlayerPaddle) \<ge> vec_y (playerPaddle_position atPlayerPaddle) - paddleHeight / 2 \<and>
      vec_y (ball_position atPlayerPaddle) \<le> vec_y (playerPaddle_position atPlayerPaddle) + paddleHeight / 2"
  by (simp_all add: atPlayerPaddle_def kickoff_simps dims)

lemma atAiPaddle_hit:
  "0 \<le> ballSpeed atAiPaddle"
  "vec_z (ballVelocity atAiPaddle) < 0 \<and>
      vec_z (ball_position atAiPaddle) - ballRadius < vec_z (aiPaddle_position atAiPaddle) + paddleDepth / 2 \<and>
      vec_z (lastPosition atAiPaddle) - ballRadius \<ge> vec_z (aiPaddle_position atAiPaddle) + paddleDepth / 2 \<and>
      vec_x (ball_position atAiPaddle) \<ge> vec_x (aiPaddle_position atAiPaddle) - paddleWidth / 2 \<and>
      vec_x (ball_position atAiPaddle) \<le> vec_x (aiPaddle_position atAiPaddle) + paddleWidth / 2 \<and>
      vec_y (ball_position atAiPaddle) \<ge> vec_y (aiPaddle_position atAiPaddle) - paddleHeight / 2 \<and>
      vec_y (ball_position atAiPaddle) \<le> vec_y (aiPaddle_position atAiPaddle) + paddleHeight / 2"
  by (simp_all add: atAiPaddle_def kickoff_simps dims)

theorem paddle_collision_response_witness:
  "0 \<le> ballSpeed atPlayerPaddle \<and>
   vec_z (ballVelocity atPlayerPaddle) > 0 \<and>
   magnitude (ballVelocity (playerPaddleCollision steady atPlayerPaddle)) = 0.5 \<and>
   ballVelocity (playerPaddleCollision steady atPlayerPaddle)
     = \<lparr>vec_x = 0, vec_y = 0, vec_z = - 0.5\<rparr> \<and>
   ball_position (playerPaddleCollision steady atPlayerPaddle)
     = \<lparr>vec_x = 0, vec_y = 0.085, vec_z = 0.525\<rparr> \<and>
   0 \<le> ballSpeed atAiPaddle \<and>
   vec_z (ballVelocity atAiPaddle) < 0 \<and>
   magnitude (ballVelocity (aiPaddleCollision steady atAiPaddle)) = 0.5 \<and>
   ball_position (aiPaddleCollision steady atAiPaddle)
     = \<lparr>vec_x = 0.03, vec_y = 0.1, vec_z = - 0.525\<rparr> \<and>
   checkPaddleCollisions steady atAiPaddle = aiPaddleCollision steady atAiPaddle \<and>
   vec_z (aiPaddle_position atPlayerPaddle) + paddleDepth / 2
     \<le> vec_z (playerPaddle_position atPlayerPaddle) - paddleDepth / 2 - 2 * ballRadius \<and>
   checkPaddleCollisions steady atPlayerPaddle = playerPaddleCollision steady atPlayerPaddle"
proof -
  note p = paddle_collision_response
    [OF atPlayerPaddle_hit(1), of steady, THEN conjunct1, THEN mp, OF atPlayerPaddle_hit(2)]
  note a = paddle_collision_response
    [OF atAiPaddle_hit(1), of steady, THEN conjunct2, THEN conjunct1, THEN mp,
     OF atAiPaddle_hit(2)]
  note pv = p[unfolded Let_def, THEN conjunct1]
  note pm = p[unfolded Let_def, THEN conjunct2, THEN conjunct1]
  note pp = p[unfolded Let_def, THEN conjunct2, THEN conjunct2]
  note am = a[unfolded Let_def, THEN conjunct2, THEN conjunct1]
  note ap = a[unfolded Let_def, THEN conjunct2, THEN conjunct2]
  have b: "ballSpeed atPlayerPaddle = 0.5" "ballSpeed atAiPaddle = 0.5"
    by (simp_all add: atPlayerPaddle_def atAiPaddle_def kickoff_simps)
  have sq: "sqrt (441 / 1600 :: real) = 21 / 40"
    by (rule real_sqrt_unique) (simp_all add: power2_eq_square)
  have v: "magnitude \<lparr>vec_x = 0, vec_y = 0, vec_z = - (21 / 40)\<rparr> = 21 / 40"
    by (simp add: magnitude_def sq)
  have "ballVelocity (playerPaddleCollision steady atPlayerPaddle)
     = \<lparr>vec_x = 0, vec_y = 0, vec_z = - 0.5\<rparr>"
    unfolding pv by (simp add: atPlayerPaddle_def kickoff_simps dims v multiplyScalar_def)
  moreover have "ball_position (playerPaddleCollision steady atPlayerPaddle)
     = \<lparr>vec_x = 0, vec_y = 0.085, vec_z = 0.525\<rparr>"
    unfolding pp by (simp add: atPlayerPaddle_def kickoff_simps dims)
  moreover have "ball_position (aiPaddleCollision steady atAiPaddle)
     = \<lparr>vec_x = 0.03, vec_y = 0.1, vec_z = - 0.525\<rparr>"
    unfolding ap by (simp add: atAiPaddle_def kickoff_simps dims)
  moreover have "magnitude (ballVelocity (playerPaddleCollision steady atPlayerPaddle)) = 0.5"
    unfolding pm b by simp
  moreover have "magnitude (ballVelocity (aiPaddleCollision steady atAiPaddle)) = 0.5"
    unfolding am b by simp
  moreover have apart: "vec_z (aiPaddle_position atPlayerPaddle) + paddleDepth / 2
     \<le> vec_z (playerPaddle_position atPlayerPaddle) - paddleDepth / 2 - 2 * ballRadius"
    by (simp add: atPlayerPaddle_def kickoff_simps dims)
  moreover have "checkPaddleCollisions steady atAiPaddle = aiPaddleCollision steady atAiPaddle"
    using paddle_collision_response [OF atAiPaddle_hit(1), of steady] atAiPaddle_hit(2)
    by blast
  moreover have
    "checkPaddleCollisions steady atPlayerPaddle = playerPaddleCollision steady atPlayerPaddle"
    using paddle_collision_response [OF atPlayerPaddle_hit(1), of steady] atPlayerPaddle_hit(2)
      apart
    by blast
  ultimately show ?thesis
    using atPlayerPaddle_hit atAiPaddle_hit by simp
qed

section \<open>The ball stays inside the play area\<close>

text \<open>
  C2. At the end of every \<open>update\<close> call made while the game is playing, the x-coordinate
  of the ball lies within \<open>[-tableWidth/2 + ballRadius, tableWidth/2 - ballRadius]\<close> and
  its y-coordinate within \<open>[tableHeight + ballRadius, tableHeight + playAreaHeight -
  ballRadius]\<close>. This holds for every \<open>deltaTime\<close> and from every state, so in particular
  for a non-negative \<open>deltaTime\<close> and a ball that started within these bounds; and since
  \<open>initialize\<close> puts the ball within them, they hold in every state of a session.
\<close>

theorem ball_containment:
  "(isPlaying s \<longrightarrow>
      - tableWidth / 2 + ballRadius \<le> vec_x (ball_position (update R deltaTime s)) \<and>
      vec_x (ball_position (update R deltaTime s)) \<le> tableWidth / 2 - ballRadius \<and>
      tableHeight + ballRadius \<le> vec_y (ball_position (update R deltaTime s)) \<and>
      vec_y (ball_position (update R deltaTime s))
        \<le> tableHeight + playAreaHeight - ballRadius) \<and>
   (session R s \<longrightarrow>
      - tableWidth / 2 + ballRadius \<le> vec_x (ball_position s) \<and>
      vec_x (ball_position s) \<le> tableWidth / 2 - ballRadius \<and>
      tableHeight + ballRadius \<le> vec_y (ball_position s) \<and>
      vec_y (ball_position s) \<le> tableHeight + playAreaHeight - ballRadius)"
  using update_ball_inside[of s R deltaTime] session_ball_inside[of R s] by blast

theorem ball_containment_witness:
  "isPlaying kickoff \<and>
   - tableWidth / 2 + ballRadius \<le> vec_x (ball_position (update steady 0.016 kickoff)) \<and>
   vec_x (ball_position (update steady 0.016 kickoff)) \<le> tableWidth / 2 - ballRadius \<and>
   tableHeight + ballRadius \<le> vec_y (ball_position (update steady 0.016 kickoff)) \<and>
   vec_y (ball_position (update steady 0.016 kickoff))
     \<le> tableHeight + playAreaHeight - ballRadius \<and>
   session steady (update steady 0.016 kickoff) \<and>
   session steady kickoff \<and>
   vec_x (ball_position kickoff) \<le> tableWidth / 2 - ballRadius"
proof -
  have s: "session steady kickoff" by (rule session_kickoff)
  then have "session steady (update steady 0.016 kickoff)" by (rule session.frame)
  with s ball_containment [of kickoff steady "0.016"] kickoff_simps(3) show ?thesis by blast
qed

section \<open>Scoring\<close>

text \<open>
  C3. A scoring event is the ball found beyond \<open>tableDepth/2 + ballRadius\<close>, or below
  \<open>-tableDepth/2 - ballRadius\<close>, when \<open>update\<close> calls \<open>checkScoring\<close>. In the first case
  \<open>aiScore\<close> grows by exactly one and \<open>playerScore\<close> keeps its value, in the second
  \<open>playerScore\<close> grows by exactly one and \<open>aiScore\<close> keeps its value; in both the ball is
  put back at \<open>(0, tableHeight + ballRadius, 0)\<close> at once. This holds for \<open>checkScoring\<close>
  alone and for the whole \<open>update\<close> call in which the event happens, whose remaining steps
  change neither the scores nor the position of the ball.
\<close>

theorem scoring_event:
  "(vec_z (ball_position s) > tableDepth / 2 + ballRadius \<longrightarrow>
      aiScore (checkScoring R s) = aiScore s + 1 \<and>
      playerScore (checkScoring R s) = playerScore s \<and>
      ball_position (checkScoring R s)
        = \<lparr>vec_x = 0, vec_y = tableHeight + ballRadius, vec_z = 0\<rparr>) \<and>
   (vec_z (ball_position s) < - tableDepth / 2 - ballRadius \<longrightarrow>
      playerScore (checkScoring R s) = playerScore s + 1 \<and>
      aiScore (checkScoring R s) = aiScore s \<and>
      ball_position (checkScoring R s)
        = \<lparr>vec_x = 0, vec_y = tableHeight + ballRadius, vec_z = 0\<rparr>) \<and>
   (isPlaying s \<and>
    vec_z (ball_position (beforeScoring R deltaTime s)) > tableDepth / 2 + ballRadius \<longrightarrow>
      aiScore (update R deltaTime s) = aiScore s + 1 \<and>
      playerScore (update R deltaTime s) = playerScore s \<and>
      ball_position (update R deltaTime s)
        = \<lparr>vec_x = 0, vec_y = tableHeight + ballRadius, vec_z = 0\<rparr>) \<and>
   (isPlaying s \<and>
    vec_z (ball_position (beforeScoring R deltaTime s)) < - tableDepth / 2 - ballRadius \<longrightarrow>
      playerScore (update R deltaTime s) = playerScore s + 1 \<and>
      aiScore (update R deltaTime s) = aiScore s \<and>
      ball_position (update R deltaTime s)
        = \<lparr>vec_x = 0, vec_y = tableHeight + ballRadius, vec_z = 0\<rparr>)"
proof -
  have ends: "tableDepth / 2 + ballRadius > - tableDepth / 2 - ballRadius"
    by (simp add: dims)
  have one: "vec_z (ball_position t) > tableDepth / 2 + ballRadius \<Longrightarrow>
      aiScore (checkScoring R t) = aiScore t + 1 \<and>
      playerScore (checkScoring R t) = playerScore t \<and>
      ball_position (checkScoring R t)
        = \<lparr>vec_x = 0, vec_y = tableHeight + ballRadius, vec_z = 0\<rparr>" for t
    using ends by (simp add: checkScoring_scores checkScoring_position)
  have other: "vec_z (ball_position t) < - tableDepth / 2 - ballRadius \<Longrightarrow>
      playerScore (checkScoring R t) = playerScore t + 1 \<and>
      aiScore (checkScoring R t) = aiScore t \<and>
      ball_position (checkScoring R t)
        = \<lparr>vec_x = 0, vec_y = tableHeight + ballRadius, vec_z = 0\<rparr>" for t
    using ends by (simp add: checkScoring_scores checkScoring_position)
  have tail:
    "aiScore (update R deltaTime s) = aiScore (checkScoring R (beforeScoring R deltaTime s))"
    "playerScore (update R deltaTime s) = playerScore (checkScoring R (beforeScoring R deltaTime s))"
    "ball_position (update R deltaTime s)
       = ball_position (checkScoring R (beforeScoring R deltaTime s))"
    if "isPlaying s"
    using that by (simp_all add: update_beforeScoring)
  show ?thesis
    using one[of s] other[of s] one[of "beforeScoring R deltaTime s"]
      other[of "beforeScoring R deltaTime s"] tail
    by simp
qed

theorem scoring_event_witness:
  "vec_z (ball_position pastPlayerEnd) > tableDepth / 2 + ballRadius \<and>
   aiScore (checkScoring steady pastPlayerEnd) = 1 \<and>
   playerScore (checkScoring steady pastPlayerEnd) = 0 \<and>
   vec_z (ball_position pastAiEnd) < - tableDepth / 2 - ballRadius \<and>
   playerScore (checkScoring steady pastAiEnd) = 1 \<and>
   aiScore (checkScoring steady pastAiEnd) = 0 \<and>
   isPlaying leavingTable \<and>
   vec_z (ball_position (beforeScoring steady (1 / 10) leavingTable))
     > tableDepth / 2 + ballRadius \<and>
   aiScore (update steady (1 / 10) leavingTable) = 1 \<and>
   playerScore (update steady (1 / 10) leavingTable) = 0 \<and>
   ball_position (update steady (1 / 10) leavingTable)
     = \<lparr>vec_x = 0, vec_y = tableHeight + ballRadius, vec_z = 0\<rparr> \<and>
   isPlaying leavingTableAi \<and>
   vec_z (ball_position (beforeScoring steady (1 / 10) leavingTableAi))
     < - tableDepth / 2 - ballRadius \<and>
   playerScore (update steady (1 / 10) leavingTableAi) = 1 \<and>
   aiScore (update steady (1 / 10) leavingTableAi) = 0 \<and>
   ball_position (update steady (1 / 10) leavingTableAi)
     = \<lparr>vec_x = 0, vec_y = tableHeight + ballRadius, vec_z = 0\<rparr>"
proof -
  have a: "vec_z (ball_position pastPlayerEnd) > tableDepth / 2 + ballRadius"
          "aiScore pastPlayerEnd = 0" "playerScore pastPlayerEnd = 0"
    by (simp_all add: pastPlayerEnd_def kickoff_simps dims)
  have b: "vec_z (ball_position pastAiEnd) < - tableDepth / 2 - ballRadius"
          "aiScore pastAiEnd = 0" "playerScore pastAiEnd = 0"
    by (simp_all add: pastAiEnd_def kickoff_simps dims)
  have c: "isPlaying leavingTable"
          "vec_z (ball_position (beforeScoring steady (1 / 10) leavingTable))
             > tableDepth / 2 + ballRadius"
          "aiScore leavingTable = 0" "playerScore leavingTable = 0"
    by (simp_all add: leavingTable_before) (simp_all add: leavingTable_def kickoff_simps dims)
  have d: "isPlaying leavingTableAi"
          "vec_z (ball_position (beforeScoring steady (1 / 10) leavingTableAi))
             < - tableDepth / 2 - ballRadius"
          "aiScore leavingTableAi = 0" "playerScore leavingTableAi = 0"
    by (simp_all add: leavingTable_before) (simp_all add: leavingTableAi_def kickoff_simps dims)
  show ?thesis
    using scoring_event [of pastPlayerEnd steady "1 / 10"]
          scoring_event [of pastAiEnd steady "1 / 10"]
          scoring_event [of leavingTable steady "1 / 10"]
          scoring_event [of leavingTableAi steady "1 / 10"]
          a b c d
    by simp
qed

section \<open>The end of a game\<close>

text \<open>
  One end of a game. When \<open>checkGameEnd\<close> finds either score at \<open>winningScore\<close> or above,
  which \<open>checkScoring\<close> asks right after the point that brings a score to \<open>winningScore\<close>,
  it schedules five celebratory bursts and one \<open>ResetGame\<close> callback, with the fixed delay
  of 3000 milliseconds. When that callback runs, both scores are 0, \<open>gameLevel\<close> is greater
  by one than it was, \<open>ballSpeed\<close> is \<open>min (0.5 + gameLevel * 0.05) 0.8\<close> at the new
  \<open>gameLevel\<close>, the callback is gone from the pending list and the delayed serve is
  scheduled.
\<close>

lemma checkGameEnd_reset:
  "(playerScore s \<ge> winningScore \<or> aiScore s \<ge> winningScore \<longrightarrow>
      timeouts (checkGameEnd s)
        = timeouts s @ [(0, Celebrate), (300, Celebrate), (600, Celebrate), (900, Celebrate),
                        (1200, Celebrate), (3000, ResetGame)]) \<and>
   (vec_z (ball_position s) > tableDepth / 2 + ballRadius \<and> aiScore s + 1 \<ge> winningScore \<longrightarrow>
      timeouts (checkScoring R s)
        = timeouts s @ [(0, Celebrate), (300, Celebrate), (600, Celebrate), (900, Celebrate),
                        (1200, Celebrate), (3000, ResetGame)]) \<and>
   (vec_z (ball_position s) < - tableDepth / 2 - ballRadius \<and> playerScore s + 1 \<ge> winningScore \<longrightarrow>
      timeouts (checkScoring R s)
        = timeouts s @ [(0, Celebrate), (300, Celebrate), (600, Celebrate), (900, Celebrate),
                        (1200, Celebrate), (3000, ResetGame)]) \<and>
   (k < length (timeouts t) \<and> timeouts t ! k = (3000, ResetGame) \<longrightarrow>
      playerScore (fireTimeout R k t) = 0 \<and>
      aiScore (fireTimeout R k t) = 0 \<and>
      gameLevel (fireTimeout R k t) = gameLevel t + 1 \<and>
      ballSpeed (fireTimeout R k t)
        = min (0.5 + real_of_int (gameLevel (fireTimeout R k t)) * 0.05) 0.8 \<and>
      timeouts (fireTimeout R k t)
        = take k (timeouts t) @ drop (Suc k) (timeouts t) @ [(1000, LaunchBall)])"
proof (intro conjI impI)
  assume "playerScore s \<ge> winningScore \<or> aiScore s \<ge> winningScore"
  then show "timeouts (checkGameEnd s)
        = timeouts s @ [(0, Celebrate), (300, Celebrate), (600, Celebrate), (900, Celebrate),
                        (1200, Celebrate), (3000, ResetGame)]"
    by (simp add: checkGameEnd_timeouts)
next
  assume "vec_z (ball_position s) > tableDepth / 2 + ballRadius \<and> aiScore s + 1 \<ge> winningScore"
  then show "timeouts (checkScoring R s)
        = timeouts s @ [(0, Celebrate), (300, Celebrate), (600, Celebrate), (900, Celebrate),
                        (1200, Celebrate), (3000, ResetGame)]"
    by (simp add: checkScoring_timeouts checkGameEnd_timeouts)
next
  assume "vec_z (ball_position s) < - tableDepth / 2 - ballRadius \<and> playerScore s + 1 \<ge> winningScore"
  then show "timeouts (checkScoring R s)
        = timeouts s @ [(0, Celebrate), (300, Celebrate), (600, Celebrate), (900, Celebrate),
                        (1200, Celebrate), (3000, ResetGame)]"
    by (simp add: checkScoring_timeouts checkGameEnd_timeouts dims)
next
  assume due: "k < length (timeouts t) \<and> timeouts t ! k = (3000, ResetGame)"
  then have fire: "fireTimeout R k t
      = resetGame R (t\<lparr>timeouts := take k (timeouts t) @ drop (Suc k) (timeouts t)\<rparr>)"
    by (simp add: fireTimeout_def)
  show "playerScore (fireTimeout R k t) = 0" "aiScore (fireTimeout R k t) = 0"
       "gameLevel (fireTimeout R k t) = gameLevel t + 1"
       "ballSpeed (fireTimeout R k t)
          = min (0.5 + real_of_int (gameLevel (fireTimeout R k t)) * 0.05) 0.8"
       "timeouts (fireTimeout R k t)
          = take k (timeouts t) @ drop (Suc k) (timeouts t) @ [(1000, LaunchBall)]"
    unfolding fire by (simp_all add: resetGame_simps)
qed

lemma checkGameEnd_reset_example:
  "aiScore (checkScoring steady matchPointAi) \<ge> winningScore \<and>
   vec_z (ball_position matchPointAi) > tableDepth / 2 + ballRadius \<and>
   aiScore matchPointAi + 1 \<ge> winningScore \<and>
   timeouts (checkScoring steady matchPointAi)
     = [(1000, LaunchBall), (0, Celebrate), (300, Celebrate), (600, Celebrate),
        (900, Celebrate), (1200, Celebrate), (3000, ResetGame)] \<and>
   vec_z (ball_position matchPointPlayer) < - tableDepth / 2 - ballRadius \<and>
   playerScore matchPointPlayer + 1 \<ge> winningScore \<and>
   timeouts (checkScoring steady matchPointPlayer)
     = [(1000, LaunchBall), (0, Celebrate), (300, Celebrate), (600, Celebrate),
        (900, Celebrate), (1200, Celebrate), (3000, ResetGame)] \<and>
   6 < length (timeouts (checkScoring steady matchPointAi)) \<and>
   timeouts (checkScoring steady matchPointAi) ! 6 = (3000, ResetGame) \<and>
   playerScore (fireTimeout steady 6 (checkScoring steady matchPointAi)) = 0 \<and>
   aiScore (fireTimeout steady 6 (checkScoring steady matchPointAi)) = 0 \<and>
   gameLevel (fireTimeout steady 6 (checkScoring steady matchPointAi)) = 2 \<and>
   ballSpeed (fireTimeout steady 6 (checkScoring steady matchPointAi)) = 0.6"
proof -
  let ?R = steady
  let ?t = "checkScoring ?R matchPointAi"
  have sc: "aiScore ?t = 5"
    by (simp add: checkScoring_scores matchPoint_simps)
  note A = checkGameEnd_reset [of matchPointAi ?R 6 ?t]
  note B = checkGameEnd_reset [of matchPointPlayer ?R 6 ?t]
  have h1: "vec_z (ball_position matchPointAi) > tableDepth / 2 + ballRadius \<and>
            aiScore matchPointAi + 1 \<ge> winningScore"
    using matchPoint_simps(1) by (simp add: matchPoint_simps(2) winningScore_def)
  have h2: "vec_z (ball_position matchPointPlayer) < - tableDepth / 2 - ballRadius \<and>
            playerScore matchPointPlayer + 1 \<ge> winningScore"
    using matchPoint_simps(6) by (simp add: matchPoint_simps(8) winningScore_def)
  have tm: "timeouts ?t = [(1000, LaunchBall), (0, Celebrate), (300, Celebrate), (600, Celebrate),
        (900, Celebrate), (1200, Celebrate), (3000, ResetGame)]"
    using A[THEN conjunct2, THEN conjunct1, THEN mp, OF h1] by (simp add: matchPoint_simps(4))
  have tp: "timeouts (checkScoring ?R matchPointPlayer)
     = [(1000, LaunchBall), (0, Celebrate), (300, Celebrate), (600, Celebrate),
        (900, Celebrate), (1200, Celebrate), (3000, ResetGame)]"
    using B[THEN conjunct2, THEN conjunct2, THEN conjunct1, THEN mp, OF h2]
    by (simp add: matchPoint_simps(9))
  have due: "6 < length (timeouts ?t)" "timeouts ?t ! 6 = (3000, ResetGame)"
    by (simp_all add: tm)
  have lv: "gameLevel ?t = 1" by (simp add: matchPoint_simps)
  have fired: "playerScore (fireTimeout ?R 6 ?t) = 0" "aiScore (fireTimeout ?R 6 ?t) = 0"
       "gameLevel (fireTimeout ?R 6 ?t) = 2" "ballSpeed (fireTimeout ?R 6 ?t) = 0.6"
    using A[THEN conjunct2, THEN conjunct2, THEN conjunct2, THEN mp, OF conjI[OF due]] lv
    by simp_all
  show ?thesis
    using sc tm tp due fired h1 h2 by (simp add: winningScore_def)
qed

text \<open>
  C4. Once a score reaches \<open>winningScore\<close>, both scores are to be reset and \<open>gameLevel\<close>
  is to grow by exactly 1, after the one delay of three seconds. \<open>checkGameEnd\<close> starts that
  delay, but \<open>checkScoring\<close> has served again just before it, play goes on while the reset is
  pending, and a further point that leaves a score at \<open>winningScore\<close> or above starts a
  delay of its own. In the run from \<open>deuce\<close> the player's fifth point and, 1.3 seconds
  later, the AI's fifth point leave two resets pending; when both have run, within three
  seconds of the AI's fifth point, \<open>gameLevel\<close> has grown from 1 to 3 and \<open>ballSpeed\<close> is
  0.65, where one end of a game gives 2 and 0.6.
\<close>

theorem round_end_twice:
  "playerScore deuce = 4 \<and> aiScore deuce = 4 \<and> gameLevel deuce = 1 \<and> timeouts deuce = [] \<and>
   playerScore firstPoint = 5 \<and> aiScore firstPoint = 4 \<and>
   timeouts firstPoint
     = [(0, Celebrate), (300, Celebrate), (600, Celebrate), (900, Celebrate),
        (1200, Celebrate), (3000, ResetGame)] \<and>
   ball_position firstPoint = \<lparr>vec_x = 0, vec_y = 0.03, vec_z = 0\<rparr> \<and>
   ballVelocity firstPoint = \<lparr>vec_x = 0, vec_y = 0, vec_z = 0.5\<rparr> \<and>
   timeouts firstBursts = [(3000, ResetGame)] \<and>
   playerScore secondPoint = 5 \<and> aiScore secondPoint = 5 \<and> gameLevel secondPoint = 1 \<and>
   timeouts secondPoint
     = [(3000, ResetGame), (0, Celebrate), (300, Celebrate), (600, Celebrate), (900, Celebrate),
        (1200, Celebrate), (3000, ResetGame)] \<and>
   timeouts secondBursts = [(3000, ResetGame), (3000, ResetGame)] \<and>
   playerScore firstReset = 0 \<and> aiScore firstReset = 0 \<and>
   gameLevel firstReset = 2 \<and> ballSpeed firstReset = 0.6 \<and>
   timeouts firstReset = [(3000, ResetGame), (1000, LaunchBall)] \<and>
   timeouts served = [(3000, ResetGame)] \<and>
   playerScore secondReset = 0 \<and> aiScore secondReset = 0 \<and>
   gameLevel secondReset = 3 \<and> ballSpeed secondReset = 0.65 \<and>
   timeouts secondReset = [(1000, LaunchBall)]"
  using deuce_simps(1-5) deuce_first_point(1,2,5,6,7) deuce_run
  by simp

section \<open>Disposal and the per-frame callback\<close>

text \<open>
  C5. By the specification, \<open>dispose\<close> removes from the scene the update callback that
  \<open>initialize\<close> registered. The code does not: \<open>initialize\<close> registers the function object
  made by one call of \<open>bind\<close>, \<open>dispose\<close> asks the scene to remove the object made by a
  second call of \<open>bind\<close>, which \<open>indexOf\<close> cannot find, so the list is left as it was. On
  a fresh scene the callback registered by \<open>initialize\<close> has reference 0 and is still
  registered after \<open>dispose\<close>.
\<close>

theorem dispose_keeps_callback:
  "onUpdateCallbacks (arScene (initialize R (constructor scene0))) = [0] \<and>
   onUpdateCallbacks (arScene (dispose (initialize R (constructor scene0)))) = [0]"
proof -
  have reg: "onUpdateCallbacks (arScene (initialize R (constructor scene0))) = [0]"
       "allocated (arScene (initialize R (constructor scene0))) = 1"
    by (simp_all add: initialize_callbacks constructor_def scene0_def)
  then have "onUpdateCallbacks (arScene (dispose (initialize R (constructor scene0)))) = [0]"
    by (simp add: dispose_callbacks)
  with reg show ?thesis by simp
qed

section \<open>The order of one update\<close>




section \<open>The volume of the AI paddle\<close>




section \<open>The particle pool is bounded\<close>

text \<open>
  C8. \<open>createParticlePool\<close> builds a pool of ten systems, \<open>emitParticles\<close> never changes
  the size of the pool, and the pool has ten systems in every state of a session. When
  every slot of the pool is active, a call of \<open>emitParticles\<close> returns the game exactly as
  it was: nothing is queued, nothing is drawn from the random source, and no field
  changes.
\<close>

theorem emitParticles_pool_exhausted:
  "length (particlePool (createParticlePool R (constructor sc))) = 10 \<and>
   length (particlePool (emitParticles R position color count speed s))
     = length (particlePool s) \<and>
   (session R s \<longrightarrow> length (particlePool s) = 10) \<and>
   ((\<forall>ps \<in> set (particlePool s). active ps) \<longrightarrow>
      emitParticles R position color count speed s = s)"
proof (intro conjI impI)
  show "length (particlePool (createParticlePool R (constructor sc))) = 10"
    by (simp add: createParticlePool_length constructor_def)
  show "length (particlePool (emitParticles R position color count speed s))
          = length (particlePool s)"
    by simp
  show "length (particlePool s) = 10" if "session R s"
    using that by (rule session_pool_size)
  assume "\<forall>ps \<in> set (particlePool s). active ps"
  then have "findInactive (particlePool s) = None"
    by (simp add: findInactive_None)
  then show "emitParticles R position color count speed s = s"
    by (simp add: emitParticles_def)
qed

theorem emitParticles_pool_exhausted_witness:
  "list_all active (particlePool exhausted) \<and>
   length (particlePool exhausted) = 10 \<and>
   emitParticles steady \<lparr>vec_x = 0, vec_y = 0.03, vec_z = 0\<rparr> (hexColor 0x00ffff) 30 0.15
     exhausted = exhausted \<and>
   session steady kickoff \<and>
   length (particlePool kickoff) = 10"
proof -
  have h: "\<forall>ps \<in> set (particlePool exhausted). active ps"
    by (simp add: exhausted_def)
  then have "list_all active (particlePool exhausted)"
    by (simp add: list_all_iff)
  moreover have "length (particlePool exhausted) = 10"
    by (simp add: exhausted_def)
  moreover note session_kickoff
  moreover note h emitParticles_pool_exhausted
    [of steady scene0 "\<lparr>vec_x = 0, vec_y = 0.03, vec_z = 0\<rparr>" "hexColor 0x00ffff" 30 "0.15"
        exhausted]
    emitParticles_pool_exhausted
    [of steady scene0 "\<lparr>vec_x = 0, vec_y = 0.03, vec_z = 0\<rparr>" "hexColor 0x00ffff" 30 "0.15"
        kickoff]
  ultimately show ?thesis by blast
qed

section \<open>The serve\<close>

text \<open>
  C9. After every \<open>launchBall\<close> the z-component of the launch velocity has magnitude at
  least 0.3, whatever the random draws; so it is at least 0.3 of the current \<open>ballSpeed\<close>
  whenever \<open>ballSpeed\<close> is at most 1, and so in every state of a session, where
  \<open>ballSpeed\<close> stays between 0.5 and 0.8.
\<close>

theorem launch_z_floor:
  "0.3 \<le> \<bar>vec_z (ballVelocity (launchBall R s))\<bar> \<and>
   (ballSpeed s \<le> 1 \<longrightarrow> 0.3 * ballSpeed s \<le> \<bar>vec_z (ballVelocity (launchBall R s))\<bar>) \<and>
   (session R s \<longrightarrow> 0.3 * ballSpeed s \<le> \<bar>vec_z (ballVelocity (launchBall R s))\<bar>)"
proof -
  have floor: "0.3 \<le> \<bar>vec_z (ballVelocity (launchBall R s))\<bar>"
    by (simp add: launchBall_velocity Let_def)
  moreover have slow: "0.3 * ballSpeed s \<le> \<bar>vec_z (ballVelocity (launchBall R s))\<bar>"
    if "ballSpeed s \<le> 1"
    using floor that by linarith
  moreover have "0.3 * ballSpeed s \<le> \<bar>vec_z (ballVelocity (launchBall R s))\<bar>"
    if "session R s"
    using session_ballSpeed[OF that] by (intro slow) linarith
  ultimately show ?thesis by blast
qed

theorem launch_z_floor_witness:
  "ballSpeed kickoff \<le> 1 \<and> session steady kickoff \<and>
   0.3 * ballSpeed kickoff \<le> \<bar>vec_z (ballVelocity (launchBall steady kickoff))\<bar>"
  using launch_z_floor [of steady kickoff] session_kickoff by (simp add: kickoff_simps)

text \<open>
  C10. When the z-component drawn by \<open>launchBall\<close> has magnitude below 0.3, it is
  overwritten by 0.3 or -0.3 and the vector is not renormalised: the launch speed is then
  strictly greater than \<open>ballSpeed\<close>. For the other draws the launch speed is \<open>ballSpeed\<close>.
  A serve along the x-axis at \<open>ballSpeed = 0.5\<close> leaves with velocity \<open>(0.5, 0, -0.3)\<close>.
\<close>

theorem launch_speed_exceeds:
  "(\<bar>sin (R (drawn s) * pi * 2) * cos ((R (drawn s + 1) - 0.5) * pi * 0.3) * ballSpeed s\<bar> < 0.3
      \<longrightarrow> magnitude (ballVelocity (launchBall R s)) > ballSpeed s) \<and>
   (0.3 \<le> \<bar>sin (R (drawn s) * pi * 2) * cos ((R (drawn s + 1) - 0.5) * pi * 0.3) * ballSpeed s\<bar>
      \<and> 0 \<le> ballSpeed s
      \<longrightarrow> magnitude (ballVelocity (launchBall R s)) = ballSpeed s)"
proof -
  define h where "h = R (drawn s) * pi * 2"
  define v where "v = (R (drawn s + 1) - 0.5) * pi * 0.3"
  define b where "b = ballSpeed s"
  define z where "z = sin h * cos v * b"
  have exceeds: "magnitude (ballVelocity (launchBall R s)) > b" if zlow: "\<bar>z\<bar> < 0.3"
  proof -
    have zsq: "z * z < 0.09"
    proof -
      have "\<bar>z\<bar> * \<bar>z\<bar> < 0.3 * 0.3"
        using zlow by (intro mult_strict_mono') auto
      then show ?thesis by (simp add: abs_mult_self_eq)
    qed
    have vel: "ballVelocity (launchBall R s) =
        \<lparr>vec_x = cos h * cos v * b, vec_y = sin v * b, vec_z = (if z > 0 then 0.3 else - 0.3)\<rparr>"
      using zlow by (simp add: launchBall_velocity Let_def h_def v_def b_def z_def)
    have "magnitude (ballVelocity (launchBall R s)) = sqrt (b * b - z * z + 0.09)"
      unfolding vel magnitude_def using launch_norm_sq[of h v b]
      by (simp add: z_def)
    moreover have "sqrt (b * b) < sqrt (b * b - z * z + 0.09)"
      using zsq by (intro real_sqrt_less_mono) linarith
    moreover have "b \<le> sqrt (b * b)" by simp
    ultimately show ?thesis by simp
  qed
  have exact: "magnitude (ballVelocity (launchBall R s)) = b" if zhigh: "0.3 \<le> \<bar>z\<bar>" and "0 \<le> b"
  proof -
    have vel: "ballVelocity (launchBall R s) =
        \<lparr>vec_x = cos h * cos v * b, vec_y = sin v * b, vec_z = z\<rparr>"
      using zhigh by (simp add: launchBall_velocity Let_def h_def v_def b_def z_def)
    have "magnitude (ballVelocity (launchBall R s)) = sqrt (b * b)"
      unfolding vel magnitude_def using launch_norm_sq[of h v b]
      by (simp add: z_def)
    with \<open>0 \<le> b\<close> show ?thesis by simp
  qed
  from exceeds exact show ?thesis
    unfolding z_def h_def v_def b_def by blast
qed

theorem launch_speed_exceeds_witness:
  "\<bar>sin (alongX (drawn kickoff) * pi * 2) * cos ((alongX (drawn kickoff + 1) - 0.5) * pi * 0.3)
      * ballSpeed kickoff\<bar> < 0.3 \<and>
   ballSpeed kickoff = 0.5 \<and>
   ballVelocity (launchBall alongX kickoff) = \<lparr>vec_x = 0.5, vec_y = 0, vec_z = - 0.3\<rparr> \<and>
   magnitude (ballVelocity (launchBall alongX kickoff)) > ballSpeed kickoff \<and>
   0.3 \<le> \<bar>sin (alongZ (drawn kickoff) * pi * 2) * cos ((alongZ (drawn kickoff + 1) - 0.5) * pi * 0.3)
      * ballSpeed kickoff\<bar> \<and>
   0 \<le> ballSpeed kickoff \<and>
   ballVelocity (launchBall alongZ kickoff) = \<lparr>vec_x = 0, vec_y = 0, vec_z = 0.5\<rparr> \<and>
   magnitude (ballVelocity (launchBall alongZ kickoff)) = ballSpeed kickoff"
proof -
  have low: "\<bar>sin (alongX (drawn kickoff) * pi * 2)
               * cos ((alongX (drawn kickoff + 1) - 0.5) * pi * 0.3) * ballSpeed kickoff\<bar> < 0.3"
    by (simp add: alongX_def kickoff_simps)
  have high: "0.3 \<le> \<bar>sin (alongZ (drawn kickoff) * pi * 2)
               * cos ((alongZ (drawn kickoff + 1) - 0.5) * pi * 0.3) * ballSpeed kickoff\<bar>
              \<and> 0 \<le> ballSpeed kickoff"
    by (simp add: alongZ_def kickoff_simps)
  have vx: "ballVelocity (launchBall alongX kickoff) = \<lparr>vec_x = 0.5, vec_y = 0, vec_z = - 0.3\<rparr>"
    by (simp add: launchBall_velocity Let_def alongX_def kickoff_simps)
  have vz: "ballVelocity (launchBall alongZ kickoff) = \<lparr>vec_x = 0, vec_y = 0, vec_z = 0.5\<rparr>"
    by (simp add: launchBall_velocity Let_def alongZ_def kickoff_simps)
  from low high vx vz
    launch_speed_exceeds [of alongX kickoff, THEN conjunct1, THEN mp, OF low]
    launch_speed_exceeds [of alongZ kickoff, THEN conjunct2, THEN mp, OF high]
  show ?thesis by (simp add: kickoff_simps)
qed

end
